(* ===== verification/TW_Prelude.thy ===== *)
theory TW_Prelude
  imports Complex_Main "HOL-Library.Multiset"
begin

text \<open>
  Shared vocabulary of the Trailwright development: the exceptions of the Python
  service as values, the Python built-ins the handlers use (\<open>dict\<close> lookup and
  comprehension, \<open>list.pop\<close>, \<open>int\<close> on a float, the cyclic index
  \<open>(i + 1) % len(t)\<close>), and the list, multiset and finiteness lemmas that the
  component theories share. Python floats are modelled as \<^typ>\<open>real\<close> and Python
  integers as \<^typ>\<open>int\<close> (or \<^typ>\<open>nat\<close> for indices and lengths).
\<close>

section \<open>Collections of facts\<close>

named_theorems py_defs \<open>defining equations of the Python built-in models\<close>
named_theorems tour_perm \<open>operations on tours that keep the multiset of identifiers\<close>
named_theorems dist_bounds \<open>range facts of the distance metric\<close>

section \<open>Exceptions as values\<close>

text \<open>
  The exception classes the code raises or tells apart, each with what \<open>str\<close> or the
  handler reads of it: the key of a \<open>KeyError\<close>, status and detail of an
  \<open>HTTPException\<close>, the message of the others. \<open>Exception\<close> stands for every other
  class below \<open>Exception\<close>.
\<close>

datatype error =
    KeyError string
  | HTTPException nat string
  | ValueError string
  | JSONDecodeError string
  | Exception string

type_synonym 'a result = "error + 'a"

abbreviation raise :: "error \<Rightarrow> 'a result" where
  "raise e \<equiv> Inl e"

abbreviation return :: "'a \<Rightarrow> 'a result" where
  "return v \<equiv> Inr v"

definition succeeds :: "'a result \<Rightarrow> bool" where
  "succeeds r = (case r of Inl _ \<Rightarrow> False | Inr _ \<Rightarrow> True)"

lemma succeeds_simps [simp]:
  "succeeds (Inr v)" "\<not> succeeds (Inl e)"
  by (simp_all add: succeeds_def)

lemma succeeds_iff: "succeeds r \<longleftrightarrow> (\<exists>v. r = Inr v)"
  by (cases r) simp_all

section \<open>Dictionaries\<close>

type_synonym ('k, 'v) dict = "'k \<rightharpoonup> 'v"

text \<open>\<open>d[k]\<close>: the value, or \<open>KeyError(k)\<close>.\<close>

definition py_lookup :: "(string, 'v) dict \<Rightarrow> string \<Rightarrow> 'v result" where
  [py_defs]: "py_lookup d k = (case d k of None \<Rightarrow> raise (KeyError k) | Some v \<Rightarrow> return v)"

text \<open>\<open>d.get(k, default)\<close>.\<close>

definition py_get :: "('k, 'v) dict \<Rightarrow> 'k \<Rightarrow> 'v \<Rightarrow> 'v" where
  [py_defs]: "py_get d k dflt = (case d k of None \<Rightarrow> dflt | Some v \<Rightarrow> v)"

text \<open>
  \<open>{key(x): x for x in xs}\<close>: the entries are stored from left to right, so of two
  elements with one key the later one stays.
\<close>

definition py_dict_by :: "('v \<Rightarrow> 'k) \<Rightarrow> 'v list \<Rightarrow> ('k, 'v) dict" where
  [py_defs]: "py_dict_by key xs = fold (\<lambda>x d. d(key x \<mapsto> x)) xs Map.empty"

lemma py_lookup_Some [simp]: "d k = Some v \<Longrightarrow> py_lookup d k = return v"
  by (simp add: py_lookup_def)

lemma py_lookup_None [simp]: "d k = None \<Longrightarrow> py_lookup d k = raise (KeyError k)"
  by (simp add: py_lookup_def)

lemma py_lookup_succeeds [simp]: "succeeds (py_lookup d k) \<longleftrightarrow> k \<in> dom d"
  by (auto simp: py_lookup_def split: option.splits)

lemma fold_upd_dom:
  "dom (fold (\<lambda>x d. d(key x \<mapsto> x)) xs m) = dom m \<union> key ` set xs"
  by (induction xs arbitrary: m) auto

lemma fold_upd_key:
  "fold (\<lambda>x d. d(key x \<mapsto> x)) xs m k = Some v \<Longrightarrow> m k = Some v \<or> (v \<in> set xs \<and> key v = k)"
proof (induction xs arbitrary: m)
  case Nil
  then show ?case by simp
next
  case (Cons a xs)
  then show ?case
    using Cons.IH [of "m(key a \<mapsto> a)"] by (auto split: if_splits)
qed

lemma fold_upd_snoc:
  "fold (\<lambda>x d. d(key x \<mapsto> x)) (xs @ [x]) m = (fold (\<lambda>x d. d(key x \<mapsto> x)) xs m)(key x \<mapsto> x)"
  by simp

lemma dom_py_dict_by [simp]: "dom (py_dict_by key xs) = key ` set xs"
  by (simp add: py_dict_by_def fold_upd_dom)

lemma py_dict_by_Some: "py_dict_by key xs k = Some v \<Longrightarrow> v \<in> set xs \<and> key v = k"
  using fold_upd_key [of key xs Map.empty k v] by (simp add: py_dict_by_def)

lemma py_dict_by_snoc: "py_dict_by key (xs @ [x]) = (py_dict_by key xs)(key x \<mapsto> x)"
  by (simp add: py_dict_by_def)

lemma py_dict_by_None [simp]: "k \<notin> key ` set xs \<Longrightarrow> py_dict_by key xs k = None"
  using dom_py_dict_by [of key xs] by (auto simp: domIff simp del: dom_py_dict_by)

lemma py_dict_by_distinct:
  "distinct (map key xs) \<Longrightarrow> x \<in> set xs \<Longrightarrow> py_dict_by key xs (key x) = Some x"
proof (induction xs rule: rev_induct)
  case Nil
  then show ?case by simp
next
  case (snoc y ys)
  then show ?case by (auto simp: py_dict_by_snoc)
qed

text \<open>Of several values with the same key the last one is kept.\<close>

lemma py_dict_by_find: "py_dict_by key xs k = find (\<lambda>x. key x = k) (rev xs)"
  by (induction xs rule: rev_induct) (auto simp: py_dict_by_snoc py_dict_by_def)

section \<open>Lists\<close>

text \<open>
  \<open>xs.pop(i)\<close> for an index in range: the element and the list without it.
  Python raises \<open>IndexError\<close> out of range; every use in the development comes
  with the lemma that its index is in range.
\<close>

definition py_pop :: "'a list \<Rightarrow> nat \<Rightarrow> 'a \<times> 'a list" where
  [py_defs]: "py_pop xs i = (xs ! i, take i xs @ drop (Suc i) xs)"

lemma fst_py_pop [simp]: "fst (py_pop xs i) = xs ! i"
  by (simp add: py_pop_def)

lemma length_py_pop [simp]: "i < length xs \<Longrightarrow> length (snd (py_pop xs i)) = length xs - 1"
  by (simp add: py_pop_def)

lemma mset_py_pop [tour_perm]:
  "i < length xs \<Longrightarrow> add_mset (xs ! i) (mset (snd (py_pop xs i))) = mset xs"
proof -
  assume "i < length xs"
  then have "xs = take i xs @ xs ! i # drop (Suc i) xs"
    by (simp add: id_take_nth_drop)
  then have "mset xs = mset (take i xs @ xs ! i # drop (Suc i) xs)"
    by simp
  then show ?thesis by (simp add: py_pop_def)
qed

lemma set_py_pop_subset: "set (snd (py_pop xs i)) \<subseteq> set xs"
  by (auto simp: py_pop_def dest: in_set_takeD in_set_dropD)

lemma py_pop_0 [simp]: "py_pop (x # xs) 0 = (x, xs)"
  by (simp add: py_pop_def)

lemma py_pop_Suc [simp]: "py_pop (x # xs) (Suc i) = (xs ! i, x # snd (py_pop xs i))"
  by (simp add: py_pop_def)

text \<open>Removing the element at an index is \<^const>\<open>remove1\<close> when no earlier element equals it.\<close>

lemma py_pop_remove1:
  "i < length xs \<Longrightarrow> \<forall>j<i. xs ! j \<noteq> xs ! i \<Longrightarrow> snd (py_pop xs i) = remove1 (xs ! i) xs"
proof (induction xs arbitrary: i)
  case Nil
  then show ?case by simp
next
  case (Cons x xs)
  show ?case
  proof (cases i)
    case 0
    then show ?thesis by simp
  next
    case (Suc k)
    with Cons.prems have "x \<noteq> xs ! k" by (auto dest: spec [of _ 0])
    moreover from Cons.prems Suc have "\<forall>j<k. xs ! j \<noteq> xs ! k" by fastforce
    moreover from Cons.prems Suc have "k < length xs" by simp
    ultimately show ?thesis using Cons.IH [of k] Suc by simp
  qed
qed

text \<open>
  The library's \<^const>\<open>arg_min_list\<close> returns the first element of least value: the
  element at a position whose value is least and strictly below every earlier one.
\<close>

lemma arg_min_list_first:
  fixes f :: "'a \<Rightarrow> 'b::linorder"
  shows "i < length xs \<Longrightarrow> \<forall>j < length xs. f (xs ! i) \<le> f (xs ! j) \<Longrightarrow>
     \<forall>j < i. f (xs ! i) < f (xs ! j) \<Longrightarrow> arg_min_list f xs = xs ! i"
proof (induction xs arbitrary: i)
  case Nil
  then show ?case by simp
next
  case (Cons x xs)
  show ?case
  proof (cases xs)
    case Nil
    with Cons.prems show ?thesis by simp
  next
    case (Cons y ys)
    show ?thesis
    proof (cases i)
      case 0
      have "arg_min_list f xs \<in> set xs"
        using Cons by (intro arg_min_list_in) simp
      then obtain j where "j < length xs" "arg_min_list f xs = xs ! j"
        by (auto simp: in_set_conv_nth)
      with Cons.prems(2) 0 have "f x \<le> f (arg_min_list f xs)"
        by (auto dest: spec [of _ "Suc j"])
      with 0 Cons show ?thesis by (simp add: Let_def)
    next
      case (Suc k)
      from Cons.prems Suc have "arg_min_list f xs = xs ! k"
        by (intro Cons.IH) fastforce+
      moreover from Cons.prems(3) Suc have "f (xs ! k) < f x"
        by (auto dest: spec [of _ 0])
      ultimately show ?thesis using Suc Cons by (auto simp: Let_def)
    qed
  qed
qed

text \<open>The first element that satisfies a predicate, through the list operations of a nested loop.\<close>

lemma find_append:
  "find P (xs @ ys) = (case find P xs of None \<Rightarrow> find P ys | Some x \<Rightarrow> Some x)"
  by (induction xs) simp_all

lemma find_map: "find P (map f xs) = map_option f (find (\<lambda>x. P (f x)) xs)"
  by (induction xs) simp_all

lemma find_filter: "find P (filter Q xs) = find (\<lambda>x. Q x \<and> P x) xs"
  by (induction xs) simp_all

lemma find_Some_set: "find P xs = Some x \<Longrightarrow> x \<in> set xs \<and> P x"
  by (auto simp: find_Some_iff)

lemma find_filter_hd: "find P xs = (case filter P xs of [] \<Rightarrow> None | x # ys \<Rightarrow> Some x)"
  by (induction xs) auto

text \<open>
  In a list sorted by an asymmetric relation \<open>find\<close> returns the least element
  with the property; a concatenation of sorted lists in sorted order is sorted.
\<close>

lemma find_sorted_wrt_first:
  assumes "sorted_wrt R xs" "find P xs = Some x" "y \<in> set xs" "R y x"
    and asym: "\<And>a b. R a b \<Longrightarrow> \<not> R b a"
  shows "\<not> P y"
  using assms(1-4)
proof (induction xs)
  case Nil
  then show ?case by simp
next
  case (Cons a xs)
  show ?case
  proof (cases "P a")
    case True
    with Cons.prems have "x = a" by simp
    with Cons.prems asym show ?thesis by auto
  next
    case False
    with Cons show ?thesis by auto
  qed
qed

lemma sorted_wrt_concat_map:
  assumes "sorted_wrt S is" "\<And>i. i \<in> set is \<Longrightarrow> sorted_wrt R (f i)"
    and "\<And>i i' x y. S i i' \<Longrightarrow> x \<in> set (f i) \<Longrightarrow> y \<in> set (f i') \<Longrightarrow> R x y"
  shows "sorted_wrt R (concat (map f is))"
  using assms(1,2)
proof (induction "is")
  case Nil
  then show ?case by simp
next
  case (Cons i "is")
  then show ?case by (auto simp: sorted_wrt_append intro: assms(3))
qed

section \<open>Cyclic neighbours\<close>

text \<open>
  The loops over a tour visit the index pairs \<open>(i, (i + 1) % len(t))\<close>. The pairs of
  elements they read are those of the tour zipped with its rotation.
\<close>

definition cyclic_legs :: "'a list \<Rightarrow> ('a \<times> 'a) list" where
  "cyclic_legs t = zip t (rotate1 t)"

lemma length_cyclic_legs [simp]: "length (cyclic_legs t) = length t"
  by (simp add: cyclic_legs_def)

lemma cyclic_legs_nth:
  "i < length t \<Longrightarrow> cyclic_legs t ! i = (t ! i, t ! (Suc i mod length t))"
  by (simp add: cyclic_legs_def nth_rotate1)

lemma cyclic_legs_map_index:
  "map (\<lambda>i. (t ! i, t ! ((i + 1) mod length t))) [0..<length t] = cyclic_legs t"
  by (rule nth_equalityI) (simp_all add: cyclic_legs_nth)

lemma cyclic_legs_Nil [simp]: "cyclic_legs [] = []"
  by (simp add: cyclic_legs_def)

lemma cyclic_legs_Cons: "cyclic_legs (x # xs) = zip (x # xs) (xs @ [x])"
  by (simp add: cyclic_legs_def)

lemma cyclic_legs_map: "cyclic_legs (map f t) = map (map_prod f f) (cyclic_legs t)"
  by (simp add: cyclic_legs_def rotate1_map zip_map_map map_prod_def)

lemma cyclic_legs_eq_Nil [simp]: "cyclic_legs t = [] \<longleftrightarrow> t = []"
  using length_cyclic_legs [of t] by (simp del: length_cyclic_legs flip: length_0_conv)

lemma last_cyclic_legs: "t \<noteq> [] \<Longrightarrow> last (cyclic_legs t) = (last t, hd t)"
proof -
  assume t: "t \<noteq> []"
  then have "last (cyclic_legs t) = cyclic_legs t ! (length t - 1)"
    by (simp add: last_conv_nth cyclic_legs_def)
  also from t have "\<dots> = (t ! (length t - 1), t ! 0)"
    by (simp add: cyclic_legs_nth)
  finally show ?thesis using t by (simp add: last_conv_nth hd_conv_nth)
qed

lemma set_cyclic_legs_subset: "(a, b) \<in> set (cyclic_legs t) \<Longrightarrow> a \<in> set t \<and> b \<in> set t"
  by (auto simp: cyclic_legs_def dest: set_zip_leftD set_zip_rightD)

lemma mod_length_less [simp]: "i < length t \<Longrightarrow> Suc i mod length t < length t"
  by (cases t) simp_all

lemma nth_succ_mem [simp]: "i < length t \<Longrightarrow> t ! (Suc i mod length t) \<in> set t"
  by (simp add: nth_mem)

text \<open>
  A loop that reads both ends of every leg reads the elements of the tour in the order
  of the tour, each a second time later on: the first element with a property is the
  same in both sequences.
\<close>

definition leg_reads :: "'a list \<Rightarrow> 'a list" where
  "leg_reads t = concat (map (\<lambda>(a, b). [a, b]) (cyclic_legs t))"

lemma find_zip_shifted:
  "find P (concat (map (\<lambda>(a, b). [a, b]) (zip (x # xs) (xs @ [y])))) = find P (x # xs @ [y])"
  by (induction xs arbitrary: x) simp_all

lemma find_leg_reads: "find P (leg_reads t) = find P t"
proof (cases t)
  case Nil
  then show ?thesis by (simp add: leg_reads_def)
next
  case (Cons x xs)
  have "find P (leg_reads t) = find P (x # xs @ [x])"
    by (simp only: Cons leg_reads_def cyclic_legs_Cons find_zip_shifted)
  also have "\<dots> = find P (x # xs)"
    by (simp add: find_append split: option.splits)
  finally show ?thesis by (simp add: Cons)
qed

section \<open>Permutations of a list\<close>

lemma finite_permutations: "finite {ys. mset ys = mset xs}"
proof (rule finite_subset)
  show "{ys. mset ys = mset xs} \<subseteq> {ys. set ys \<subseteq> set xs \<and> length ys = length xs}"
    by (auto dest: mset_eq_setD mset_eq_length)
  show "finite {ys. set ys \<subseteq> set xs \<and> length ys = length xs}"
    by (rule finite_lists_length_eq) simp
qed

lemma finite_permutations_below: "finite {ys. mset ys = mset xs \<and> P ys}"
  by (rule finite_subset [OF _ finite_permutations [of xs]]) auto

lemma mset_same_first:
  "mset ys = mset xs \<Longrightarrow> set ys = set xs \<and> length ys = length xs"
  by (auto dest: mset_eq_setD mset_eq_length)

section \<open>Numbers\<close>

text \<open>\<open>int(x)\<close> on a float rounds towards zero.\<close>

definition py_int :: "real \<Rightarrow> int" where
  [py_defs]: "py_int x = (if 0 \<le> x then \<lfloor>x\<rfloor> else \<lceil>x\<rceil>)"

lemma py_int_nonneg [simp]: "0 \<le> x \<Longrightarrow> py_int x = \<lfloor>x\<rfloor>"
  by (simp add: py_int_def)

lemma py_int_ge_0 [simp]: "0 \<le> x \<Longrightarrow> 0 \<le> py_int x"
  by (simp add: py_int_def)

lemma py_int_le: "0 \<le> x \<Longrightarrow> real_of_int (py_int x) \<le> x"
  by (simp add: py_int_def)

lemma py_int_gt: "0 \<le> x \<Longrightarrow> x - 1 < real_of_int (py_int x)"
  by (simp add: py_int_def)

lemma py_int_of_int [simp]: "py_int (of_int n) = n"
  by (simp add: py_int_def)

lemma py_int_abs_le: "\<bar>real_of_int (py_int x)\<bar> \<le> \<bar>x\<bar>"
  by (simp add: py_int_def)

end
