(* ===== verification/TW_Models.thy ===== *)
theory TW_Models
  imports TW_Prelude
begin

text \<open>
  The request and response models of \<open>src/apps/api/main.py\<close> that the route
  optimiser reads and writes: \<open>Place\<close>, \<open>OptimizeDayRequest\<close> and
  \<open>OptimizeDayResponse\<close>, with the validation pydantic applies to a request
  before the handler runs. The field \<open>id\<close> of \<open>Place\<close> is \<open>id_of\<close> here.
\<close>

section \<open>Place\<close>

record Place =
  id_of :: string
  lat :: real
  lng :: real
  name :: "string option"

text \<open>\<open>Place(id=..., lat=..., lng=...)\<close>: the name defaults to \<open>None\<close>.\<close>

definition mk_place :: "string \<Rightarrow> real \<Rightarrow> real \<Rightarrow> Place" where
  "mk_place i la lo = \<lparr>id_of = i, lat = la, lng = lo, name = None\<rparr>"

lemma mk_place_sel [simp]:
  "id_of (mk_place i la lo) = i" "lat (mk_place i la lo) = la"
  "lng (mk_place i la lo) = lo" "name (mk_place i la lo) = None"
  by (simp_all add: mk_place_def)

section \<open>The request and the response of \<open>/optimize-day\<close>\<close>

record OptimizeDayRequest =
  places :: "Place list"
  travel_mode :: string

record OptimizeDayResponse =
  order :: "string list"
  distances :: "real list"
  durations :: "int list"
  total_distance :: real
  total_duration :: int

text \<open>
  The pattern of the field \<open>travel_mode\<close>,
  \<open>^(DRIVING|WALKING|TRANSIT|BICYCLING)$\<close>, as the list of strings it accepts, and
  the field's default.
\<close>

definition travel_modes :: "string list" where
  "travel_modes = [''DRIVING'', ''WALKING'', ''TRANSIT'', ''BICYCLING'']"

definition valid_travel_mode :: "string \<Rightarrow> bool" where
  "valid_travel_mode m \<longleftrightarrow> m \<in> set travel_modes"

definition default_travel_mode :: string where
  "default_travel_mode = ''DRIVING''"

definition mk_request :: "Place list \<Rightarrow> OptimizeDayRequest" where
  "mk_request ps = \<lparr>places = ps, travel_mode = default_travel_mode\<rparr>"

lemma valid_travel_mode_iff:
  "valid_travel_mode m \<longleftrightarrow>
     m = ''DRIVING'' \<or> m = ''WALKING'' \<or> m = ''TRANSIT'' \<or> m = ''BICYCLING''"
  by (auto simp: valid_travel_mode_def travel_modes_def)

lemma default_travel_mode_valid [simp]: "valid_travel_mode default_travel_mode"
  by (simp add: valid_travel_mode_iff default_travel_mode_def)

lemma mk_request_sel [simp]:
  "places (mk_request ps) = ps" "travel_mode (mk_request ps) = ''DRIVING''"
  by (simp_all add: mk_request_def default_travel_mode_def)

section \<open>Identifiers of a list of places\<close>

text \<open>\<open>[place.id for place in places]\<close>.\<close>

abbreviation ids :: "Place list \<Rightarrow> string list" where
  "ids ps \<equiv> map id_of ps"

end
