(* ===== verification/TW_Distance.thy ===== *)
theory TW_Distance
  imports TW_Models
begin

text \<open>
  The distance metric of the route optimiser: \<open>calculate_distance\<close> of
  \<open>src/apps/api/main.py\<close>, the haversine great-circle distance in kilometres on a
  sphere of radius 6371. The numpy functions it calls are modelled on the reals:
  \<open>np.radians\<close>, \<open>np.sin\<close>, \<open>np.cos\<close>, \<open>np.sqrt\<close> and \<open>np.arctan2\<close> are the
  exact functions, without rounding, infinities or NaN.
\<close>

section \<open>The numpy functions\<close>

definition radians :: "real \<Rightarrow> real" where
  "radians x = x * pi / 180"

text \<open>The angle of the point \<open>(x, y)\<close>, in \<open>(-pi, pi]\<close>, with \<open>arctan2 0 0 = 0\<close>.\<close>

definition arctan2 :: "real \<Rightarrow> real \<Rightarrow> real" where
  "arctan2 y x =
     (if 0 < x then arctan (y / x)
      else if x < 0 then (if 0 \<le> y then arctan (y / x) + pi else arctan (y / x) - pi)
      else if 0 < y then pi / 2
      else if y < 0 then - (pi / 2)
      else 0)"

section \<open>The distance\<close>

text \<open>The local \<open>a\<close> of \<open>calculate_distance\<close>: the haversine of the central angle.\<close>

definition haversine_a :: "real \<Rightarrow> real \<Rightarrow> real \<Rightarrow> real \<Rightarrow> real" where
  "haversine_a lat1 lng1 lat2 lng2 =
     (let lat1_rad = radians lat1;
          lat2_rad = radians lat2;
          delta_lat = radians (lat2 - lat1);
          delta_lng = radians (lng2 - lng1)
      in (sin (delta_lat / 2))\<^sup>2 + cos lat1_rad * cos lat2_rad * (sin (delta_lng / 2))\<^sup>2)"

definition calculate_distance :: "real \<Rightarrow> real \<Rightarrow> real \<Rightarrow> real \<Rightarrow> real" where
  "calculate_distance lat1 lng1 lat2 lng2 =
     (let R = 6371;
          a = haversine_a lat1 lng1 lat2 lng2;
          c = 2 * arctan2 (sqrt a) (sqrt (1 - a))
      in R * c)"

text \<open>The distance between two places, as every caller computes it.\<close>

definition place_distance :: "Place \<Rightarrow> Place \<Rightarrow> real" where
  "place_distance p1 p2 = calculate_distance (lat p1) (lng p1) (lat p2) (lng p2)"

section \<open>Range of the haversine term\<close>

lemma radians_0 [simp]: "radians 0 = 0"
  by (simp add: radians_def)

lemma radians_diff: "radians (x - y) = radians x - radians y"
  by (simp add: radians_def algebra_simps diff_divide_distrib)

lemma radians_minus: "radians (- x) = - radians x"
  by (simp add: radians_def)

lemma radians_abs: "radians \<bar>x\<bar> = \<bar>radians x\<bar>"
  by (simp add: radians_def abs_mult)

lemma sin_half_squared: "(sin (x / 2))\<^sup>2 = (1 - cos x) / 2" for x :: real
  using cos_double_sin [of "x / 2"] by simp

lemma sin_squared_unit [simp]: "(sin x)\<^sup>2 \<le> 1" for x :: real
  by (simp add: sin_squared_eq)

lemma haversine_a_expand:
  "2 * haversine_a lat1 lng1 lat2 lng2 =
     1 - (1 - (sin (radians (lng2 - lng1) / 2))\<^sup>2) * cos (radians lat2 - radians lat1)
       + (sin (radians (lng2 - lng1) / 2))\<^sup>2 * cos (radians lat2 + radians lat1)"
proof -
  define s where "s = (sin (radians (lng2 - lng1) / 2))\<^sup>2"
  define D where "D = radians lat2 - radians lat1"
  define S where "S = radians lat2 + radians lat1"
  have cc: "cos (radians lat1) * cos (radians lat2) = (cos D + cos S) / 2"
    using cos_times_cos [of "radians lat2" "radians lat1"] by (simp add: mult.commute D_def S_def)
  have "haversine_a lat1 lng1 lat2 lng2 = (1 - cos D) / 2 + (cos D + cos S) / 2 * s"
    by (simp add: haversine_a_def Let_def radians_diff [of lat2 lat1] sin_half_squared
        cc s_def D_def [symmetric])
  then have "2 * haversine_a lat1 lng1 lat2 lng2 = 1 - (1 - s) * cos D + s * cos S"
    by (simp add: field_simps)
  then show ?thesis by (simp add: s_def D_def S_def)
qed

lemma haversine_a_ge_0 [dist_bounds]: "0 \<le> haversine_a lat1 lng1 lat2 lng2"
proof -
  let ?s = "(sin (radians (lng2 - lng1) / 2))\<^sup>2"
  have s: "0 \<le> ?s" "?s \<le> 1"
    by simp_all
  have "(1 - ?s) * cos (radians lat2 - radians lat1) \<le> (1 - ?s) * 1"
    using s by (intro mult_left_mono) simp_all
  moreover have "?s * (- 1) \<le> ?s * cos (radians lat2 + radians lat1)"
    using s by (intro mult_left_mono) simp_all
  ultimately show ?thesis
    using haversine_a_expand [of lat1 lng1 lat2 lng2] by simp
qed

lemma haversine_a_le_1 [dist_bounds]: "haversine_a lat1 lng1 lat2 lng2 \<le> 1"
proof -
  let ?s = "(sin (radians (lng2 - lng1) / 2))\<^sup>2"
  have s: "0 \<le> ?s" "?s \<le> 1"
    by simp_all
  have "(1 - ?s) * (- 1) \<le> (1 - ?s) * cos (radians lat2 - radians lat1)"
    using s by (intro mult_left_mono) simp_all
  moreover have "?s * cos (radians lat2 + radians lat1) \<le> ?s * 1"
    using s by (intro mult_left_mono) simp_all
  ultimately show ?thesis
    using haversine_a_expand [of lat1 lng1 lat2 lng2] by simp
qed

section \<open>The distance as an arc sine\<close>

lemma arctan2_sqrt_arcsin:
  assumes "0 \<le> a" "a \<le> 1"
  shows "arctan2 (sqrt a) (sqrt (1 - a)) = arcsin (sqrt a)"
proof (cases "a = 1")
  case True
  then show ?thesis by (simp add: arctan2_def)
next
  case False
  with assms have lt: "a < 1" by simp
  then have "sqrt a < 1" using assms by (simp add: real_sqrt_lt_1_iff)
  moreover have "- 1 < sqrt a" using assms
    by (meson less_le_trans neg_less_0_iff_less real_sqrt_ge_zero zero_less_one)
  ultimately have "arcsin (sqrt a) = arctan (sqrt a / sqrt (1 - (sqrt a)\<^sup>2))"
    by (simp add: arcsin_arctan)
  with assms lt show ?thesis by (simp add: arctan2_def)
qed

lemma calculate_distance_arcsin:
  "calculate_distance lat1 lng1 lat2 lng2 =
     6371 * (2 * arcsin (sqrt (haversine_a lat1 lng1 lat2 lng2)))"
  by (simp add: calculate_distance_def Let_def arctan2_sqrt_arcsin dist_bounds)

section \<open>Range, symmetry and zeros of the distance\<close>

lemma sqrt_haversine_a_unit [dist_bounds]:
  "0 \<le> sqrt (haversine_a lat1 lng1 lat2 lng2)" "sqrt (haversine_a lat1 lng1 lat2 lng2) \<le> 1"
  by (simp_all add: dist_bounds)

lemma calculate_distance_nonneg [dist_bounds]: "0 \<le> calculate_distance lat1 lng1 lat2 lng2"
  by (simp add: calculate_distance_arcsin arcsin_nonneg dist_bounds)

lemma calculate_distance_le [dist_bounds]: "calculate_distance lat1 lng1 lat2 lng2 \<le> 6371 * pi"
proof -
  have "- 1 \<le> sqrt (haversine_a lat1 lng1 lat2 lng2)"
    using sqrt_haversine_a_unit (1) [of lat1 lng1 lat2 lng2] by linarith
  then have "arcsin (sqrt (haversine_a lat1 lng1 lat2 lng2)) \<le> pi / 2"
    by (rule arcsin_ubound) (rule sqrt_haversine_a_unit)
  then show ?thesis by (simp add: calculate_distance_arcsin)
qed

lemma haversine_a_sym: "haversine_a lat2 lng2 lat1 lng1 = haversine_a lat1 lng1 lat2 lng2"
proof -
  have "(sin (radians (x - y) / 2))\<^sup>2 = (sin (radians (y - x) / 2))\<^sup>2" for x y
  proof -
    have "radians (x - y) / 2 = - (radians (y - x) / 2)"
      by (simp add: radians_def field_simps)
    then show ?thesis by simp
  qed
  then show ?thesis
    by (simp add: haversine_a_def Let_def mult.commute)
qed

lemma haversine_a_same [simp]: "haversine_a la lo la lo = 0"
  by (simp add: haversine_a_def)

lemma calculate_distance_same [simp]: "calculate_distance la lo la lo = 0"
  by (simp add: calculate_distance_arcsin)

lemma calculate_distance_eq_0_iff:
  "calculate_distance lat1 lng1 lat2 lng2 = 0 \<longleftrightarrow> haversine_a lat1 lng1 lat2 lng2 = 0"
proof -
  have "arcsin (sqrt (haversine_a lat1 lng1 lat2 lng2)) = arcsin 0
      \<longleftrightarrow> sqrt (haversine_a lat1 lng1 lat2 lng2) = 0"
    by (rule arcsin_eq_iff) (simp_all add: dist_bounds)
  then show ?thesis by (simp add: calculate_distance_arcsin)
qed

text \<open>The distance grows with the haversine term, so distances compare as their terms do.\<close>

lemma calculate_distance_less_iff:
  "calculate_distance la1 lo1 la2 lo2 < calculate_distance lb1 lb2 lb3 lb4 \<longleftrightarrow>
     haversine_a la1 lo1 la2 lo2 < haversine_a lb1 lb2 lb3 lb4"
proof -
  have "arcsin (sqrt (haversine_a la1 lo1 la2 lo2)) < arcsin (sqrt (haversine_a lb1 lb2 lb3 lb4))
      \<longleftrightarrow> sqrt (haversine_a la1 lo1 la2 lo2) < sqrt (haversine_a lb1 lb2 lb3 lb4)"
    by (rule arcsin_less_mono) (simp_all add: dist_bounds)
  then show ?thesis by (simp add: calculate_distance_arcsin)
qed

lemma calculate_distance_le_iff:
  "calculate_distance la1 lo1 la2 lo2 \<le> calculate_distance lb1 lb2 lb3 lb4 \<longleftrightarrow>
     haversine_a la1 lo1 la2 lo2 \<le> haversine_a lb1 lb2 lb3 lb4"
  using calculate_distance_less_iff [of lb1 lb2 lb3 lb4 la1 lo1 la2 lo2] by (simp add: not_less [symmetric])

lemma place_distance_sym: "place_distance q p = place_distance p q"
  by (simp add: place_distance_def calculate_distance_def haversine_a_sym)

lemma place_distance_nonneg [simp]: "0 \<le> place_distance p q"
  by (simp add: place_distance_def dist_bounds)

lemma place_distance_self [simp]: "place_distance p p = 0"
  by (simp add: place_distance_def)

section \<open>Closed forms along a meridian and along the equator\<close>

lemma arcsin_abs_sin: "\<bar>x\<bar> \<le> pi / 2 \<Longrightarrow> arcsin \<bar>sin x\<bar> = \<bar>x\<bar>"
proof (cases "0 \<le> x")
  case True
  assume "\<bar>x\<bar> \<le> pi / 2"
  with True have "0 \<le> sin x" by (intro sin_ge_zero) (use pi_ge_zero in linarith)+
  with True \<open>\<bar>x\<bar> \<le> pi / 2\<close> show ?thesis by (simp add: arcsin_sin)
next
  case False
  assume a: "\<bar>x\<bar> \<le> pi / 2"
  with False have "0 \<le> sin (- x)" by (intro sin_ge_zero) (use pi_ge_zero in linarith)+
  then have "\<bar>sin x\<bar> = sin (- x)" by simp
  with False a show ?thesis by (simp add: arcsin_sin del: sin_minus)
qed

lemma great_circle_arc:
  assumes "\<bar>x\<bar> \<le> 180"
  shows "2 * arcsin (sqrt ((sin (radians x / 2))\<^sup>2)) = radians \<bar>x\<bar>"
proof -
  have "\<bar>radians x / 2\<bar> \<le> pi / 2"
    using assms by (simp add: radians_def abs_mult)
  then have "arcsin \<bar>sin (radians x / 2)\<bar> = \<bar>radians x / 2\<bar>"
    by (rule arcsin_abs_sin)
  then show ?thesis by (simp add: radians_abs)
qed

lemma calculate_distance_meridian:
  "\<bar>lat2 - lat1\<bar> \<le> 180 \<Longrightarrow>
     calculate_distance lat1 lo lat2 lo = 6371 * radians \<bar>lat2 - lat1\<bar>"
  by (simp add: calculate_distance_arcsin haversine_a_def great_circle_arc del: real_sqrt_abs)

lemma calculate_distance_equator:
  "\<bar>lng2 - lng1\<bar> \<le> 180 \<Longrightarrow>
     calculate_distance 0 lng1 0 lng2 = 6371 * radians \<bar>lng2 - lng1\<bar>"
  by (simp add: calculate_distance_arcsin haversine_a_def great_circle_arc del: real_sqrt_abs)

lemma calculate_distance_antipodal: "calculate_distance 0 0 0 180 = 6371 * pi"
  by (simp add: calculate_distance_equator radians_def)

section \<open>Properties of the distance\<close>

text \<open>
  C26: the range of the distance. For all coordinates, in range or not, the haversine
  term \<open>a\<close> lies between 0 and 1, so both square roots of the formula are taken of
  non-negative numbers, and the distance lies between 0 and half the circumference of
  the sphere, \<open>6371 * pi\<close> km.
\<close>

theorem calculate_distance_range:
  "0 \<le> haversine_a lat1 lng1 lat2 lng2 \<and> haversine_a lat1 lng1 lat2 lng2 \<le> 1 \<and>
   0 \<le> calculate_distance lat1 lng1 lat2 lng2 \<and>
   calculate_distance lat1 lng1 lat2 lng2 \<le> 6371 * pi"
  by (intro conjI haversine_a_ge_0 haversine_a_le_1 calculate_distance_nonneg calculate_distance_le)

text \<open>C27: the distance is symmetric: from the second point to the first it is the same.\<close>

theorem calculate_distance_symmetric:
  "calculate_distance lat2 lng2 lat1 lng1 = calculate_distance lat1 lng1 lat2 lng2"
proof -
  have "haversine_a lat2 lng2 lat1 lng1 = haversine_a lat1 lng1 lat2 lng2"
    by (rule haversine_a_sym)
  then show ?thesis by (simp add: calculate_distance_def)
qed

text \<open>
  C28: the distance of a point from itself is 0, and a distance is 0 exactly when the
  haversine term is.
\<close>

theorem calculate_distance_zero:
  "calculate_distance la lo la lo = 0 \<and>
   (calculate_distance lat1 lng1 lat2 lng2 = 0 \<longleftrightarrow> haversine_a lat1 lng1 lat2 lng2 = 0)"
  using calculate_distance_eq_0_iff [of lat1 lng1 lat2 lng2] by simp

text \<open>
  C39: along a meridian and along the equator the distance is the arc of the great
  circle: the difference of the angles in radians times the radius, for differences up
  to 180 degrees.
\<close>

theorem calculate_distance_great_circle:
  assumes "\<bar>x\<bar> \<le> 180"
  shows "calculate_distance la lo (la + x) lo = 6371 * radians \<bar>x\<bar> \<and>
    calculate_distance 0 lo 0 (lo + x) = 6371 * radians \<bar>x\<bar>"
  using assms calculate_distance_meridian [of "la + x" la lo] calculate_distance_equator [of "lo + x" lo]
  by simp

theorem calculate_distance_great_circle_witness:
  "calculate_distance 0 0 90 0 = 6371 * (pi / 2) \<and> calculate_distance 0 0 0 90 = 6371 * (pi / 2)"
  using calculate_distance_great_circle [of 90 0 0] by (simp add: radians_def)

end
