(* ===== verification/TW_Nearest_Neighbor.thy ===== *)
theory TW_Nearest_Neighbor
  imports TW_Distance
begin

text \<open>
  The tour constructor: \<open>tsp_nearest_neighbor\<close> of \<open>src/apps/api/main.py\<close>. The
  \<open>for\<close> loop that looks for the nearest unvisited place is \<open>nearest_scan\<close>, the
  \<open>while\<close> loop that extends the tour is \<open>nn_loop\<close>. The reference definition
  \<open>nn_order\<close> says which places the loop visits, in terms of the library's
  \<open>arg_min_list\<close> and \<open>remove1\<close>; the loop is proved equal to it.
\<close>

section \<open>The search for the nearest place\<close>

text \<open>
  \<open>dist < nearest_dist\<close>, where \<open>nearest_dist\<close> starts as \<open>float('inf')\<close>
  (the value \<open>None\<close>).
\<close>

definition closer :: "real \<Rightarrow> real option \<Rightarrow> bool" where
  "closer d nearest_dist = (case nearest_dist of None \<Rightarrow> True | Some nearest \<Rightarrow> d < nearest)"

text \<open>
  The loop \<open>for i, place in enumerate(unvisited)\<close> over the state
  \<open>(nearest_idx, nearest_dist)\<close>.
\<close>

fun nearest_scan :: "Place \<Rightarrow> (nat \<times> Place) list \<Rightarrow> nat \<times> real option \<Rightarrow> nat \<times> real option" where
  "nearest_scan current [] st = st"
| "nearest_scan current ((i, place) # rest) (nearest_idx, nearest_dist) =
     (let dist = calculate_distance (lat current) (lng current) (lat place) (lng place)
      in if closer dist nearest_dist
         then nearest_scan current rest (i, Some dist)
         else nearest_scan current rest (nearest_idx, nearest_dist))"

definition find_nearest :: "Place \<Rightarrow> Place list \<Rightarrow> nat" where
  "find_nearest current unvisited =
     fst (nearest_scan current (enumerate 0 unvisited) (0, None))"

lemma closer_simps [simp]:
  "closer d None" "closer d (Some e) \<longleftrightarrow> d < e"
  by (simp_all add: closer_def)

lemma nearest_scan_step [simp]:
  "nearest_scan cur ((n, x) # rest) (idx, nd) =
     (if closer (place_distance cur x) nd
      then nearest_scan cur rest (n, Some (place_distance cur x))
      else nearest_scan cur rest (idx, nd))"
  by (simp add: place_distance_def)

declare nearest_scan.simps(2) [simp del]

text \<open>
  The position the search is meant to find: a place of least distance from the current
  one, and the first such in the list.
\<close>

definition first_nearest :: "Place \<Rightarrow> Place list \<Rightarrow> nat \<Rightarrow> bool" where
  "first_nearest cur xs k \<longleftrightarrow>
     k < length xs \<and>
     (\<forall>j < length xs. place_distance cur (xs ! k) \<le> place_distance cur (xs ! j)) \<and>
     (\<forall>j < k. place_distance cur (xs ! k) < place_distance cur (xs ! j))"

lemma first_nearest_0:
  "\<forall>y \<in> set xs. place_distance cur x \<le> place_distance cur y \<Longrightarrow> first_nearest cur (x # xs) 0"
  by (auto simp: first_nearest_def nth_Cons split: nat.splits)

lemma first_nearest_Suc:
  "first_nearest cur xs k \<Longrightarrow> place_distance cur (xs ! k) < place_distance cur x \<Longrightarrow>
     first_nearest cur (x # xs) (Suc k)"
  by (auto simp: first_nearest_def nth_Cons less_Suc_eq_0_disj split: nat.splits)

lemma first_nearest_unique:
  "first_nearest cur xs k \<Longrightarrow> first_nearest cur xs k' \<Longrightarrow> k = k'"
  unfolding first_nearest_def by (metis linorder_neqE_nat not_less)

lemma first_nearest_distinct:
  "first_nearest cur xs k \<Longrightarrow> j < k \<Longrightarrow> xs ! j \<noteq> xs ! k"
  by (auto simp: first_nearest_def)

text \<open>
  What a scan returns: either nothing was closer than the distance it started with and
  the state is unchanged, or the state is the first position of the least distance.
\<close>

lemma nearest_scan_cases:
  "nearest_scan cur (enumerate n xs) (idx, nd) = (idx, nd) \<and>
       (\<forall>x \<in> set xs. \<not> closer (place_distance cur x) nd)
   \<or> (\<exists>k. first_nearest cur xs k \<and> closer (place_distance cur (xs ! k)) nd \<and>
        nearest_scan cur (enumerate n xs) (idx, nd) = (n + k, Some (place_distance cur (xs ! k))))"
proof (induction xs arbitrary: n idx nd)
  case Nil
  then show ?case by simp
next
  case (Cons x xs)
  let ?d = "place_distance cur x"
  show ?case
  proof (cases "closer ?d nd")
    case True
    from Cons.IH [of "Suc n" n "Some ?d"] show ?thesis
    proof (elim disjE exE conjE)
      assume "nearest_scan cur (enumerate (Suc n) xs) (n, Some ?d) = (n, Some ?d)"
        and "\<forall>y \<in> set xs. \<not> closer (place_distance cur y) (Some ?d)"
      with True show ?thesis
        by (intro disjI2 exI [of _ 0]) (auto simp: not_less intro: first_nearest_0)
    next
      fix k
      assume "first_nearest cur xs k" "closer (place_distance cur (xs ! k)) (Some ?d)"
        and "nearest_scan cur (enumerate (Suc n) xs) (n, Some ?d) =
          (Suc n + k, Some (place_distance cur (xs ! k)))"
      with True show ?thesis
        by (intro disjI2 exI [of _ "Suc k"])
          (cases nd; auto intro: first_nearest_Suc)
    qed
  next
    case False
    from Cons.IH [of "Suc n" idx nd] show ?thesis
    proof (elim disjE exE conjE)
      assume "nearest_scan cur (enumerate (Suc n) xs) (idx, nd) = (idx, nd)"
        and "\<forall>y \<in> set xs. \<not> closer (place_distance cur y) nd"
      with False show ?thesis by simp
    next
      fix k
      assume "first_nearest cur xs k" "closer (place_distance cur (xs ! k)) nd"
        and "nearest_scan cur (enumerate (Suc n) xs) (idx, nd) =
          (Suc n + k, Some (place_distance cur (xs ! k)))"
      with False show ?thesis
        by (intro disjI2 exI [of _ "Suc k"])
          (cases nd; auto intro: first_nearest_Suc)
    qed
  qed
qed

text \<open>From the initial state \<open>(0, inf)\<close> the search finds that position.\<close>

lemma find_nearest_first:
  "unvisited \<noteq> [] \<Longrightarrow> first_nearest current unvisited (find_nearest current unvisited)"
  using nearest_scan_cases [of current 0 unvisited 0 None]
  by (cases unvisited) (auto simp: find_nearest_def)

lemma find_nearest_less [simp]:
  "unvisited \<noteq> [] \<Longrightarrow> find_nearest current unvisited < length unvisited"
  using find_nearest_first [of unvisited current] by (simp add: first_nearest_def)

lemma find_nearest_Nil [simp]: "find_nearest current [] = 0"
  by (simp add: find_nearest_def)

lemma find_nearest_least:
  "p \<in> set unvisited \<Longrightarrow>
     place_distance current (unvisited ! find_nearest current unvisited) \<le> place_distance current p"
proof -
  assume p: "p \<in> set unvisited"
  then have "first_nearest current unvisited (find_nearest current unvisited)"
    by (intro find_nearest_first) auto
  with p show ?thesis
    by (auto simp: first_nearest_def in_set_conv_nth)
qed

lemma length_pop_nearest [simp]:
  "unvisited \<noteq> [] \<Longrightarrow>
     length (snd (py_pop unvisited (find_nearest current unvisited))) < length unvisited"
  using length_py_pop [of "find_nearest current unvisited" unvisited] by simp

section \<open>The loop that builds the tour\<close>

function nn_loop :: "Place list \<Rightarrow> string list \<Rightarrow> Place \<Rightarrow> string list" where
  "nn_loop unvisited tour current =
     (if unvisited = [] then tour
      else let nearest_idx = find_nearest current unvisited;
               (nearest, unvisited') = py_pop unvisited nearest_idx
           in nn_loop unvisited' (tour @ [id_of nearest]) nearest)"
  by pat_completeness auto
termination
  by (relation "measure (\<lambda>(unvisited, tour, current). length unvisited)")
    (auto dest: arg_cong [where f = snd])

declare nn_loop.simps [simp del]

definition tsp_nearest_neighbor :: "Place list \<Rightarrow> string list" where
  "tsp_nearest_neighbor ps =
     (if length ps \<le> 1 then ids ps
      else nn_loop (drop 1 ps) [id_of (ps ! 0)] (ps ! 0))"

lemma tsp_nearest_neighbor_simps [simp]:
  "tsp_nearest_neighbor [] = []"
  "tsp_nearest_neighbor [p] = [id_of p]"
  "tsp_nearest_neighbor (p # q # ps) = nn_loop (q # ps) [id_of p] p"
  by (simp_all add: tsp_nearest_neighbor_def)

lemma nn_loop_Nil [simp]: "nn_loop [] t cur = t"
  by (simp add: nn_loop.simps)

lemma nn_loop_step:
  "unvisited \<noteq> [] \<Longrightarrow>
     nn_loop unvisited t cur =
       nn_loop (snd (py_pop unvisited (find_nearest cur unvisited)))
         (t @ [id_of (unvisited ! find_nearest cur unvisited)])
         (unvisited ! find_nearest cur unvisited)"
  by (subst nn_loop.simps) (simp add: py_pop_def Let_def)

section \<open>The order of visit, as a reference definition\<close>

text \<open>
  From the current place go to the first nearest of the remaining ones, and on from
  there.
\<close>

function nn_order :: "Place \<Rightarrow> Place list \<Rightarrow> Place list" where
  "nn_order cur us =
     (if us = [] then []
      else let p = arg_min_list (place_distance cur) us
           in p # nn_order p (remove1 p us))"
  by pat_completeness auto
termination
  by (relation "measure (\<lambda>(cur, us). length us)")
    (auto simp: length_remove1 arg_min_list_in in_set_conv_nth [symmetric] intro: diff_less)

declare nn_order.simps [simp del]

lemma nn_order_Nil [simp]: "nn_order cur [] = []"
  by (simp add: nn_order.simps)

lemma nearest_is_arg_min:
  "us \<noteq> [] \<Longrightarrow> us ! find_nearest cur us = arg_min_list (place_distance cur) us"
  using find_nearest_first [of us cur]
  by (auto simp: first_nearest_def intro!: arg_min_list_first [symmetric])

lemma pop_nearest_is_remove1:
  "us \<noteq> [] \<Longrightarrow>
     snd (py_pop us (find_nearest cur us)) = remove1 (arg_min_list (place_distance cur) us) us"
  using find_nearest_first [of us cur] py_pop_remove1 [of "find_nearest cur us" us]
  by (auto simp: nearest_is_arg_min [symmetric] dest: first_nearest_distinct)

lemma nn_loop_nn_order: "nn_loop us t cur = t @ ids (nn_order cur us)"
proof (induction cur us arbitrary: t rule: nn_order.induct)
  case (1 cur us)
  show ?case
  proof (cases "us = []")
    case True
    then show ?thesis by simp
  next
    case False
    let ?p = "arg_min_list (place_distance cur) us"
    from False have "nn_loop us t cur = nn_loop (remove1 ?p us) (t @ [id_of ?p]) ?p"
      by (simp add: nn_loop_step nearest_is_arg_min pop_nearest_is_remove1)
    also from False have "\<dots> = (t @ [id_of ?p]) @ ids (nn_order ?p (remove1 ?p us))"
      by (intro "1.IH") simp_all
    also from False have "\<dots> = t @ ids (nn_order cur us)"
      by (simp add: nn_order.simps [of cur us] Let_def)
    finally show ?thesis .
  qed
qed

definition nn_visit :: "Place list \<Rightarrow> Place list" where
  "nn_visit ps = (case ps of [] \<Rightarrow> [] | p # rest \<Rightarrow> p # nn_order p rest)"

text \<open>A list of places is greedy from a place when each step goes to a nearest later place.\<close>

fun greedy_from :: "Place \<Rightarrow> Place list \<Rightarrow> bool" where
  "greedy_from cur [] = True"
| "greedy_from cur (q # qs) =
     ((\<forall>r \<in> set qs. place_distance cur q \<le> place_distance cur r) \<and> greedy_from q qs)"

definition greedy_tour :: "Place list \<Rightarrow> bool" where
  "greedy_tour qs = (case qs of [] \<Rightarrow> True | q # rest \<Rightarrow> greedy_from q rest)"

lemma nn_order_step:
  "us \<noteq> [] \<Longrightarrow>
     nn_order cur us =
       arg_min_list (place_distance cur) us #
       nn_order (arg_min_list (place_distance cur) us) (remove1 (arg_min_list (place_distance cur) us) us)"
  by (subst nn_order.simps) (simp add: Let_def)

lemma mset_nn_order [simp, tour_perm]: "mset (nn_order cur us) = mset us"
proof (induction cur us rule: nn_order.induct)
  case (1 cur us)
  show ?case
  proof (cases "us = []")
    case True
    then show ?thesis by simp
  next
    case False
    with "1.IH" show ?thesis
      by (simp add: nn_order_step arg_min_list_in)
  qed
qed

lemma set_nn_order [simp]: "set (nn_order cur us) = set us"
  by (rule mset_eq_setD) simp

lemma length_nn_order [simp]: "length (nn_order cur us) = length us"
  by (rule mset_eq_length) simp

lemma arg_min_list_least:
  fixes f :: "'a \<Rightarrow> real"
  shows "x \<in> set xs \<Longrightarrow> f (arg_min_list f xs) \<le> f x"
  by (cases "xs = []") (simp_all add: f_arg_min_list_f)

lemma nn_order_greedy: "greedy_from cur (nn_order cur us)"
proof (induction cur us rule: nn_order.induct)
  case (1 cur us)
  show ?case
  proof (cases "us = []")
    case True
    then show ?thesis by simp
  next
    case False
    with "1.IH" show ?thesis
      by (auto simp: nn_order_step intro: arg_min_list_least dest: set_remove1_subset [THEN subsetD])
  qed
qed

lemma mset_nn_visit [simp, tour_perm]: "mset (nn_visit ps) = mset ps"
  by (simp add: nn_visit_def split: list.splits)

lemma set_nn_visit [simp]: "set (nn_visit ps) = set ps"
  by (rule mset_eq_setD) simp

lemma length_nn_visit [simp]: "length (nn_visit ps) = length ps"
  by (rule mset_eq_length) simp

lemma nn_visit_greedy: "greedy_tour (nn_visit ps)"
  by (simp add: nn_visit_def greedy_tour_def nn_order_greedy split: list.splits)

lemma nn_visit_first: "take 1 (nn_visit ps) = take 1 ps"
  by (simp add: nn_visit_def split: list.splits)

lemma mset_nn_loop [tour_perm]: "mset (nn_loop us t cur) = mset t + mset (ids us)"
proof -
  have "mset (ids (nn_order cur us)) = image_mset id_of (mset (nn_order cur us))"
    by simp
  then show ?thesis by (simp add: nn_loop_nn_order)
qed

lemma nn_tour_visit: "tsp_nearest_neighbor ps = ids (nn_visit ps)"
proof (cases ps)
  case Nil
  then show ?thesis by (simp add: nn_visit_def)
next
  case (Cons p rest)
  then show ?thesis
    by (cases rest) (simp_all add: nn_visit_def nn_loop_nn_order)
qed

section \<open>Properties of the constructed tour\<close>

text \<open>
  C6: \<open>tsp_nearest_neighbor\<close> starts at the first place and then visits the places
  in the order of the reference definition: repeatedly the first nearest of the places
  not yet visited, seen from the place visited last.
\<close>

theorem tsp_nearest_neighbor_visit:
  "tsp_nearest_neighbor [] = [] \<and>
   tsp_nearest_neighbor (p # ps) = id_of p # ids (nn_order p ps)"
proof
  show "tsp_nearest_neighbor [] = []" by simp
  show "tsp_nearest_neighbor (p # ps) = id_of p # ids (nn_order p ps)"
    by (cases ps) (simp_all add: nn_loop_nn_order)
qed

text \<open>
  C7: the constructed tour is a permutation of the identifiers of the places: the same
  multiset, so nothing is omitted and nothing is visited more often than it is listed.
\<close>

theorem tsp_nearest_neighbor_permutation: "mset (tsp_nearest_neighbor ps) = mset (ids ps)"
proof -
  have "mset (ids (nn_visit ps)) = image_mset id_of (mset (nn_visit ps))"
    by simp
  then show ?thesis by (simp add: nn_tour_visit)
qed

text \<open>
  C8: the constructed tour is greedy. It is the list of identifiers of a rearrangement
  of the places that keeps the first place first and in which every place is followed
  by one that is nearest to it among all later ones.
\<close>

theorem tsp_nearest_neighbor_greedy:
  "\<exists>qs. tsp_nearest_neighbor ps = ids qs \<and> mset qs = mset ps \<and>
     take 1 qs = take 1 ps \<and> greedy_tour qs"
proof (intro exI conjI)
  show "tsp_nearest_neighbor ps = ids (nn_visit ps)" by (rule nn_tour_visit)
  show "mset (nn_visit ps) = mset ps" by simp
  show "take 1 (nn_visit ps) = take 1 ps" by (rule nn_visit_first)
  show "greedy_tour (nn_visit ps)" by (rule nn_visit_greedy)
qed

text \<open>
  C29: ties go to the earlier place. On a non-empty list the search returns a position
  in range whose place is at least as near as every other and strictly nearer than
  every place before it, so \<open>unvisited.pop(nearest_idx)\<close> never raises.
\<close>

theorem find_nearest_first_nearest:
  assumes "unvisited \<noteq> []"
  shows "find_nearest current unvisited < length unvisited \<and>
    first_nearest current unvisited (find_nearest current unvisited)"
  using assms by (simp add: find_nearest_first)

theorem find_nearest_first_nearest_witness:
  "find_nearest (mk_place ''a'' 0 0) [mk_place ''b'' 0 10, mk_place ''c'' 0 10] < length [mk_place ''b'' 0 10, mk_place ''c'' 0 10] \<and>
   first_nearest (mk_place ''a'' 0 0) [mk_place ''b'' 0 10, mk_place ''c'' 0 10]
     (find_nearest (mk_place ''a'' 0 0) [mk_place ''b'' 0 10, mk_place ''c'' 0 10])"
  by (rule find_nearest_first_nearest) simp

end
