(* ===== verification/TW_Two_Opt.thy ===== *)
theory TW_Two_Opt
  imports TW_Nearest_Neighbor
begin

text \<open>
  The tour refiner: \<open>two_opt_improve\<close> of \<open>src/apps/api/main.py\<close> with its local
  function \<open>tour_distance\<close>. The state of the search is the record
  \<open>two_opt_state\<close> of the variables \<open>tour\<close>, \<open>best_tour\<close>, \<open>best_distance\<close>
  and \<open>improved\<close>; the two \<open>for\<close> loops are \<open>inner_loop\<close> and \<open>outer_loop\<close>,
  one turn of the \<open>while\<close> loop is \<open>two_opt_pass\<close>, the loop is
  \<open>two_opt_while\<close>. A lookup of an identifier that is not a key of \<open>place_dict\<close>
  raises \<open>KeyError\<close>.
\<close>

section \<open>The dictionary of places and the length of a tour\<close>

definition place_dict :: "Place list \<Rightarrow> (string, Place) dict" where
  "place_dict ps = py_dict_by id_of ps"

text \<open>
  The loop \<open>for i in range(len(t))\<close> of \<open>tour_distance\<close>, over the indices still to
  visit and the running \<open>total\<close>.
\<close>

fun tour_distance_loop ::
  "(string, Place) dict \<Rightarrow> string list \<Rightarrow> nat list \<Rightarrow> real \<Rightarrow> real result" where
  "tour_distance_loop pd t [] total' = return total'"
| "tour_distance_loop pd t (i # rest) total' =
     (let j = (i + 1) mod length t
      in case py_lookup pd (t ! i) of
           Inl e \<Rightarrow> raise e
         | Inr p1 \<Rightarrow>
             (case py_lookup pd (t ! j) of
                Inl e \<Rightarrow> raise e
              | Inr p2 \<Rightarrow>
                  tour_distance_loop pd t rest
                    (total' + calculate_distance (lat p1) (lng p1) (lat p2) (lng p2))))"

definition tour_distance :: "(string, Place) dict \<Rightarrow> string list \<Rightarrow> real result" where
  "tour_distance pd t = tour_distance_loop pd t [0..<length t] 0"

text \<open>
  The length of the closed tour as a sum over its legs, for a tour whose identifiers
  are all keys of the dictionary.
\<close>

definition leg_length :: "(string, Place) dict \<Rightarrow> string \<times> string \<Rightarrow> real" where
  "leg_length pd leg = place_distance (the (pd (fst leg))) (the (pd (snd leg)))"

definition cycle_length :: "(string, Place) dict \<Rightarrow> string list \<Rightarrow> real" where
  "cycle_length pd t = sum_list (map (leg_length pd) (cyclic_legs t))"

lemma dom_place_dict [simp]: "dom (place_dict ps) = id_of ` set ps"
  by (simp add: place_dict_def)

lemma place_dict_Some: "place_dict ps k = Some p \<Longrightarrow> p \<in> set ps \<and> id_of p = k"
  using py_dict_by_Some [of id_of ps k p] by (simp add: place_dict_def)

lemma place_dict_distinct:
  "distinct (ids ps) \<Longrightarrow> p \<in> set ps \<Longrightarrow> place_dict ps (id_of p) = Some p"
  using py_dict_by_distinct [of id_of ps p] by (simp add: place_dict_def)

lemma tour_distance_loop_sum:
  assumes "set t \<subseteq> dom pd" "\<forall>i \<in> set idxs. i < length t"
  shows "tour_distance_loop pd t idxs total' =
    return (total' + sum_list (map (\<lambda>i. leg_length pd (t ! i, t ! ((i + 1) mod length t))) idxs))"
  using assms(2)
proof (induction idxs arbitrary: total')
  case Nil
  then show ?case by simp
next
  case (Cons i rest)
  then have i: "i < length t" by simp
  then have "t ! i \<in> set t" "t ! ((i + 1) mod length t) \<in> set t"
    by simp_all
  with assms(1) have "t ! i \<in> dom pd" "t ! ((i + 1) mod length t) \<in> dom pd"
    by blast+
  then obtain p1 p2 where "pd (t ! i) = Some p1" "pd (t ! ((i + 1) mod length t)) = Some p2"
    by auto
  with Cons show ?case
    by (simp add: leg_length_def place_distance_def Let_def)
qed

lemma tour_distance_cycle_length:
  "set t \<subseteq> dom pd \<Longrightarrow> tour_distance pd t = return (cycle_length pd t)"
proof -
  assume "set t \<subseteq> dom pd"
  then have "tour_distance pd t =
      return (sum_list (map (\<lambda>i. leg_length pd (t ! i, t ! ((i + 1) mod length t))) [0..<length t]))"
    by (simp add: tour_distance_def tour_distance_loop_sum)
  also have "map (\<lambda>i. leg_length pd (t ! i, t ! ((i + 1) mod length t))) [0..<length t] =
      map (leg_length pd) (map (\<lambda>i. (t ! i, t ! ((i + 1) mod length t))) [0..<length t])"
    by simp
  finally show ?thesis
    by (simp only: cyclic_legs_map_index cycle_length_def)
qed

lemma tour_distance_loop_error:
  assumes "tour_distance_loop pd t idxs total' = raise e" "\<forall>i \<in> set idxs. i < length t"
  shows "\<exists>k \<in> set t. pd k = None \<and> e = KeyError k"
  using assms
proof (induction idxs arbitrary: total')
  case Nil
  then show ?case by simp
next
  case (Cons i rest)
  then have "t ! i \<in> set t" "t ! ((i + 1) mod length t) \<in> set t"
    by simp_all
  with Cons show ?case
    by (auto simp: Let_def py_lookup_def split: option.splits)
qed

lemma tour_distance_loop_visits:
  "tour_distance_loop pd t idxs total' = return r \<Longrightarrow> i \<in> set idxs \<Longrightarrow> t ! i \<in> dom pd"
proof (induction idxs arbitrary: total')
  case Nil
  then show ?case by simp
next
  case (Cons a rest)
  then show ?case
    by (cases "pd (t ! a)"; cases "pd (t ! (Suc a mod length t))") (auto simp: Let_def)
qed

lemma tour_distance_succeeds_iff: "succeeds (tour_distance pd t) \<longleftrightarrow> set t \<subseteq> dom pd"
proof
  assume "set t \<subseteq> dom pd"
  then show "succeeds (tour_distance pd t)" by (simp add: tour_distance_cycle_length)
next
  assume "succeeds (tour_distance pd t)"
  then obtain r where r: "tour_distance_loop pd t [0..<length t] 0 = return r"
    by (auto simp: succeeds_iff tour_distance_def)
  show "set t \<subseteq> dom pd"
  proof
    fix k assume "k \<in> set t"
    then obtain i where "i < length t" "k = t ! i"
      by (auto simp: in_set_conv_nth)
    with tour_distance_loop_visits [OF r, of i] show "k \<in> dom pd" by simp
  qed
qed

lemma tour_distance_error:
  "tour_distance pd t = raise e \<Longrightarrow> \<exists>k \<in> set t. pd k = None \<and> e = KeyError k"
  using tour_distance_loop_error [of pd t "[0..<length t]" 0 e] by (simp add: tour_distance_def)

text \<open>
  Which lookup fails: the loop reads the two ends of every leg in turn, so the key of
  the error is the first identifier of the tour that the dictionary does not hold.
\<close>

definition first_unknown :: "(string, Place) dict \<Rightarrow> string list \<Rightarrow> string option" where
  "first_unknown pd t = find (\<lambda>k. pd k = None) t"

lemma tour_distance_loop_find:
  "tour_distance_loop pd t idxs total' =
     (case find (\<lambda>k. pd k = None) (concat (map (\<lambda>i. [t ! i, t ! (Suc i mod length t)]) idxs)) of
        Some k \<Rightarrow> raise (KeyError k)
      | None \<Rightarrow> return (total' + sum_list (map (\<lambda>i. leg_length pd (t ! i, t ! (Suc i mod length t))) idxs)))"
proof (induction idxs arbitrary: total')
  case Nil
  then show ?case by simp
next
  case (Cons i rest)
  show ?case
    by (cases "pd (t ! i)"; cases "pd (t ! (Suc i mod length t))")
      (simp_all add: Cons.IH Let_def leg_length_def place_distance_def add.assoc
        split: option.splits)
qed

lemma reads_by_index:
  "concat (map (\<lambda>i. [t ! i, t ! (Suc i mod length t)]) [0..<length t]) = leg_reads t"
proof -
  have "map (\<lambda>i. [t ! i, t ! (Suc i mod length t)]) [0..<length t] =
      map (\<lambda>(a, b). [a, b]) (map (\<lambda>i. (t ! i, t ! ((i + 1) mod length t))) [0..<length t])"
    by simp
  then show ?thesis
    by (simp only: cyclic_legs_map_index leg_reads_def)
qed

lemma tour_distance_first_unknown:
  "tour_distance pd t =
     (case first_unknown pd t of Some k \<Rightarrow> raise (KeyError k) | None \<Rightarrow> return (cycle_length pd t))"
proof (cases "first_unknown pd t")
  case None
  then have "set t \<subseteq> dom pd"
    by (auto simp: first_unknown_def find_None_iff)
  with None show ?thesis by (simp add: tour_distance_cycle_length)
next
  case (Some k)
  then show ?thesis
    by (simp add: tour_distance_def tour_distance_loop_find reads_by_index find_leg_reads
        first_unknown_def)
qed

lemma first_unknown_None_iff: "first_unknown pd t = None \<longleftrightarrow> set t \<subseteq> dom pd"
  by (auto simp: first_unknown_def find_None_iff)

lemma first_unknown_Some: "first_unknown pd t = Some k \<Longrightarrow> k \<in> set t \<and> k \<notin> dom pd"
  by (auto simp: first_unknown_def dest: find_Some_set)

lemma tour_distance_Nil [simp]: "tour_distance pd [] = return 0"
  by (simp add: tour_distance_def)

lemma cycle_length_Nil [simp]: "cycle_length pd [] = 0"
  by (simp add: cycle_length_def)

lemma cycle_length_nonneg [simp]: "0 \<le> cycle_length pd t"
  unfolding cycle_length_def by (rule sum_list_nonneg) (auto simp: leg_length_def)

section \<open>Reversing a segment\<close>

text \<open>\<open>tour[:i] + tour[i:j+1][::-1] + tour[j+1:]\<close>.\<close>

definition reverse_segment :: "'a list \<Rightarrow> nat \<Rightarrow> nat \<Rightarrow> 'a list" where
  "reverse_segment t i j = take i t @ rev (take (j + 1 - i) (drop i t)) @ drop (j + 1) t"

lemma segment_split:
  "i \<le> j + 1 \<Longrightarrow> take i t @ take (j + 1 - i) (drop i t) @ drop (j + 1) t = t"
proof -
  assume "i \<le> j + 1"
  then have "drop (j + 1) t = drop (j + 1 - i) (drop i t)"
    by simp
  then show ?thesis
    by (simp only: append_take_drop_id)
qed

lemma mset_reverse_segment [simp, tour_perm]:
  "i \<le> j + 1 \<Longrightarrow> mset (reverse_segment t i j) = mset t"
proof -
  assume ij: "i \<le> j + 1"
  have "mset (reverse_segment t i j) =
      mset (take i t @ take (j + 1 - i) (drop i t) @ drop (j + 1) t)"
    by (simp add: reverse_segment_def)
  with ij show ?thesis by (simp only: segment_split)
qed

lemma length_reverse_segment [simp]: "i \<le> j + 1 \<Longrightarrow> length (reverse_segment t i j) = length t"
  using mset_reverse_segment [of i j t] by (auto dest: mset_eq_length simp del: mset_reverse_segment)

lemma set_reverse_segment [simp]: "i \<le> j + 1 \<Longrightarrow> set (reverse_segment t i j) = set t"
  using mset_reverse_segment [of i j t] by (auto dest: mset_eq_setD simp del: mset_reverse_segment)

lemma take_reverse_segment [simp]:
  "n \<le> i \<Longrightarrow> i \<le> j + 1 \<Longrightarrow> take n (reverse_segment t i j) = take n t"
  by (auto simp: reverse_segment_def)

section \<open>The state of the search and its loops\<close>

record two_opt_state =
  tour :: "string list"
  best_tour :: "string list"
  best_distance :: real
  improved :: bool

text \<open>
  The loop \<open>for j in range(i + 1, len(tour))\<close>, over the values of \<open>j\<close> still to
  try. An adjacent \<open>j\<close> is skipped; the first candidate shorter than
  \<open>best_distance\<close> is recorded and ends the loop.
\<close>

fun inner_loop ::
  "(string, Place) dict \<Rightarrow> nat \<Rightarrow> nat list \<Rightarrow> two_opt_state \<Rightarrow> two_opt_state result" where
  "inner_loop pd i [] s = return s"
| "inner_loop pd i (j # js) s =
     (if j - i = 1 then inner_loop pd i js s
      else let new_tour = reverse_segment (tour s) i j
           in case tour_distance pd new_tour of
                Inl e \<Rightarrow> raise e
              | Inr new_distance \<Rightarrow>
                  if new_distance < best_distance s
                  then return (s\<lparr>best_tour := new_tour, best_distance := new_distance,
                                  improved := True\<rparr>)
                  else inner_loop pd i js s)"

text \<open>
  The loop \<open>for i in range(1, len(tour) - 2)\<close>, over the values of \<open>i\<close> still to
  try; it ends after the inner loop that improved.
\<close>

fun outer_loop ::
  "(string, Place) dict \<Rightarrow> nat list \<Rightarrow> two_opt_state \<Rightarrow> two_opt_state result" where
  "outer_loop pd [] s = return s"
| "outer_loop pd (i # rest) s =
     (case inner_loop pd i [i + 1..<length (tour s)] s of
        Inl e \<Rightarrow> raise e
      | Inr s' \<Rightarrow> if improved s' then return s' else outer_loop pd rest s')"

text \<open>One turn of \<open>while improved\<close>.\<close>

definition two_opt_pass :: "(string, Place) dict \<Rightarrow> two_opt_state \<Rightarrow> two_opt_state result" where
  "two_opt_pass pd s =
     (let s0 = s\<lparr>improved := False\<rparr>
      in case outer_loop pd [1..<length (tour s0) - 2] s0 of
           Inl e \<Rightarrow> raise e
         | Inr s1 \<Rightarrow> return (s1\<lparr>tour := best_tour s1\<rparr>))"

section \<open>What one pass does\<close>

text \<open>The three assignments that record a shorter candidate.\<close>

definition accept :: "two_opt_state \<Rightarrow> string list \<Rightarrow> real \<Rightarrow> two_opt_state" where
  "accept s t d = s\<lparr>best_tour := t, best_distance := d, improved := True\<rparr>"

text \<open>A tour is shorter than a bound when its length can be computed and is below it.\<close>

definition shorter :: "(string, Place) dict \<Rightarrow> string list \<Rightarrow> real \<Rightarrow> bool" where
  "shorter pd t b = (case tour_distance pd t of Inl _ \<Rightarrow> False | Inr d \<Rightarrow> d < b)"

lemma accept_sel [simp]:
  "tour (accept s t d) = tour s" "best_tour (accept s t d) = t"
  "best_distance (accept s t d) = d" "improved (accept s t d)"
  by (simp_all add: accept_def)

lemma shorter_iff: "shorter pd t b \<longleftrightarrow> (\<exists>d. tour_distance pd t = return d \<and> d < b)"
  by (auto simp: shorter_def split: sum.splits)

lemma inner_loop_result:
  assumes "inner_loop pd i js s = return s'"
  shows "s' = s \<or>
    (\<exists>j \<in> set js. \<exists>d. j - i \<noteq> 1 \<and>
        tour_distance pd (reverse_segment (tour s) i j) = return d \<and> d < best_distance s \<and>
        s' = accept s (reverse_segment (tour s) i j) d)"
  using assms
  by (induction js) (auto simp: Let_def accept_def split: if_splits sum.splits)

lemma outer_loop_result:
  assumes "outer_loop pd idxs s = return s'"
  shows "s' = s \<or>
    (\<exists>i \<in> set idxs. \<exists>j \<in> {i + 1..<length (tour s)}. \<exists>d. j - i \<noteq> 1 \<and>
        tour_distance pd (reverse_segment (tour s) i j) = return d \<and> d < best_distance s \<and>
        s' = accept s (reverse_segment (tour s) i j) d)"
  using assms
proof (induction idxs)
  case Nil
  then show ?case by simp
next
  case (Cons i rest)
  then obtain s1 where s1: "inner_loop pd i [i + 1..<length (tour s)] s = return s1"
    by (auto split: sum.splits)
  from inner_loop_result [OF this] show ?case
  proof
    assume "s1 = s"
    with Cons s1 show ?thesis by (auto split: if_splits)
  next
    assume "\<exists>j \<in> set [i + 1..<length (tour s)]. \<exists>d. j - i \<noteq> 1 \<and>
        tour_distance pd (reverse_segment (tour s) i j) = return d \<and> d < best_distance s \<and>
        s1 = accept s (reverse_segment (tour s) i j) d"
    with Cons.prems s1 show ?thesis by auto
  qed
qed

lemma two_opt_pass_result:
  assumes "two_opt_pass pd s = return s'"
  shows "s' = s\<lparr>improved := False, tour := best_tour s\<rparr> \<or>
    (\<exists>i j d. 1 \<le> i \<and> i + 1 < j \<and> j < length (tour s) \<and>
        tour_distance pd (reverse_segment (tour s) i j) = return d \<and> d < best_distance s \<and>
        s' = \<lparr>tour = reverse_segment (tour s) i j, best_tour = reverse_segment (tour s) i j,
               best_distance = d, improved = True\<rparr>)"
proof -
  from assms obtain s1 where
    s1: "outer_loop pd [1..<length (tour s) - 2] (s\<lparr>improved := False\<rparr>) = return s1"
    and s': "s' = s1\<lparr>tour := best_tour s1\<rparr>"
    by (auto simp: two_opt_pass_def Let_def split: sum.splits)
  from outer_loop_result [OF s1] show ?thesis
  proof
    assume "s1 = s\<lparr>improved := False\<rparr>"
    with s' show ?thesis by simp
  next
    assume "\<exists>i \<in> set [1..<length (tour s) - 2].
      \<exists>j \<in> {i + 1..<length (tour (s\<lparr>improved := False\<rparr>))}. \<exists>d. j - i \<noteq> 1 \<and>
        tour_distance pd (reverse_segment (tour (s\<lparr>improved := False\<rparr>)) i j) = return d \<and>
        d < best_distance (s\<lparr>improved := False\<rparr>) \<and>
        s1 = accept (s\<lparr>improved := False\<rparr>) (reverse_segment (tour (s\<lparr>improved := False\<rparr>)) i j) d"
    then obtain i j d where "1 \<le> i" "i + 1 \<le> j" "j - i \<noteq> 1" "j < length (tour s)"
      "tour_distance pd (reverse_segment (tour s) i j) = return d" "d < best_distance s"
      "s1 = accept (s\<lparr>improved := False\<rparr>) (reverse_segment (tour s) i j) d"
      by auto
    with s' show ?thesis
      by (intro disjI2 exI [of _ i] exI [of _ j] exI [of _ d]) (auto simp: accept_def)
  qed
qed

section \<open>The loop and its termination\<close>

text \<open>
  Every turn that improves replaces the tour by a permutation of it whose length is
  strictly below the bound so far, so the set of permutations below the bound shrinks.
\<close>

lemma shorter_card_less:
  assumes "mset t' = mset t" "tour_distance pd t' = return d" "d < b"
  shows "card {u. mset u = mset t' \<and> shorter pd u d} < card {u. mset u = mset t \<and> shorter pd u b}"
proof (rule psubset_card_mono)
  show "finite {u. mset u = mset t \<and> shorter pd u b}"
    by (rule finite_permutations_below)
  have "t' \<in> {u. mset u = mset t \<and> shorter pd u b}" "t' \<notin> {u. mset u = mset t' \<and> shorter pd u d}"
    using assms by (simp_all add: shorter_iff)
  moreover have "{u. mset u = mset t' \<and> shorter pd u d} \<subseteq> {u. mset u = mset t \<and> shorter pd u b}"
    using assms by (auto simp: shorter_iff)
  ultimately show "{u. mset u = mset t' \<and> shorter pd u d} \<subset> {u. mset u = mset t \<and> shorter pd u b}"
    by blast
qed

definition turns_left :: "(string, Place) dict \<Rightarrow> two_opt_state \<Rightarrow> nat" where
  "turns_left pd s =
     (if improved s then Suc (card {u. mset u = mset (tour s) \<and> shorter pd u (best_distance s)})
      else 0)"

lemma two_opt_pass_turns_left:
  assumes "two_opt_pass pd s = return s'" "improved s"
  shows "turns_left pd s' < turns_left pd s"
  using two_opt_pass_result [OF assms(1)]
proof (elim disjE exE conjE)
  assume "s' = s\<lparr>improved := False, tour := best_tour s\<rparr>"
  with assms(2) show ?thesis by (simp add: turns_left_def)
next
  fix i j d
  assume "1 \<le> i" "i + 1 < j" "j < length (tour s)"
    and d: "tour_distance pd (reverse_segment (tour s) i j) = return d" "d < best_distance s"
    and s': "s' = \<lparr>tour = reverse_segment (tour s) i j, best_tour = reverse_segment (tour s) i j,
               best_distance = d, improved = True\<rparr>"
  then have "mset (reverse_segment (tour s) i j) = mset (tour s)"
    by simp
  from shorter_card_less [OF this d] s' assms(2) show ?thesis
    by (simp add: turns_left_def)
qed

function two_opt_while :: "(string, Place) dict \<Rightarrow> two_opt_state \<Rightarrow> two_opt_state result" where
  "two_opt_while pd s =
     (if improved s
      then (case two_opt_pass pd s of
              Inl e \<Rightarrow> raise e
            | Inr s' \<Rightarrow> two_opt_while pd s')
      else return s)"
  by pat_completeness auto
termination
  by (relation "measure (\<lambda>(pd, s). turns_left pd s)") (auto intro: two_opt_pass_turns_left)

declare two_opt_while.simps [simp del]

definition two_opt_improve :: "Place list \<Rightarrow> string list \<Rightarrow> string list result" where
  "two_opt_improve ps t =
     (let pd = place_dict ps
      in case tour_distance pd t of
           Inl e \<Rightarrow> raise e
         | Inr d \<Rightarrow>
             (case two_opt_while pd \<lparr>tour = t, best_tour = t, best_distance = d, improved = True\<rparr> of
                Inl e \<Rightarrow> raise e
              | Inr s \<Rightarrow> return (best_tour s)))"

section \<open>The search as a reference definition\<close>

text \<open>
  The candidates of one pass in the order the loops try them: \<open>i\<close> ascending from 1
  below \<open>len(tour) - 2\<close>, then \<open>j\<close> ascending from \<open>i + 1\<close> below \<open>len(tour)\<close>,
  without the adjacent \<open>j\<close>.
\<close>

definition moves_from :: "nat \<Rightarrow> nat \<Rightarrow> (nat \<times> nat) list" where
  "moves_from n i = map (Pair i) (filter (\<lambda>j. j - i \<noteq> 1) [i + 1..<n])"

definition two_opt_moves :: "nat \<Rightarrow> (nat \<times> nat) list" where
  "two_opt_moves n = concat (map (moves_from n) [1..<n - 2])"

definition apply_move :: "'a list \<Rightarrow> nat \<times> nat \<Rightarrow> 'a list" where
  "apply_move t m = reverse_segment t (fst m) (snd m)"

definition improving :: "(string, Place) dict \<Rightarrow> string list \<Rightarrow> real \<Rightarrow> nat \<times> nat \<Rightarrow> bool" where
  "improving pd t b m \<longleftrightarrow> cycle_length pd (apply_move t m) < b"

definition first_improvement ::
  "(string, Place) dict \<Rightarrow> string list \<Rightarrow> real \<Rightarrow> (nat \<times> nat) option" where
  "first_improvement pd t b = find (improving pd t b) (two_opt_moves (length t))"

lemma set_moves_from: "set (moves_from n i) = {(i, j) | j. i + 1 < j \<and> j < n}"
  by (auto simp: moves_from_def)

lemma set_two_opt_moves: "set (two_opt_moves n) = {(i, j). 1 \<le> i \<and> i + 1 < j \<and> j < n}"
  by (auto simp: two_opt_moves_def set_moves_from)

lemma two_opt_moves_small [simp]: "n \<le> 3 \<Longrightarrow> two_opt_moves n = []"
  by (simp add: two_opt_moves_def)

lemma move_in_range:
  "m \<in> set (two_opt_moves n) \<Longrightarrow> 1 \<le> fst m \<and> fst m + 1 < snd m \<and> snd m < n"
  by (auto simp: set_two_opt_moves)

lemma mset_apply_move [simp, tour_perm]:
  "m \<in> set (two_opt_moves n) \<Longrightarrow> mset (apply_move t m) = mset t"
  by (auto simp: apply_move_def dest!: move_in_range)

lemma set_apply_move [simp]: "m \<in> set (two_opt_moves n) \<Longrightarrow> set (apply_move t m) = set t"
  by (auto dest: mset_apply_move [THEN mset_eq_setD])

lemma length_apply_move [simp]:
  "m \<in> set (two_opt_moves n) \<Longrightarrow> length (apply_move t m) = length t"
  by (auto dest: mset_apply_move [THEN mset_eq_length])

lemma take_1_apply_move [simp]:
  "m \<in> set (two_opt_moves n) \<Longrightarrow> take (Suc 0) (apply_move t m) = take (Suc 0) t"
  by (auto simp: apply_move_def dest!: move_in_range)

lemma first_improvement_Some:
  "first_improvement pd t b = Some m \<Longrightarrow>
     m \<in> set (two_opt_moves (length t)) \<and> cycle_length pd (apply_move t m) < b"
  by (auto simp: first_improvement_def improving_def dest: find_Some_set)

lemma first_improvement_None:
  "first_improvement pd t b = None \<longleftrightarrow>
     (\<forall>m \<in> set (two_opt_moves (length t)). b \<le> cycle_length pd (apply_move t m))"
  by (auto simp: first_improvement_def improving_def find_None_iff not_less)

text \<open>
  The order in which a pass tries the moves: \<open>i\<close> ascending, then \<open>j\<close>
  ascending. The first improving move is the least one in this order.
\<close>

definition scanned_before :: "nat \<times> nat \<Rightarrow> nat \<times> nat \<Rightarrow> bool" where
  "scanned_before m m' \<longleftrightarrow> fst m < fst m' \<or> (fst m = fst m' \<and> snd m < snd m')"

lemma sorted_two_opt_moves: "sorted_wrt scanned_before (two_opt_moves n)"
  unfolding two_opt_moves_def
proof (rule sorted_wrt_concat_map [where S = "(<)"])
  show "sorted_wrt (<) [1..<n - 2]" by simp
  show "sorted_wrt scanned_before (moves_from n i)" for i
    by (simp add: moves_from_def sorted_wrt_map scanned_before_def sorted_wrt_filter)
  show "scanned_before x y" if "i < i'" "x \<in> set (moves_from n i)" "y \<in> set (moves_from n i')"
    for i i' x y
    using that by (auto simp: set_moves_from scanned_before_def)
qed

lemma first_improvement_first:
  assumes "first_improvement pd t b = Some m" "m' \<in> set (two_opt_moves (length t))"
    "scanned_before m' m"
  shows "b \<le> cycle_length pd (apply_move t m')"
proof -
  have "\<not> improving pd t b m'"
    using sorted_two_opt_moves assms(1) [unfolded first_improvement_def] assms(2,3)
    by (rule find_sorted_wrt_first) (auto simp: scanned_before_def)
  then show ?thesis by (simp add: improving_def)
qed

text \<open>The local search on tours: apply the first improving move until there is none.\<close>

function two_opt_ref :: "(string, Place) dict \<Rightarrow> string list \<Rightarrow> string list" where
  "two_opt_ref pd t =
     (case first_improvement pd t (cycle_length pd t) of
        None \<Rightarrow> t
      | Some m \<Rightarrow> two_opt_ref pd (apply_move t m))"
  by pat_completeness auto
termination
proof (relation "measure (\<lambda>(pd, t). card {u. mset u = mset t \<and> cycle_length pd u < cycle_length pd t})")
  fix pd :: "(string, Place) dict" and t m
  assume "first_improvement pd t (cycle_length pd t) = Some m"
  then have m: "mset (apply_move t m) = mset t" "cycle_length pd (apply_move t m) < cycle_length pd t"
    by (auto dest!: first_improvement_Some)
  have "{u. mset u = mset (apply_move t m) \<and> cycle_length pd u < cycle_length pd (apply_move t m)}
      \<subset> {u. mset u = mset t \<and> cycle_length pd u < cycle_length pd t}"
    using m by auto
  then show "((pd, apply_move t m), (pd, t)) \<in>
      measure (\<lambda>(pd, t). card {u. mset u = mset t \<and> cycle_length pd u < cycle_length pd t})"
    by (simp add: psubset_card_mono finite_permutations_below)
qed simp

declare two_opt_ref.simps [simp del]

section \<open>The loops implement the reference search\<close>

text \<open>The state a pass leaves when it takes a move.\<close>

definition moved :: "(string, Place) dict \<Rightarrow> two_opt_state \<Rightarrow> nat \<times> nat \<Rightarrow> two_opt_state" where
  "moved pd s m = accept s (apply_move (tour s) m) (cycle_length pd (apply_move (tour s) m))"

lemma tour_distance_reverse_segment:
  "set t \<subseteq> dom pd \<Longrightarrow> i \<le> j + 1 \<Longrightarrow>
     tour_distance pd (reverse_segment t i j) = return (cycle_length pd (reverse_segment t i j))"
  by (simp add: tour_distance_cycle_length)

lemma inner_loop_find:
  assumes "set (tour s) \<subseteq> dom pd" "\<forall>j \<in> set js. i \<le> j + 1"
  shows "inner_loop pd i js s =
    return (case find (improving pd (tour s) (best_distance s))
                   (map (Pair i) (filter (\<lambda>j. j - i \<noteq> 1) js)) of
              None \<Rightarrow> s | Some m \<Rightarrow> moved pd s m)"
  using assms(2)
proof (induction js)
  case Nil
  then show ?case by simp
next
  case (Cons j js)
  with assms(1) show ?case
    by (simp add: tour_distance_reverse_segment improving_def apply_move_def moved_def
        accept_def Let_def)
qed

lemma inner_loop_moves_from:
  "set (tour s) \<subseteq> dom pd \<Longrightarrow>
     inner_loop pd i [Suc i..<length (tour s)] s =
       return (case find (improving pd (tour s) (best_distance s)) (moves_from (length (tour s)) i) of
                 None \<Rightarrow> s | Some m \<Rightarrow> moved pd s m)"
  by (simp add: inner_loop_find moves_from_def)

lemma outer_loop_find:
  assumes "set (tour s) \<subseteq> dom pd" "\<not> improved s"
  shows "outer_loop pd idxs s =
    return (case find (improving pd (tour s) (best_distance s))
                   (concat (map (moves_from (length (tour s))) idxs)) of
              None \<Rightarrow> s | Some m \<Rightarrow> moved pd s m)"
proof (induction idxs)
  case Nil
  then show ?case by simp
next
  case (Cons i rest)
  show ?case
  proof (cases "find (improving pd (tour s) (best_distance s)) (moves_from (length (tour s)) i)")
    case None
    with assms Cons show ?thesis
      by (simp add: inner_loop_moves_from find_append)
  next
    case (Some m)
    with assms show ?thesis
      by (simp add: inner_loop_moves_from find_append moved_def)
  qed
qed

lemma two_opt_pass_find:
  assumes "set (tour s) \<subseteq> dom pd"
  shows "two_opt_pass pd s =
    return (case first_improvement pd (tour s) (best_distance s) of
              None \<Rightarrow> s\<lparr>improved := False, tour := best_tour s\<rparr>
            | Some m \<Rightarrow> \<lparr>tour = apply_move (tour s) m, best_tour = apply_move (tour s) m,
                         best_distance = cycle_length pd (apply_move (tour s) m), improved = True\<rparr>)"
  using assms
  by (simp add: two_opt_pass_def Let_def outer_loop_find first_improvement_def two_opt_moves_def
      moved_def accept_def split: option.splits)

text \<open>The state in which every turn of the loop starts, and the one in which it ends.\<close>

definition search_state :: "(string, Place) dict \<Rightarrow> string list \<Rightarrow> bool \<Rightarrow> two_opt_state" where
  "search_state pd t b =
     \<lparr>tour = t, best_tour = t, best_distance = cycle_length pd t, improved = b\<rparr>"

lemma search_state_sel [simp]:
  "tour (search_state pd t b) = t" "best_tour (search_state pd t b) = t"
  "best_distance (search_state pd t b) = cycle_length pd t" "improved (search_state pd t b) = b"
  by (simp_all add: search_state_def)

lemma two_opt_pass_search_state:
  "set t \<subseteq> dom pd \<Longrightarrow>
     two_opt_pass pd (search_state pd t b) =
       return (case first_improvement pd t (cycle_length pd t) of
                 None \<Rightarrow> search_state pd t False
               | Some m \<Rightarrow> search_state pd (apply_move t m) True)"
  by (simp add: two_opt_pass_find search_state_def split: option.splits)

lemma two_opt_while_ref:
  "set t \<subseteq> dom pd \<Longrightarrow>
     two_opt_while pd (search_state pd t True) = return (search_state pd (two_opt_ref pd t) False)"
proof (induction pd t rule: two_opt_ref.induct)
  case (1 pd t)
  show ?case
  proof (cases "first_improvement pd t (cycle_length pd t)")
    case None
    with "1.prems" show ?thesis
      by (simp add: two_opt_while.simps [of pd "search_state pd t True"]
          two_opt_while.simps [of pd "search_state pd t False"]
          two_opt_pass_search_state two_opt_ref.simps [of pd t])
  next
    case (Some m)
    then have "set (apply_move t m) = set t"
      by (auto dest!: first_improvement_Some)
    with "1.prems" "1.IH" [OF Some] Some show ?thesis
      by (simp add: two_opt_while.simps [of pd "search_state pd t True"]
          two_opt_pass_search_state two_opt_ref.simps [of pd t])
  qed
qed

lemma two_opt_improve_ref:
  "set t \<subseteq> id_of ` set ps \<Longrightarrow> two_opt_improve ps t = return (two_opt_ref (place_dict ps) t)"
  using two_opt_while_ref [of t "place_dict ps"]
  by (simp add: two_opt_improve_def tour_distance_cycle_length search_state_def)

lemma two_opt_improve_raise:
  "tour_distance (place_dict ps) t = raise e \<Longrightarrow> two_opt_improve ps t = raise e"
  by (simp add: two_opt_improve_def)

section \<open>Properties of the reference search\<close>

text \<open>A tour that no candidate of a pass shortens.\<close>

definition locally_optimal :: "(string, Place) dict \<Rightarrow> string list \<Rightarrow> bool" where
  "locally_optimal pd t \<longleftrightarrow>
     (\<forall>m \<in> set (two_opt_moves (length t)). cycle_length pd t \<le> cycle_length pd (apply_move t m))"

lemma locally_optimal_iff: "locally_optimal pd t \<longleftrightarrow> first_improvement pd t (cycle_length pd t) = None"
  by (simp add: locally_optimal_def first_improvement_None)

lemma two_opt_ref_fixpoint: "locally_optimal pd t \<Longrightarrow> two_opt_ref pd t = t"
  by (simp add: locally_optimal_iff two_opt_ref.simps [of pd t])

lemma two_opt_ref_step:
  "first_improvement pd t (cycle_length pd t) = Some m \<Longrightarrow>
     two_opt_ref pd t = two_opt_ref pd (apply_move t m)"
  by (simp add: two_opt_ref.simps [of pd t])

text \<open>
  Induction over the moves the search takes: a property that holds for every locally
  optimal tour, and for a tour whenever it holds after its first improving move.
\<close>

lemma two_opt_ref_induct [consumes 0, case_names optimal move]:
  assumes "\<And>t. locally_optimal pd t \<Longrightarrow> P t"
    and "\<And>t m. first_improvement pd t (cycle_length pd t) = Some m \<Longrightarrow>
           m \<in> set (two_opt_moves (length t)) \<Longrightarrow>
           cycle_length pd (apply_move t m) < cycle_length pd t \<Longrightarrow>
           P (apply_move t m) \<Longrightarrow> P t"
  shows "P t"
  using assms
proof (induction pd t rule: two_opt_ref.induct)
  case (1 pd t)
  show ?case
  proof (cases "first_improvement pd t (cycle_length pd t)")
    case None
    then have "locally_optimal pd t" by (simp add: locally_optimal_iff)
    then show ?thesis by (rule "1.prems"(1))
  next
    case (Some m)
    have "P (apply_move t m)"
      using Some "1.prems" by (rule "1.IH")
    with Some first_improvement_Some [OF Some] show ?thesis
      by (intro "1.prems"(2) [of t m]) simp_all
  qed
qed

lemma mset_two_opt_ref [simp, tour_perm]: "mset (two_opt_ref pd t) = mset t"
  by (induction t rule: two_opt_ref_induct [of pd])
    (simp_all add: two_opt_ref_fixpoint two_opt_ref_step)

lemma set_two_opt_ref [simp]: "set (two_opt_ref pd t) = set t"
  by (rule mset_eq_setD) simp

lemma length_two_opt_ref [simp]: "length (two_opt_ref pd t) = length t"
  by (rule mset_eq_length) simp

lemma take_1_two_opt_ref [simp]: "take (Suc 0) (two_opt_ref pd t) = take (Suc 0) t"
  by (induction t rule: two_opt_ref_induct [of pd])
    (simp_all add: two_opt_ref_fixpoint two_opt_ref_step)

lemma two_opt_ref_not_longer: "cycle_length pd (two_opt_ref pd t) \<le> cycle_length pd t"
  by (induction t rule: two_opt_ref_induct [of pd])
    (simp_all add: two_opt_ref_fixpoint two_opt_ref_step)

lemma two_opt_ref_optimal: "locally_optimal pd (two_opt_ref pd t)"
  by (induction t rule: two_opt_ref_induct [of pd])
    (simp_all add: two_opt_ref_fixpoint two_opt_ref_step)

lemma two_opt_ref_idem: "two_opt_ref pd (two_opt_ref pd t) = two_opt_ref pd t"
  by (simp add: two_opt_ref_fixpoint two_opt_ref_optimal)

lemma two_opt_ref_shorter_or_same:
  "two_opt_ref pd t = t \<or> cycle_length pd (two_opt_ref pd t) < cycle_length pd t"
proof (cases "first_improvement pd t (cycle_length pd t)")
  case None
  then show ?thesis by (simp add: two_opt_ref.simps [of pd t])
next
  case (Some m)
  with two_opt_ref_not_longer [of pd "apply_move t m"] first_improvement_Some [OF Some]
  show ?thesis by (simp add: two_opt_ref_step)
qed

lemma two_opt_ref_small: "length t \<le> 3 \<Longrightarrow> two_opt_ref pd t = t"
  by (simp add: two_opt_ref_fixpoint locally_optimal_def)

lemma leg_length_sym: "leg_length pd (b, a) = leg_length pd (a, b)"
  by (simp add: leg_length_def place_distance_sym)

text \<open>
  With four places the only reversal a pass tries turns the whole cycle around. The
  search takes it when it measures strictly shorter, and then stops, since turning
  the cycle back cannot be shorter again: this needs no fact about the distances.
  In exact arithmetic the turned cycle has the same length, so the search leaves a
  tour of four places as it is; sums of floats taken in another order need not agree.
\<close>

lemma two_opt_moves_4: "two_opt_moves 4 = [(1, 3)]"
  by (simp add: two_opt_moves_def moves_from_def upt_rec numeral_eq_Suc)

lemma apply_move_4_twice: "apply_move (apply_move [a, b, c, d] (1, 3)) (1, 3) = [a, b, c, d]"
  by (simp add: apply_move_def reverse_segment_def)

lemma first_improvement_4:
  "length t = 4 \<Longrightarrow>
     first_improvement pd t b = (if cycle_length pd (apply_move t (1, 3)) < b then Some (1, 3) else None)"
  by (simp only: first_improvement_def two_opt_moves_4) (simp add: improving_def)

lemma two_opt_ref_4:
  assumes "length t = 4"
  shows "two_opt_ref pd t =
    (if cycle_length pd (apply_move t (1, 3)) < cycle_length pd t then apply_move t (1, 3) else t)"
proof (cases "cycle_length pd (apply_move t (1, 3)) < cycle_length pd t")
  case False
  with assms show ?thesis
    by (simp add: two_opt_ref_fixpoint locally_optimal_iff first_improvement_4)
next
  case True
  let ?t' = "apply_move t (1, 3)"
  from assms obtain a b c d where t: "t = [a, b, c, d]"
    by (auto simp: length_Suc_conv numeral_eq_Suc)
  have len: "length ?t' = 4"
    by (simp add: t apply_move_def reverse_segment_def)
  have undo: "apply_move ?t' (1, 3) = t"
    unfolding t by (rule apply_move_4_twice)
  from True have "\<not> cycle_length pd (apply_move ?t' (1, 3)) < cycle_length pd ?t'"
    unfolding undo by simp
  then have "two_opt_ref pd ?t' = ?t'"
    using len by (simp add: two_opt_ref_fixpoint locally_optimal_iff first_improvement_4)
  moreover have "two_opt_ref pd t = two_opt_ref pd ?t'"
    using True assms by (intro two_opt_ref_step) (simp add: first_improvement_4)
  ultimately show ?thesis using True by simp
qed

lemma cycle_length_4_reversed:
  "cycle_length pd (apply_move [a, b, c, d] (1, 3)) = cycle_length pd [a, b, c, d]"
proof -
  have "apply_move [a, b, c, d] (1, 3) = [a, d, c, b]"
    by (simp add: apply_move_def reverse_segment_def)
  then show ?thesis
    by (simp add: cycle_length_def cyclic_legs_Cons leg_length_sym [of pd a b]
        leg_length_sym [of pd b c] leg_length_sym [of pd c d] leg_length_sym [of pd d a])
qed

lemma locally_optimal_4:
  assumes "length t = 4"
  shows "locally_optimal pd t"
proof -
  from assms obtain a b c d where t: "t = [a, b, c, d]"
    by (auto simp: length_Suc_conv numeral_eq_Suc)
  have moves: "two_opt_moves (length t) = [(1, 3)]"
    by (simp only: assms two_opt_moves_4)
  show ?thesis
    unfolding locally_optimal_def moves
    using cycle_length_4_reversed [of pd a b c d] by (simp add: t)
qed

lemma two_opt_ref_upto_4: "length t \<le> 4 \<Longrightarrow> two_opt_ref pd t = t"
proof (cases "length t = 4")
  case True
  then show ?thesis by (simp add: two_opt_ref_fixpoint locally_optimal_4)
next
  case False
  assume "length t \<le> 4"
  with False have "length t \<le> 3" by simp
  then show ?thesis by (rule two_opt_ref_small)
qed

section \<open>Properties of the refiner\<close>

text \<open>
  C5: the whole behaviour of \<open>two_opt_improve\<close>. If the tour names a place that is
  not among the places, the call raises \<open>KeyError\<close> for the first such identifier of
  the tour; otherwise it returns the tour that the reference search reaches from it
  by first-improvement moves.
\<close>

theorem two_opt_improve_behaviour:
  "two_opt_improve ps t =
     (case first_unknown (place_dict ps) t of
        Some k \<Rightarrow> raise (KeyError k)
      | None \<Rightarrow> return (two_opt_ref (place_dict ps) t))"
proof (cases "first_unknown (place_dict ps) t")
  case None
  then have "set t \<subseteq> id_of ` set ps"
    by (simp add: first_unknown_None_iff)
  with None show ?thesis
    by (simp add: two_opt_improve_ref)
next
  case (Some k)
  then show ?thesis
    by (simp add: two_opt_improve_raise tour_distance_first_unknown)
qed

text \<open>
  C3: refinement never lengthens a tour. For a tour over the given places,
  \<open>two_opt_improve\<close> returns a tour whose closed length, as \<open>tour_distance\<close>
  computes it, is at most that of the tour it was given.
\<close>

theorem two_opt_improve_not_longer:
  assumes "set t \<subseteq> id_of ` set ps"
  shows "\<exists>t' d d'. two_opt_improve ps t = return t' \<and>
    tour_distance (place_dict ps) t = return d \<and>
    tour_distance (place_dict ps) t' = return d' \<and> d' \<le> d"
  using assms
  by (simp add: two_opt_improve_ref tour_distance_cycle_length two_opt_ref_not_longer)

theorem two_opt_improve_not_longer_witness:
  "\<exists>t' d d'. two_opt_improve [mk_place ''a'' 0 0, mk_place ''b'' 0 10] [''b'', ''a''] = return t' \<and>
    tour_distance (place_dict [mk_place ''a'' 0 0, mk_place ''b'' 0 10]) [''b'', ''a''] = return d \<and>
    tour_distance (place_dict [mk_place ''a'' 0 0, mk_place ''b'' 0 10]) t' = return d' \<and> d' \<le> d"
  by (rule two_opt_improve_not_longer) simp

text \<open>
  C4: a returned tour is a local optimum of the search: no reversal that a pass tries
  (positions \<open>1 \<le> i\<close>, \<open>i + 1 < j < len(tour)\<close>) gives a shorter closed tour.
\<close>

theorem two_opt_improve_local_optimum:
  assumes "two_opt_improve ps t = return t'"
  shows "locally_optimal (place_dict ps) t'"
proof -
  from assms have "first_unknown (place_dict ps) t = None"
    by (cases "first_unknown (place_dict ps) t")
      (simp_all add: two_opt_improve_raise tour_distance_first_unknown)
  with assms have "t' = two_opt_ref (place_dict ps) t"
    by (simp add: two_opt_improve_ref first_unknown_None_iff)
  then show ?thesis by (simp add: two_opt_ref_optimal)
qed

theorem two_opt_improve_local_optimum_witness:
  "two_opt_improve [mk_place ''a'' 0 0] [''a''] = return [''a''] \<and>
   locally_optimal (place_dict [mk_place ''a'' 0 0]) [''a'']"
proof -
  have r: "two_opt_improve [mk_place ''a'' 0 0] [''a''] = return [''a'']"
    by (simp add: two_opt_improve_ref two_opt_ref_small)
  from r two_opt_improve_local_optimum [OF r] show ?thesis by simp
qed

text \<open>
  C16: refinement keeps the tour a tour. For a tour over the given places the result is
  a permutation of it with the same first element: the start of the tour is never
  part of a reversed segment.
\<close>

theorem two_opt_improve_permutation:
  assumes "set t \<subseteq> id_of ` set ps"
  shows "\<exists>t'. two_opt_improve ps t = return t' \<and> mset t' = mset t \<and> take 1 t' = take 1 t"
  using assms by (simp add: two_opt_improve_ref)

theorem two_opt_improve_permutation_witness:
  "\<exists>t'. two_opt_improve [mk_place ''a'' 0 0, mk_place ''b'' 0 10] [''b'', ''a''] = return t' \<and>
     mset t' = mset [''b'', ''a''] \<and> take 1 t' = take 1 [''b'', ''a'']"
  by (rule two_opt_improve_permutation) simp

text \<open>
  C30: \<open>tour_distance\<close> in full. It raises \<open>KeyError\<close> for the first identifier of
  the tour that is not a key of the dictionary; otherwise it returns the sum of the
  distances between each place of the tour and its successor, the successor of the
  last being the first.
\<close>

theorem tour_distance_behaviour:
  "tour_distance pd t =
     (case find (\<lambda>k. pd k = None) t of
        Some k \<Rightarrow> raise (KeyError k)
      | None \<Rightarrow>
          return (sum_list (map (\<lambda>(a, b). place_distance (the (pd a)) (the (pd b)))
                     (zip t (rotate1 t)))))"
proof -
  have "leg_length pd = (\<lambda>(a, b). place_distance (the (pd a)) (the (pd b)))"
    by (simp add: fun_eq_iff leg_length_def)
  then show ?thesis
    by (simp add: tour_distance_first_unknown first_unknown_def cycle_length_def cyclic_legs_def
        split: option.splits)
qed

text \<open>
  C14: every turn of \<open>while improved\<close> brings the loop nearer to its end. A turn
  either finds nothing and clears \<open>improved\<close>, or replaces the tour by a permutation
  of it that is strictly shorter than \<open>best_distance\<close>; in both cases the measure
  \<open>turns_left\<close> decreases.
\<close>

theorem two_opt_pass_progress:
  assumes "two_opt_pass pd s = return s'" "improved s"
  shows "turns_left pd s' < turns_left pd s \<and>
    (if improved s'
     then mset (tour s') = mset (tour s) \<and> best_tour s' = tour s' \<and>
          tour_distance pd (tour s') = return (best_distance s') \<and>
          best_distance s' < best_distance s
     else best_tour s' = best_tour s \<and> best_distance s' = best_distance s)"
proof -
  have "turns_left pd s' < turns_left pd s"
    using assms by (rule two_opt_pass_turns_left)
  moreover from two_opt_pass_result [OF assms(1)]
  have "if improved s'
     then mset (tour s') = mset (tour s) \<and> best_tour s' = tour s' \<and>
          tour_distance pd (tour s') = return (best_distance s') \<and>
          best_distance s' < best_distance s
     else best_tour s' = best_tour s \<and> best_distance s' = best_distance s"
    by (elim disjE exE conjE) simp_all
  ultimately show ?thesis by simp
qed

theorem two_opt_pass_progress_witness:
  "turns_left Map.empty \<lparr>tour = [], best_tour = [], best_distance = 0, improved = False\<rparr>
     < turns_left Map.empty \<lparr>tour = [], best_tour = [], best_distance = 0, improved = True\<rparr>"
proof -
  have "two_opt_pass Map.empty \<lparr>tour = [], best_tour = [], best_distance = 0, improved = True\<rparr> =
      return \<lparr>tour = [], best_tour = [], best_distance = 0, improved = False\<rparr>"
    by (simp add: two_opt_pass_def)
  from two_opt_pass_progress [OF this] show ?thesis by simp
qed

text \<open>
  C31: small tours. A tour of up to three places is returned as it is, because a pass
  tries no reversal. With four places the only reversal a pass tries, of positions 1
  to 3, turns the cycle around: the result is the tour itself or, when the turned
  tour measures strictly shorter, the turned tour. The proof uses the order of the
  comparison and no fact about distances, so it does not depend on how the sums of
  the legs are rounded.
\<close>

theorem two_opt_improve_small_tours:
  assumes "set t \<subseteq> id_of ` set ps" "length t \<le> 4"
  shows "two_opt_improve ps t = return t \<or>
    length t = 4 \<and> two_opt_improve ps t = return (reverse_segment t 1 3) \<and>
    cycle_length (place_dict ps) (reverse_segment t 1 3) < cycle_length (place_dict ps) t"
proof (cases "length t = 4")
  case True
  then show ?thesis
    using assms(1) by (simp add: two_opt_improve_ref two_opt_ref_4 apply_move_def)
next
  case False
  with assms(2) have "length t \<le> 3" by simp
  then show ?thesis
    using assms(1) by (simp add: two_opt_improve_ref two_opt_ref_small)
qed

theorem two_opt_improve_small_tours_witness:
  "two_opt_improve [mk_place ''1'' 0 0, mk_place ''2'' 1 1, mk_place ''3'' 0 2] [''1'', ''3'', ''2'']
     = return [''1'', ''3'', ''2'']"
  using two_opt_improve_small_tours [of "[''1'', ''3'', ''2'']"
      "[mk_place ''1'' 0 0, mk_place ''2'' 1 1, mk_place ''3'' 0 2]"]
  by simp

text \<open>
  The dictionary of the places. Of several places with the same identifier
  \<open>place_dict\<close> keeps the last one of the list.
\<close>

theorem place_dict_last_wins: "place_dict ps k = find (\<lambda>p. id_of p = k) (rev ps)"
  by (simp add: place_dict_def py_dict_by_find)

text \<open>
  C32: a pass does not try to exchange two neighbours. Four places on the equator at
  0, 10, 20 and 30 degrees visited in the order a, c, b, d are returned as they are,
  although reversing the segment from position 1 to position 2 gives the shorter
  tour a, b, c, d: the reversal of two adjacent positions that the loop skips changes
  the tour.
\<close>

theorem two_opt_improve_skips_swap:
  "two_opt_improve [mk_place ''a'' 0 0, mk_place ''b'' 0 10, mk_place ''c'' 0 20, mk_place ''d'' 0 30]
      [''a'', ''c'', ''b'', ''d''] = return [''a'', ''c'', ''b'', ''d''] \<and>
   cycle_length (place_dict [mk_place ''a'' 0 0, mk_place ''b'' 0 10, mk_place ''c'' 0 20, mk_place ''d'' 0 30])
      (reverse_segment [''a'', ''c'', ''b'', ''d''] 1 2)
   < cycle_length (place_dict [mk_place ''a'' 0 0, mk_place ''b'' 0 10, mk_place ''c'' 0 20, mk_place ''d'' 0 30])
      [''a'', ''c'', ''b'', ''d'']"
proof -
  let ?ps = "[mk_place ''a'' 0 0, mk_place ''b'' 0 10, mk_place ''c'' 0 20, mk_place ''d'' 0 30]"
  have "two_opt_improve ?ps [''a'', ''c'', ''b'', ''d''] = return [''a'', ''c'', ''b'', ''d'']"
    by (simp add: two_opt_improve_ref two_opt_ref_upto_4)
  moreover have "cycle_length (place_dict ?ps) (reverse_segment [''a'', ''c'', ''b'', ''d''] 1 2)
     < cycle_length (place_dict ?ps) [''a'', ''c'', ''b'', ''d'']"
    by (simp add: place_dict_def py_dict_by_def reverse_segment_def cycle_length_def cyclic_legs_Cons
        leg_length_def place_distance_def calculate_distance_equator radians_def)
  ultimately show ?thesis by simp
qed

text \<open>
  C15: a pass takes the first improving reversal in scan order. From a state whose
  best tour is the tour, a turn of the loop either accepts the reversal of a segment
  \<open>i..j\<close> that is strictly shorter, such that no reversal tried before it
  (smaller \<open>i\<close>, or the same \<open>i\<close> and smaller \<open>j\<close>) is shorter than the tour;
  or it leaves the tour, and then no reversal it tries is shorter. So the result of
  the search is determined by the tour.
\<close>

theorem two_opt_pass_scan_order:
  assumes "set t \<subseteq> dom pd"
  shows "\<exists>s'. two_opt_pass pd (search_state pd t True) = return s' \<and>
     (if improved s'
      then \<exists>i j. 1 \<le> i \<and> i + 1 < j \<and> j < length t \<and> tour s' = reverse_segment t i j \<and>
             cycle_length pd (reverse_segment t i j) < cycle_length pd t \<and>
             (\<forall>i' j'. 1 \<le> i' \<and> i' + 1 < j' \<and> j' < length t \<and> (i' < i \<or> i' = i \<and> j' < j) \<longrightarrow>
                cycle_length pd t \<le> cycle_length pd (reverse_segment t i' j'))
      else tour s' = t \<and>
             (\<forall>i j. 1 \<le> i \<and> i + 1 < j \<and> j < length t \<longrightarrow>
                cycle_length pd t \<le> cycle_length pd (reverse_segment t i j)))"
proof (cases "first_improvement pd t (cycle_length pd t)")
  case None
  then have "\<forall>i j. 1 \<le> i \<and> i + 1 < j \<and> j < length t \<longrightarrow>
      cycle_length pd t \<le> cycle_length pd (reverse_segment t i j)"
    by (auto simp: first_improvement_None set_two_opt_moves apply_move_def)
  with None assms show ?thesis
    by (simp add: two_opt_pass_search_state)
next
  case (Some m)
  obtain i j where m: "m = (i, j)" by (cases m)
  from first_improvement_Some [OF Some]
  have range: "1 \<le> i \<and> i + 1 < j \<and> j < length t"
    and less: "cycle_length pd (reverse_segment t i j) < cycle_length pd t"
    by (auto simp: m set_two_opt_moves apply_move_def)
  have first: "\<forall>i' j'. 1 \<le> i' \<and> i' + 1 < j' \<and> j' < length t \<and> (i' < i \<or> i' = i \<and> j' < j) \<longrightarrow>
      cycle_length pd t \<le> cycle_length pd (reverse_segment t i' j')"
  proof (intro allI impI)
    fix i' j'
    assume "1 \<le> i' \<and> i' + 1 < j' \<and> j' < length t \<and> (i' < i \<or> i' = i \<and> j' < j)"
    then show "cycle_length pd t \<le> cycle_length pd (reverse_segment t i' j')"
      using first_improvement_first [OF Some, of "(i', j')"]
      by (auto simp: m set_two_opt_moves apply_move_def scanned_before_def)
  qed
  let ?s = "search_state pd (reverse_segment t i j) True"
  have "two_opt_pass pd (search_state pd t True) = return ?s"
    using Some assms by (simp add: two_opt_pass_search_state m apply_move_def)
  moreover have "\<exists>i0 j0. 1 \<le> i0 \<and> i0 + 1 < j0 \<and> j0 < length t \<and> tour ?s = reverse_segment t i0 j0 \<and>
      cycle_length pd (reverse_segment t i0 j0) < cycle_length pd t \<and>
      (\<forall>i' j'. 1 \<le> i' \<and> i' + 1 < j' \<and> j' < length t \<and> (i' < i0 \<or> i' = i0 \<and> j' < j0) \<longrightarrow>
         cycle_length pd t \<le> cycle_length pd (reverse_segment t i' j'))"
    using range less first by (intro exI [of _ i] exI [of _ j]) simp
  ultimately show ?thesis
    by (intro exI [of _ ?s]) (simp del: One_nat_def)
qed

theorem two_opt_pass_scan_order_witness:
  "\<exists>s'. two_opt_pass Map.empty (search_state Map.empty [] True) = return s' \<and> tour s' = []"
  using two_opt_pass_scan_order [of "[]" Map.empty] by (auto split: if_splits)


end
