(* ===== verification/TW_Optimize_Day.thy ===== *)
theory TW_Optimize_Day
  imports TW_Two_Opt
begin

text \<open>
  The handler of \<open>POST /optimize-day\<close>: \<open>optimize_day\<close> of
  \<open>src/apps/api/main.py\<close>. It builds the tour, refines it, and walks the closed
  tour once to collect the length and the duration of every leg; the response carries
  the legs without the closing one and the totals over all of them.
\<close>

section \<open>Speeds and durations\<close>

text \<open>The dictionary \<open>speed\<close> of the handler, in km/h.\<close>

definition speed :: "(string \<times> real) list" where
  "speed = [(''WALKING'', 5), (''BICYCLING'', 15), (''DRIVING'', 50), (''TRANSIT'', 30)]"

text \<open>\<open>speed.get(request.travel_mode, 50)\<close>.\<close>

definition speed_of :: "string \<Rightarrow> real" where
  "speed_of mode = py_get (map_of speed) mode 50"

text \<open>\<open>int((dist / speed.get(request.travel_mode, 50)) * 60)\<close>, in minutes.\<close>

definition leg_duration :: "string \<Rightarrow> real \<Rightarrow> int" where
  "leg_duration mode d = py_int ((d / speed_of mode) * 60)"

lemma speed_of_simps [simp]:
  "speed_of ''WALKING'' = 5" "speed_of ''BICYCLING'' = 15"
  "speed_of ''DRIVING'' = 50" "speed_of ''TRANSIT'' = 30"
  by (simp_all add: speed_of_def speed_def py_get_def)

lemma speed_of_invalid: "\<not> valid_travel_mode mode \<Longrightarrow> speed_of mode = 50"
  by (simp add: valid_travel_mode_iff speed_of_def speed_def py_get_def)

lemma speed_of_cases: "speed_of mode \<in> {5, 15, 30, 50}"
  by (simp add: speed_of_def speed_def py_get_def)

lemma speed_of_pos [simp]: "0 < speed_of mode"
  using speed_of_cases [of mode] by auto

lemma minutes_nonneg: "0 \<le> d \<Longrightarrow> 0 \<le> d / speed_of mode * 60"
  using speed_of_pos [of mode] by (simp add: less_imp_le)

lemma leg_duration_floor: "0 \<le> d \<Longrightarrow> leg_duration mode d = \<lfloor>d / speed_of mode * 60\<rfloor>"
  unfolding leg_duration_def by (rule py_int_nonneg) (rule minutes_nonneg)

lemma leg_duration_nonneg [simp]: "0 \<le> d \<Longrightarrow> 0 \<le> leg_duration mode d"
  unfolding leg_duration_def by (rule py_int_ge_0) (rule minutes_nonneg)

section \<open>The walk over the closed tour\<close>

text \<open>
  The state of the loop \<open>for i in range(len(optimized_tour))\<close>: the lists
  \<open>distances\<close> and \<open>durations\<close> and the sums \<open>total_distance\<close> and
  \<open>total_duration\<close>.
\<close>

type_synonym metrics = "real list \<times> int list \<times> real \<times> int"

fun metrics_loop ::
  "(string, Place) dict \<Rightarrow> string list \<Rightarrow> string \<Rightarrow> nat list \<Rightarrow> metrics \<Rightarrow> metrics result" where
  "metrics_loop pd t mode [] acc = return acc"
| "metrics_loop pd t mode (i # rest) (ds, ms, td, tm) =
     (let j = (i + 1) mod length t
      in case py_lookup pd (t ! i) of
           Inl e \<Rightarrow> raise e
         | Inr p1 \<Rightarrow>
             (case py_lookup pd (t ! j) of
                Inl e \<Rightarrow> raise e
              | Inr p2 \<Rightarrow>
                  (let d = calculate_distance (lat p1) (lng p1) (lat p2) (lng p2);
                       duration = leg_duration mode d
                   in metrics_loop pd t mode rest (ds @ [d], ms @ [duration], td + d, tm + duration))))"

definition optimize_day :: "OptimizeDayRequest \<Rightarrow> OptimizeDayResponse result" where
  "optimize_day request =
     (if length (places request) \<le> 1
      then return \<lparr>order = ids (places request), distances = [], durations = [],
                   total_distance = 0, total_duration = 0\<rparr>
      else let initial_tour = tsp_nearest_neighbor (places request)
           in case two_opt_improve (places request) initial_tour of
                Inl e \<Rightarrow> raise e
              | Inr optimized_tour \<Rightarrow>
                  (let pd = place_dict (places request)
                   in case metrics_loop pd optimized_tour (travel_mode request)
                             [0..<length optimized_tour] ([], [], 0, 0) of
                        Inl e \<Rightarrow> raise e
                      | Inr (ds, ms, td, tm) \<Rightarrow>
                          return \<lparr>order = optimized_tour, distances = butlast ds,
                                  durations = butlast ms, total_distance = td,
                                  total_duration = tm\<rparr>))"

section \<open>What the walk computes\<close>

text \<open>The lengths of the legs of a closed tour, the closing leg last.\<close>

definition leg_lengths :: "(string, Place) dict \<Rightarrow> string list \<Rightarrow> real list" where
  "leg_lengths pd t = map (leg_length pd) (cyclic_legs t)"

lemma length_leg_lengths [simp]: "length (leg_lengths pd t) = length t"
  by (simp add: leg_lengths_def)

lemma sum_leg_lengths: "sum_list (leg_lengths pd t) = cycle_length pd t"
  by (simp add: leg_lengths_def cycle_length_def)

lemma leg_lengths_nonneg: "d \<in> set (leg_lengths pd t) \<Longrightarrow> 0 \<le> d"
  by (auto simp: leg_lengths_def leg_length_def)

lemma metrics_loop_result:
  assumes "set t \<subseteq> dom pd" "\<forall>i \<in> set idxs. i < length t"
  shows "metrics_loop pd t mode idxs (ds, ms, td, tm) =
    return (ds @ map (\<lambda>i. leg_length pd (t ! i, t ! (Suc i mod length t))) idxs,
            ms @ map (\<lambda>i. leg_duration mode (leg_length pd (t ! i, t ! (Suc i mod length t)))) idxs,
            td + sum_list (map (\<lambda>i. leg_length pd (t ! i, t ! (Suc i mod length t))) idxs),
            tm + sum_list (map (\<lambda>i. leg_duration mode (leg_length pd (t ! i, t ! (Suc i mod length t)))) idxs))"
  using assms(2)
proof (induction idxs arbitrary: ds ms td tm)
  case Nil
  then show ?case by simp
next
  case (Cons i rest)
  then have i: "i < length t" by simp
  then have "t ! i \<in> set t" "t ! (Suc i mod length t) \<in> set t"
    by simp_all
  with assms(1) have "t ! i \<in> dom pd" "t ! (Suc i mod length t) \<in> dom pd"
    by blast+
  then obtain p1 p2 where p: "pd (t ! i) = Some p1" "pd (t ! (Suc i mod length t)) = Some p2"
    by auto
  from Cons.prems have rest: "\<forall>i \<in> set rest. i < length t" by simp
  show ?case
    by (simp add: p Cons.IH [OF rest] leg_length_def place_distance_def Let_def)
qed

lemma metrics_loop_all:
  assumes "set t \<subseteq> dom pd"
  shows "metrics_loop pd t mode [0..<length t] ([], [], 0, 0) =
    return (leg_lengths pd t, map (leg_duration mode) (leg_lengths pd t),
            cycle_length pd t, sum_list (map (leg_duration mode) (leg_lengths pd t)))"
proof -
  have legs: "map (\<lambda>i. leg_length pd (t ! i, t ! (Suc i mod length t))) [0..<length t] = leg_lengths pd t"
    by (rule nth_equalityI) (simp_all add: leg_lengths_def cyclic_legs_nth)
  have "map (\<lambda>i. leg_duration mode (leg_length pd (t ! i, t ! (Suc i mod length t)))) [0..<length t] =
      map (leg_duration mode) (map (\<lambda>i. leg_length pd (t ! i, t ! (Suc i mod length t))) [0..<length t])"
    by simp
  with legs have durs:
    "map (\<lambda>i. leg_duration mode (leg_length pd (t ! i, t ! (Suc i mod length t)))) [0..<length t] =
      map (leg_duration mode) (leg_lengths pd t)"
    by simp
  show ?thesis
    using assms by (simp add: metrics_loop_result legs durs sum_leg_lengths)
qed

section \<open>The response as a reference definition\<close>

text \<open>The response for a closed tour: the legs without the closing one, the totals over all.\<close>

definition tour_response :: "(string, Place) dict \<Rightarrow> string \<Rightarrow> string list \<Rightarrow> OptimizeDayResponse" where
  "tour_response pd mode t =
     \<lparr>order = t,
      distances = butlast (leg_lengths pd t),
      durations = butlast (map (leg_duration mode) (leg_lengths pd t)),
      total_distance = cycle_length pd t,
      total_duration = sum_list (map (leg_duration mode) (leg_lengths pd t))\<rparr>"

definition empty_response :: "string list \<Rightarrow> OptimizeDayResponse" where
  "empty_response t =
     \<lparr>order = t, distances = [], durations = [], total_distance = 0, total_duration = 0\<rparr>"

definition optimize_day_ref :: "OptimizeDayRequest \<Rightarrow> OptimizeDayResponse" where
  "optimize_day_ref request =
     (let ps = places request; pd = place_dict ps
      in if length ps \<le> 1 then empty_response (ids ps)
         else tour_response pd (travel_mode request) (two_opt_ref pd (ids (nn_visit ps))))"

lemma tour_response_sel [simp]:
  "order (tour_response pd mode t) = t"
  "distances (tour_response pd mode t) = butlast (leg_lengths pd t)"
  "durations (tour_response pd mode t) = butlast (map (leg_duration mode) (leg_lengths pd t))"
  "total_distance (tour_response pd mode t) = cycle_length pd t"
  "total_duration (tour_response pd mode t) = sum_list (map (leg_duration mode) (leg_lengths pd t))"
  by (simp_all add: tour_response_def)

lemma empty_response_sel [simp]:
  "order (empty_response t) = t" "distances (empty_response t) = []"
  "durations (empty_response t) = []" "total_distance (empty_response t) = 0"
  "total_duration (empty_response t) = 0"
  by (simp_all add: empty_response_def)

lemma nn_tour_known: "set (tsp_nearest_neighbor ps) \<subseteq> id_of ` set ps"
  by (simp add: nn_tour_visit)

lemma optimize_day_small:
  "length (places request) \<le> 1 \<Longrightarrow>
     optimize_day request = return (empty_response (ids (places request)))"
  by (simp add: optimize_day_def empty_response_def)

lemma optimize_day_tour:
  assumes "1 < length (places request)"
  shows "optimize_day request =
    return (tour_response (place_dict (places request)) (travel_mode request)
              (two_opt_ref (place_dict (places request)) (tsp_nearest_neighbor (places request))))"
proof -
  let ?pd = "place_dict (places request)"
  let ?t = "two_opt_ref ?pd (tsp_nearest_neighbor (places request))"
  have improve: "two_opt_improve (places request) (tsp_nearest_neighbor (places request)) = return ?t"
    by (simp add: two_opt_improve_ref nn_tour_known)
  have "set ?t \<subseteq> dom ?pd"
    using nn_tour_known [of "places request"] by simp
  then have "metrics_loop ?pd ?t (travel_mode request) [0..<length ?t] ([], [], 0, 0) =
      return (leg_lengths ?pd ?t, map (leg_duration (travel_mode request)) (leg_lengths ?pd ?t),
              cycle_length ?pd ?t, sum_list (map (leg_duration (travel_mode request)) (leg_lengths ?pd ?t)))"
    by (rule metrics_loop_all)
  with assms improve show ?thesis
    by (simp add: optimize_day_def tour_response_def Let_def del: length_two_opt_ref)
qed

lemma optimize_day_returns: "optimize_day request = return (optimize_day_ref request)"
proof (cases "length (places request) \<le> 1")
  case True
  then show ?thesis by (simp add: optimize_day_small optimize_day_ref_def)
next
  case False
  then show ?thesis
    by (simp add: optimize_day_tour optimize_day_ref_def nn_tour_visit Let_def)
qed

section \<open>Facts about the legs\<close>

lemma sum_list_butlast_last:
  fixes xs :: "'a::comm_monoid_add list"
  shows "xs \<noteq> [] \<Longrightarrow> sum_list xs = sum_list (butlast xs) + last xs"
  using append_butlast_last_id [of xs] sum_list_append [of "butlast xs" "[last xs]"] by simp

lemma last_leg_lengths: "t \<noteq> [] \<Longrightarrow> last (leg_lengths pd t) = leg_length pd (last t, hd t)"
  by (simp add: leg_lengths_def last_map last_cyclic_legs)

lemma floor_sum_bounds:
  assumes "\<forall>d \<in> set ds. 0 \<le> d"
  shows "real_of_int (sum_list (map (leg_duration mode) ds)) \<le> sum_list ds / speed_of mode * 60 \<and>
    sum_list ds / speed_of mode * 60 \<le> real_of_int (sum_list (map (leg_duration mode) ds)) + length ds"
  using assms
proof (induction ds)
  case Nil
  then show ?case by simp
next
  case (Cons d ds)
  then have "leg_duration mode d = \<lfloor>d / speed_of mode * 60\<rfloor>"
    by (simp add: leg_duration_floor)
  with Cons show ?case
    by (simp add: add_divide_distrib distrib_right) linarith
qed

section \<open>Properties of the response\<close>

text \<open>
  C9: the leg-count contract. The handler returns a response that lists every place
  once in \<open>order\<close> and reports one distance and one duration less than there
  are places: the closing leg is not listed.
\<close>

theorem optimize_day_leg_count:
  "\<exists>r. optimize_day request = return r \<and>
     length (order r) = length (places request) \<and>
     length (distances r) = length (places request) - 1 \<and>
     length (durations r) = length (places request) - 1"
proof (cases "length (places request) \<le> 1")
  case True
  then show ?thesis by (auto simp: optimize_day_small)
next
  case False
  then show ?thesis by (simp add: optimize_day_tour nn_tour_visit)
qed

text \<open>
  C10: the totals cover the whole cycle. For two places or more, \<open>total_distance\<close>
  is the sum of the reported distances plus the length of the leg from the last place
  of \<open>order\<close> back to the first, and \<open>total_duration\<close> is the sum of the
  reported durations plus the duration of that leg.
\<close>

theorem optimize_day_totals:
  assumes "optimize_day request = return r" "1 < length (places request)"
  shows "total_distance r =
      sum_list (distances r) + leg_length (place_dict (places request)) (last (order r), hd (order r)) \<and>
    total_duration r =
      sum_list (durations r) +
      leg_duration (travel_mode request)
        (leg_length (place_dict (places request)) (last (order r), hd (order r)))"
proof -
  let ?pd = "place_dict (places request)"
  let ?t = "two_opt_ref ?pd (tsp_nearest_neighbor (places request))"
  from assms have r: "r = tour_response ?pd (travel_mode request) ?t"
    by (simp add: optimize_day_tour)
  from assms(2) have ne: "?t \<noteq> []" "leg_lengths ?pd ?t \<noteq> []"
    by (auto simp: nn_tour_visit simp flip: length_0_conv)
  from ne have "total_distance r =
      sum_list (distances r) + leg_length ?pd (last (order r), hd (order r))"
    using sum_list_butlast_last [of "leg_lengths ?pd ?t"]
    by (simp add: r sum_leg_lengths last_leg_lengths)
  moreover from ne have "total_duration r =
      sum_list (durations r) +
      leg_duration (travel_mode request) (leg_length ?pd (last (order r), hd (order r)))"
    using sum_list_butlast_last [of "map (leg_duration (travel_mode request)) (leg_lengths ?pd ?t)"]
    by (simp add: r last_map last_leg_lengths map_butlast)
  ultimately show ?thesis by simp
qed

theorem optimize_day_totals_witness:
  "\<exists>r. optimize_day (mk_request [mk_place ''a'' 0 0, mk_place ''b'' 0 10]) = return r \<and>
    total_distance r =
      sum_list (distances r) +
      leg_length (place_dict [mk_place ''a'' 0 0, mk_place ''b'' 0 10]) (last (order r), hd (order r))"
proof -
  obtain r where r: "optimize_day (mk_request [mk_place ''a'' 0 0, mk_place ''b'' 0 10]) = return r"
    by (simp add: optimize_day_returns)
  from optimize_day_totals [OF r] r show ?thesis by simp
qed

text \<open>
  C11: the degenerate cases. With no place or one place the handler answers without
  computing a distance: \<open>order\<close> is the list of identifiers as given, the lists
  of legs are empty and both totals are zero.
\<close>

theorem optimize_day_degenerate:
  assumes "length (places request) \<le> 1"
  shows "optimize_day request =
    return \<lparr>order = ids (places request), distances = [], durations = [],
            total_distance = 0, total_duration = 0\<rparr>"
  using assms by (simp add: optimize_day_def)

theorem optimize_day_degenerate_witness:
  "optimize_day (mk_request [mk_place ''1'' 0 0]) =
    return \<lparr>order = [''1''], distances = [], durations = [],
            total_distance = 0, total_duration = 0\<rparr>"
  using optimize_day_degenerate [of "mk_request [mk_place ''1'' 0 0]"] by simp

text \<open>
  C37: durations are whole minutes rounded down leg by leg, so the total duration is at
  most the time the total distance takes at the speed of the travel mode, and falls
  short of it by less than one minute per place.
\<close>

theorem optimize_day_duration_bounds:
  assumes "optimize_day request = return r"
  shows "real_of_int (total_duration r) \<le> total_distance r / speed_of (travel_mode request) * 60 \<and>
    total_distance r / speed_of (travel_mode request) * 60 \<le>
      real_of_int (total_duration r) + length (places request)"
proof (cases "length (places request) \<le> 1")
  case True
  with assms show ?thesis by (auto simp: optimize_day_small)
next
  case False
  let ?pd = "place_dict (places request)"
  let ?t = "two_opt_ref ?pd (tsp_nearest_neighbor (places request))"
  have "\<forall>d \<in> set (leg_lengths ?pd ?t). 0 \<le> d"
    by (auto dest: leg_lengths_nonneg)
  from floor_sum_bounds [OF this, of "travel_mode request"] False assms show ?thesis
    by (auto simp: optimize_day_tour sum_leg_lengths nn_tour_visit)
qed

theorem optimize_day_duration_bounds_witness:
  "\<exists>r. optimize_day (mk_request [mk_place ''a'' 0 0, mk_place ''b'' 0 10]) = return r \<and>
     real_of_int (total_duration r) \<le> total_distance r / 50 * 60"
proof -
  obtain r where r: "optimize_day (mk_request [mk_place ''a'' 0 0, mk_place ''b'' 0 10]) = return r"
    by (simp add: optimize_day_returns)
  from optimize_day_duration_bounds [OF r] r show ?thesis by simp
qed

text \<open>
  C38: a travel mode that is none of the four known ones is treated as driving: the
  response is the one for \<open>DRIVING\<close>.
\<close>

theorem optimize_day_unknown_mode:
  assumes "\<not> valid_travel_mode m"
  shows "optimize_day (request\<lparr>travel_mode := m\<rparr>) =
    optimize_day (request\<lparr>travel_mode := ''DRIVING''\<rparr>)"
proof -
  from assms have "leg_duration m = leg_duration ''DRIVING''"
    by (simp add: fun_eq_iff leg_duration_def speed_of_invalid)
  then show ?thesis
    by (simp add: optimize_day_returns optimize_day_ref_def tour_response_def Let_def)
qed

theorem optimize_day_unknown_mode_witness:
  "optimize_day (mk_request [mk_place ''a'' 0 0, mk_place ''b'' 0 10]\<lparr>travel_mode := ''FLYING''\<rparr>) =
   optimize_day (mk_request [mk_place ''a'' 0 0, mk_place ''b'' 0 10]\<lparr>travel_mode := ''DRIVING''\<rparr>)"
  by (rule optimize_day_unknown_mode) (simp add: valid_travel_mode_iff)

section \<open>The response and the places\<close>

text \<open>
  The handler finds the coordinates of a leg through \<open>place_dict\<close>. When the
  identifiers of the places are distinct, looking up the identifiers of a tour gives
  the places back, and the legs are the distances between them.
\<close>

lemma tour_places:
  assumes "distinct (ids ps)" "mset t = mset (ids ps)"
  defines "qs \<equiv> map (\<lambda>k. the (place_dict ps k)) t"
  shows "mset qs = mset ps" "ids qs = t"
    "leg_lengths (place_dict ps) t = map (\<lambda>(p, q). place_distance p q) (cyclic_legs qs)"
proof -
  have known: "the (place_dict ps (id_of p)) = p" if "p \<in> set ps" for p
    using assms(1) that by (simp add: place_dict_def py_dict_by_distinct)
  have "mset qs = image_mset (\<lambda>k. the (place_dict ps k)) (mset (ids ps))"
    using assms(2) by (simp add: qs_def)
  also have "\<dots> = image_mset (\<lambda>p. the (place_dict ps (id_of p))) (mset ps)"
    by (simp add: image_mset.compositionality comp_def)
  also have "\<dots> = mset (map (\<lambda>p. the (place_dict ps (id_of p))) ps)"
    by simp
  also have "map (\<lambda>p. the (place_dict ps (id_of p))) ps = ps"
    using known by (auto intro!: map_idI)
  finally show "mset qs = mset ps" .
  have "set t = id_of ` set ps"
    using assms(2) by (metis mset_eq_setD set_map)
  then show "ids qs = t"
    using known by (auto simp: qs_def intro!: map_idI)
  show "leg_lengths (place_dict ps) t = map (\<lambda>(p, q). place_distance p q) (cyclic_legs qs)"
    by (simp add: leg_lengths_def qs_def cyclic_legs_map leg_length_def fun_eq_iff comp_def
        case_prod_beta)
qed

lemma tour_response_legs:
  "order (tour_response pd mode t) = t"
  "distances (tour_response pd mode t) = butlast (leg_lengths pd t)"
  "total_distance (tour_response pd mode t) = sum_list (leg_lengths pd t)"
  by (simp_all add: tour_response_def cycle_length_def leg_lengths_def)

text \<open>
  C13: with distinct identifiers the response describes a round trip through the
  places of the request. There is an arrangement of the places whose identifiers are
  \<open>order\<close>, whose consecutive distances are \<open>distances\<close>, and whose closed
  length is \<open>total_distance\<close>.
\<close>

theorem optimize_day_distinct:
  assumes "distinct (ids (places request))"
  shows "\<exists>r qs. optimize_day request = return r \<and> mset qs = mset (places request) \<and>
    order r = ids qs \<and>
    distances r = butlast (map (\<lambda>(p, q). place_distance p q) (cyclic_legs qs)) \<and>
    total_distance r = sum_list (map (\<lambda>(p, q). place_distance p q) (cyclic_legs qs))"
proof (cases "length (places request) \<le> 1")
  case True
  then have "places request = [] \<or> (\<exists>p. places request = [p])"
    by (cases "places request") auto
  then show ?thesis
    by (auto simp: optimize_day_small empty_response_def cyclic_legs_Cons place_distance_self
        intro!: exI [of _ "places request"])
next
  case False
  let ?ps = "places request"
  let ?t = "two_opt_ref (place_dict ?ps) (tsp_nearest_neighbor ?ps)"
  let ?qs = "map (\<lambda>k. the (place_dict ?ps k)) ?t"
  have "mset ?t = mset (ids ?ps)"
    by (simp add: nn_tour_visit)
  note tp = tour_places [OF assms this]
  let ?r = "tour_response (place_dict ?ps) (travel_mode request) ?t"
  show ?thesis
  proof (intro exI conjI)
    show "optimize_day request = return ?r"
      using False by (simp add: optimize_day_tour)
    show "mset ?qs = mset ?ps" by (rule tp(1))
    show "order ?r = ids ?qs" by (simp only: tp(2) tour_response_legs)
    show "distances ?r = butlast (map (\<lambda>(p, q). place_distance p q) (cyclic_legs ?qs))"
      by (simp only: tour_response_legs tp(3))
    show "total_distance ?r = sum_list (map (\<lambda>(p, q). place_distance p q) (cyclic_legs ?qs))"
      by (simp only: tour_response_legs tp(3))
  qed
qed

theorem optimize_day_distinct_witness:
  "\<exists>r qs. optimize_day (mk_request [mk_place ''a'' 0 0, mk_place ''b'' 0 10]) = return r \<and>
    mset qs = mset [mk_place ''a'' 0 0, mk_place ''b'' 0 10] \<and>
    order r = ids qs \<and>
    distances r = butlast (map (\<lambda>(p, q). place_distance p q) (cyclic_legs qs)) \<and>
    total_distance r = sum_list (map (\<lambda>(p, q). place_distance p q) (cyclic_legs qs))"
  using optimize_day_distinct [of "mk_request [mk_place ''a'' 0 0, mk_place ''b'' 0 10]"] by simp

text \<open>
  C33: identifiers that are not distinct. Two places 10 degrees apart that share an
  identifier are reported at distance 0: the construction measures with the
  coordinates of each place, the walk with those of the last place of that identifier.
\<close>

theorem optimize_day_duplicate_ids:
  "optimize_day (mk_request [mk_place ''x'' 0 0, mk_place ''x'' 0 10]) =
     return \<lparr>order = [''x'', ''x''], distances = [0], durations = [0],
             total_distance = 0, total_duration = 0\<rparr>"
proof -
  let ?ps = "[mk_place ''x'' 0 0, mk_place ''x'' 0 10]"
  have nn: "nn_loop [mk_place ''x'' 0 10] [''x''] (mk_place ''x'' 0 0) = [''x'', ''x'']"
    by (simp add: nn_loop_step py_pop_def find_nearest_def)
  have pd: "place_dict ?ps = [''x'' \<mapsto> mk_place ''x'' 0 10]"
    by (simp add: place_dict_def py_dict_by_def)
  show ?thesis
    by (simp add: optimize_day_tour nn two_opt_ref_small pd tour_response_def leg_lengths_def
        cycle_length_def cyclic_legs_Cons leg_length_def place_distance_def calculate_distance_same
        leg_duration_def)
qed

end
