(* ===== verification/TW_Routes.thy ===== *)
theory TW_Routes
  imports TW_Prelude
begin

text \<open>
  The two routes of \<open>src/apps/api/main.py\<close> that compute nothing: \<open>health_check\<close>
  answers with a fixed dictionary, \<open>export_pdf\<close> always raises the HTTP error 501.
\<close>

section \<open>\<open>GET /health\<close>\<close>

definition health_check :: "(string \<times> string) list" where
  "health_check = [(''status'', ''healthy''), (''service'', ''trailwright-api'')]"

section \<open>\<open>POST /export/pdf\<close>\<close>

text \<open>
  The handler reads neither the trip nor the credentials the bearer scheme hands it
  before it raises.
\<close>

definition export_pdf :: "string \<Rightarrow> string \<Rightarrow> unit result" where
  "export_pdf trip_id credentials = raise (HTTPException 501 ''PDF export not yet implemented'')"

lemma health_check_status: "map_of health_check ''status'' = Some ''healthy''"
  by (simp add: health_check_def)

lemma export_pdf_fails [simp]: "\<not> succeeds (export_pdf trip_id credentials)"
  by (simp add: export_pdf_def)

end
