(* ===== verification/TW_Strings.thy ===== *)
theory TW_Strings
  imports TW_Prelude
begin

text \<open>
  The string methods of Python that the import and AI routes of
  \<open>src/apps/api/main.py\<close> call: \<open>strip\<close>, \<open>split\<close>, \<open>join\<close>, \<open>find\<close>,
  \<open>rfind\<close>, slicing, and \<open>str\<close> of an integer and of an exception. A string is a
  list of characters; a separator or a needle is one character, as in the code.
\<close>

section \<open>\<open>strip\<close>\<close>

text \<open>\<open>str.isspace\<close> on the characters below 256.\<close>

definition py_isspace :: "char \<Rightarrow> bool" where
  "py_isspace c \<longleftrightarrow>
     c \<in> set [CHR 0x09, CHR 0x0A, CHR 0x0B, CHR 0x0C, CHR 0x0D, CHR 0x1C, CHR 0x1D, CHR 0x1E,
              CHR 0x1F, CHR 0x20, CHR 0x85, CHR 0xA0]"

definition py_strip :: "string \<Rightarrow> string" where
  "py_strip s = rev (dropWhile py_isspace (rev (dropWhile py_isspace s)))"

lemma py_strip_Nil [simp]: "py_strip [] = []"
  by (simp add: py_strip_def)

lemma py_strip_subseq: "set (py_strip s) \<subseteq> set s"
  by (auto simp: py_strip_def dest!: set_dropWhileD)

lemma py_strip_no_space [simp]:
  assumes "s = [] \<or> \<not> py_isspace (hd s) \<and> \<not> py_isspace (last s)"
  shows "py_strip s = s"
proof (cases s)
  case Nil
  then show ?thesis by simp
next
  case (Cons c cs)
  with assms have "\<not> py_isspace c" "\<not> py_isspace (last s)" by auto
  moreover from Cons have "rev s = last s # rev (butlast s)"
    by (metis append_butlast_last_id list.distinct(1) rev.simps(2) rev_append rev_rev_ident rev_singleton_conv singleton_rev_conv append_Cons append_Nil)
  ultimately show ?thesis
    unfolding py_strip_def using Cons by simp
qed

lemma py_strip_ends:
  "py_strip s \<noteq> [] \<Longrightarrow> \<not> py_isspace (hd (py_strip s)) \<and> \<not> py_isspace (last (py_strip s))"
proof -
  assume ne: "py_strip s \<noteq> []"
  let ?a = "dropWhile py_isspace s"
  let ?b = "dropWhile py_isspace (rev ?a)"
  from ne have b: "?b \<noteq> []" by (simp add: py_strip_def)
  then have "\<not> py_isspace (hd ?b)" by (rule hd_dropWhile)
  then have last: "\<not> py_isspace (last (py_strip s))"
    using b by (simp add: py_strip_def last_rev)
  from b have "rev ?a \<noteq> []" by (metis dropWhile.simps(1))
  then have a: "?a \<noteq> []" by simp
  then have hd: "\<not> py_isspace (hd ?a)" by (rule hd_dropWhile)
  have "\<exists>ys. rev ?a = ys @ ?b"
    by (metis takeWhile_dropWhile_id)
  then obtain ys where "rev ?a = ys @ ?b" ..
  then have "?a = rev ?b @ rev ys" by (metis rev_append rev_rev_ident)
  with b have "hd ?a = hd (rev ?b)" by (metis hd_append2 rev_is_Nil_conv)
  with hd last show ?thesis by (simp add: py_strip_def)
qed

lemma py_strip_idem [simp]: "py_strip (py_strip s) = py_strip s"
  using py_strip_ends [of s] by (intro py_strip_no_space) auto

section \<open>\<open>lower\<close>\<close>

text \<open>
  \<open>str.lower\<close> on the characters below 256: the letters A to Z and the capital
  letters of Latin-1 move up by 32.
\<close>

definition upper_chars :: string where
  "upper_chars = ''ABCDEFGHIJKLMNOPQRSTUVWXYZ'' @
       [CHR 0xC0, CHR 0xC1, CHR 0xC2, CHR 0xC3, CHR 0xC4, CHR 0xC5, CHR 0xC6, CHR 0xC7, CHR
        0xC8, CHR 0xC9, CHR 0xCA, CHR 0xCB, CHR 0xCC, CHR 0xCD, CHR 0xCE, CHR 0xCF, CHR
        0xD0, CHR 0xD1, CHR 0xD2, CHR 0xD3, CHR 0xD4, CHR 0xD5, CHR 0xD6, CHR 0xD8, CHR
        0xD9, CHR 0xDA, CHR 0xDB, CHR 0xDC, CHR 0xDD, CHR 0xDE]"

definition lower_chars :: string where
  "lower_chars = ''abcdefghijklmnopqrstuvwxyz'' @
       [CHR 0xE0, CHR 0xE1, CHR 0xE2, CHR 0xE3, CHR 0xE4, CHR 0xE5, CHR 0xE6, CHR 0xE7, CHR
        0xE8, CHR 0xE9, CHR 0xEA, CHR 0xEB, CHR 0xEC, CHR 0xED, CHR 0xEE, CHR 0xEF, CHR
        0xF0, CHR 0xF1, CHR 0xF2, CHR 0xF3, CHR 0xF4, CHR 0xF5, CHR 0xF6, CHR 0xF8, CHR
        0xF9, CHR 0xFA, CHR 0xFB, CHR 0xFC, CHR 0xFD, CHR 0xFE]"

definition py_lower_char :: "char \<Rightarrow> char" where
  "py_lower_char c = (case map_of (zip upper_chars lower_chars) c of None \<Rightarrow> c | Some l \<Rightarrow> l)"

definition py_lower :: "string \<Rightarrow> string" where
  "py_lower s = map py_lower_char s"

lemmas py_lower_eval = py_lower_def py_lower_char_def upper_chars_def lower_chars_def

lemma py_lower_anthropic [simp]: "py_lower ''anthropic'' = ''anthropic''"
  by (simp add: py_lower_eval)

lemma py_lower_upper_example: "py_lower ''OpenAI'' = ''openai''"
  by (simp add: py_lower_eval)

lemma length_py_lower [simp]: "length (py_lower s) = length s"
  by (simp add: py_lower_def)

section \<open>\<open>split\<close> and \<open>join\<close>\<close>

text \<open>\<open>s.split(sep)\<close> for a separator of one character: never an empty list.\<close>

fun py_split :: "char \<Rightarrow> string \<Rightarrow> string list" where
  "py_split sep [] = [[]]"
| "py_split sep (c # cs) =
     (if c = sep then [] # py_split sep cs
      else case py_split sep cs of
             [] \<Rightarrow> [[c]]
           | w # ws \<Rightarrow> (c # w) # ws)"

text \<open>\<open>sep.join(xs)\<close>.\<close>

fun py_join :: "string \<Rightarrow> string list \<Rightarrow> string" where
  "py_join sep [] = []"
| "py_join sep [x] = x"
| "py_join sep (x # y # ys) = x @ sep @ py_join sep (y # ys)"

lemma py_split_not_Nil [simp]: "py_split sep s \<noteq> []"
  by (induction s) (auto split: list.splits)

lemma length_py_split: "length (py_split sep s) = Suc (count_list s sep)"
  by (induction s) (auto split: list.splits)

lemma py_split_two_iff: "2 \<le> length (py_split sep s) \<longleftrightarrow> sep \<in> set s"
  using count_list_0_iff [of s sep] by (auto simp: length_py_split)

lemma py_split_no_sep: "w \<in> set (py_split sep s) \<Longrightarrow> sep \<notin> set w"
  by (induction s arbitrary: w) (auto split: list.splits if_splits)

lemma py_split_none [simp]: "sep \<notin> set s \<Longrightarrow> py_split sep s = [s]"
  by (induction s) auto

lemma py_split_append:
  "sep \<notin> set w \<Longrightarrow> py_split sep (w @ sep # s) = w # py_split sep s"
  by (induction w) auto

lemma py_join_Cons: "xs \<noteq> [] \<Longrightarrow> py_join sep (x # xs) = x @ sep @ py_join sep xs"
  by (cases xs) auto

lemma py_join_Cons_Cons [simp]: "py_join sep ((c # w) # ws) = c # py_join sep (w # ws)"
  by (cases ws) auto

lemma py_join_split: "py_join [sep] (py_split sep s) = s"
proof (induction s)
  case Nil
  then show ?case by simp
next
  case (Cons c cs)
  then show ?case
    by (cases "py_split sep cs") (auto simp: py_join_Cons split: list.splits)
qed

lemma py_split_join:
  "xs \<noteq> [] \<Longrightarrow> \<forall>w \<in> set xs. sep \<notin> set w \<Longrightarrow> py_split sep (py_join [sep] xs) = xs"
proof (induction xs)
  case Nil
  then show ?case by simp
next
  case (Cons x xs)
  then show ?case
    by (cases xs) (auto simp: py_split_append)
qed

section \<open>\<open>find\<close>, \<open>rfind\<close> and slices\<close>

text \<open>
  \<open>s.find(c)\<close> and \<open>s.rfind(c)\<close> for a needle of one character: the least and
  the greatest index of \<open>c\<close> in \<open>s\<close>, or \<open>-1\<close>.
\<close>

fun py_find :: "string \<Rightarrow> char \<Rightarrow> int" where
  "py_find [] c = - 1"
| "py_find (x # xs) c =
     (if x = c then 0 else let r = py_find xs c in if r = - 1 then - 1 else r + 1)"

definition py_rfind :: "string \<Rightarrow> char \<Rightarrow> int" where
  "py_rfind s c = (let r = py_find (rev s) c in if r = - 1 then - 1 else int (length s) - 1 - r)"

text \<open>\<open>s[a:b]\<close> for bounds that are not negative.\<close>

definition py_slice :: "'a list \<Rightarrow> int \<Rightarrow> int \<Rightarrow> 'a list" where
  "py_slice s a b = take (nat b - nat a) (drop (nat a) s)"

lemma py_find_range: "- 1 \<le> py_find s c \<and> py_find s c < int (length s)"
  by (induction s) (auto simp: Let_def)

lemma py_find_none: "py_find s c = - 1 \<longleftrightarrow> c \<notin> set s"
proof (induction s)
  case Nil
  then show ?case by simp
next
  case (Cons x xs)
  then show ?case
    using py_find_range [of xs c] by (auto simp: Let_def)
qed

lemma py_find_first:
  assumes "c \<in> set s"
  shows "s ! nat (py_find s c) = c \<and> c \<notin> set (take (nat (py_find s c)) s)"
  using assms
proof (induction s)
  case Nil
  then show ?case by simp
next
  case (Cons x xs)
  show ?case
  proof (cases "x = c")
    case True
    then show ?thesis by simp
  next
    case False
    with Cons.prems have c: "c \<in> set xs" by simp
    then have "py_find xs c \<noteq> - 1" by (simp add: py_find_none)
    moreover have "0 \<le> py_find xs c"
      using py_find_range [of xs c] calculation by linarith
    ultimately show ?thesis
      using False Cons.IH [OF c] by (simp add: Let_def nat_add_distrib)
  qed
qed

lemma py_find_append: "c \<notin> set p \<Longrightarrow> py_find (p @ c # s) c = int (length p)"
  by (induction p) (auto simp: Let_def)

lemma py_rfind_range: "- 1 \<le> py_rfind s c \<and> py_rfind s c < int (length s)"
  using py_find_range [of "rev s" c] by (auto simp: py_rfind_def Let_def)

lemma py_rfind_none: "py_rfind s c = - 1 \<longleftrightarrow> c \<notin> set s"
  using py_find_range [of "rev s" c] py_find_none [of "rev s" c]
  by (auto simp: py_rfind_def Let_def)

lemma py_rfind_append: "c \<notin> set q \<Longrightarrow> py_rfind (s @ c # q) c = int (length s)"
  using py_find_append [of c "rev q" "rev s"] by (simp add: py_rfind_def)

lemma py_slice_append:
  "py_slice (p @ b @ q) (int (length p)) (int (length p + length b)) = b"
  by (simp add: py_slice_def)

section \<open>\<open>str\<close> of an integer and of an exception\<close>

definition digit_char :: "nat \<Rightarrow> char" where
  "digit_char d = ''0123456789'' ! d"

function py_str_nat :: "nat \<Rightarrow> string" where
  "py_str_nat n = (if n < 10 then [digit_char n] else py_str_nat (n div 10) @ [digit_char (n mod 10)])"
  by pat_completeness auto
termination
  by (relation "measure id") auto

declare py_str_nat.simps [simp del]

definition py_str_int :: "int \<Rightarrow> string" where
  "py_str_int i = (if i < 0 then CHR ''-'' # py_str_nat (nat (- i)) else py_str_nat (nat i))"

text \<open>
  \<open>str(e)\<close>: the message of the exception; for \<open>HTTPException\<close> the status code
  and the detail, for \<open>KeyError\<close> the key in quotes (the \<open>repr\<close> of a key that
  has no quote, backslash or control character).
\<close>

fun py_str_error :: "error \<Rightarrow> string" where
  "py_str_error (KeyError k) = [CHR 0x27] @ k @ [CHR 0x27]"
| "py_str_error (HTTPException code detail) = py_str_nat code @ '': '' @ detail"
| "py_str_error (ValueError msg) = msg"
| "py_str_error (JSONDecodeError msg) = msg"
| "py_str_error (Exception msg) = msg"

lemma py_str_nat_digit [simp]: "n < 10 \<Longrightarrow> py_str_nat n = [digit_char n]"
  by (simp add: py_str_nat.simps)

lemma py_str_nat_step: "10 \<le> n \<Longrightarrow> py_str_nat n = py_str_nat (n div 10) @ [digit_char (n mod 10)]"
  by (subst py_str_nat.simps) simp

lemma py_str_nat_not_Nil [simp]: "py_str_nat n \<noteq> []"
  by (subst py_str_nat.simps) simp

lemma py_str_nat_500: "py_str_nat 500 = ''500''"
  by (simp add: py_str_nat_step digit_char_def)

end
