(* ===== verification/TW_Import.thy ===== *)
theory TW_Import
  imports TW_Strings
begin

text \<open>
  The import routes \<open>import_kml\<close> and \<open>import_gpx\<close> of \<open>src/apps/api/main.py\<close>.
  Both parse the file into a document tree and walk it. The tree is the datatype
  \<open>xml\<close> with the operations of BeautifulSoup that the routes call (\<open>find_all\<close>,
  \<open>find\<close>, \<open>get_text\<close>, \<open>get\<close>); tag names are compared as they are written. The
  parser (\<open>BeautifulSoup(content, 'xml')\<close>) and the conversion \<open>float\<close> are
  parameters of the routes, so every lemma holds for whatever they return or raise.
\<close>

section \<open>The request and response models\<close>

record ImportRequest =
  file_content :: string
  file_type :: string

record ImportedPlace =
  imp_name :: string
  imp_lat :: real
  imp_lng :: real
  imp_description :: "string option"

record ImportResponse =
  imported_places :: "ImportedPlace list"

text \<open>The pattern \<open>^(kml|gpx)$\<close> of the field \<open>file_type\<close>.\<close>

definition valid_file_type :: "string \<Rightarrow> bool" where
  "valid_file_type ft \<longleftrightarrow> ft \<in> set [''kml'', ''gpx'']"

section \<open>The document tree\<close>

datatype xml =
    Tag (tag_name: string) (tag_attrs: "(string \<times> string) list") (tag_contents: "xml list")
  | NavigableString string

text \<open>The nodes below a node, in document order.\<close>

fun descendants :: "xml \<Rightarrow> xml list" where
  "descendants (Tag n as cs) = concat (map (\<lambda>c. c # descendants c) cs)"
| "descendants (NavigableString s) = []"

definition is_tag :: "string \<Rightarrow> xml \<Rightarrow> bool" where
  "is_tag n x = (case x of Tag m as cs \<Rightarrow> m = n | NavigableString s \<Rightarrow> False)"

text \<open>\<open>x.find_all(n)\<close> and \<open>x.find(n)\<close>.\<close>

definition find_all :: "string \<Rightarrow> xml \<Rightarrow> xml list" where
  "find_all n x = filter (is_tag n) (descendants x)"

definition find_elem :: "string \<Rightarrow> xml \<Rightarrow> xml option" where
  "find_elem n x = find (is_tag n) (descendants x)"

text \<open>\<open>x.get_text()\<close>: the strings below a node, concatenated.\<close>

fun get_text :: "xml \<Rightarrow> string" where
  "get_text (NavigableString s) = s"
| "get_text (Tag n as cs) = concat (map get_text cs)"

text \<open>\<open>x.get(k)\<close>: the value of an attribute, or \<open>None\<close>.\<close>

definition get_attr :: "xml \<Rightarrow> string \<Rightarrow> string option" where
  "get_attr x k = (case x of Tag n as cs \<Rightarrow> map_of as k | NavigableString s \<Rightarrow> None)"

text \<open>The truth value of an optional string: \<open>None\<close> and the empty string are false.\<close>

definition truthy :: "string option \<Rightarrow> bool" where
  "truthy v = (case v of None \<Rightarrow> False | Some s \<Rightarrow> s \<noteq> [])"

section \<open>KML\<close>

text \<open>
  The body of the loop over the placemarks: the place of a placemark, \<open>None\<close> when
  the placemark is skipped. The latitude is converted before the longitude, as the
  arguments of \<open>ImportedPlace\<close> are evaluated.
\<close>

definition placemark_place :: "(string \<Rightarrow> real result) \<Rightarrow> xml \<Rightarrow> ImportedPlace option result" where
  "placemark_place float_of placemark =
     (let name_elem = find_elem ''name'' placemark;
          desc_elem = find_elem ''description'' placemark;
          coords_elem = find_elem ''coordinates'' placemark
      in case (coords_elem, name_elem) of
           (Some ce, Some ne) \<Rightarrow>
             (let coords_text = py_strip (get_text ce);
                  coords = py_split CHR '','' coords_text
              in if length coords \<ge> 2
                 then case float_of (coords ! 1) of
                        Inl e \<Rightarrow> raise e
                      | Inr la \<Rightarrow>
                          (case float_of (coords ! 0) of
                             Inl e \<Rightarrow> raise e
                           | Inr lo \<Rightarrow>
                               return (Some \<lparr>imp_name = py_strip (get_text ne), imp_lat = la,
                                              imp_lng = lo,
                                              imp_description =
                                                map_option (\<lambda>d. py_strip (get_text d)) desc_elem\<rparr>))
                 else return None)
         | _ \<Rightarrow> return None)"

text \<open>The loop \<open>for placemark in soup.find_all('Placemark')\<close> over the list \<open>places\<close>.\<close>

fun kml_loop ::
  "(string \<Rightarrow> real result) \<Rightarrow> xml list \<Rightarrow> ImportedPlace list \<Rightarrow> ImportedPlace list result" where
  "kml_loop float_of [] ps = return ps"
| "kml_loop float_of (placemark # rest) ps =
     (case placemark_place float_of placemark of
        Inl e \<Rightarrow> raise e
      | Inr None \<Rightarrow> kml_loop float_of rest ps
      | Inr (Some p) \<Rightarrow> kml_loop float_of rest (ps @ [p]))"

definition import_kml ::
  "(string \<Rightarrow> xml result) \<Rightarrow> (string \<Rightarrow> real result) \<Rightarrow> ImportRequest \<Rightarrow> ImportResponse result" where
  "import_kml soup_of float_of request =
     (case (case soup_of (file_content request) of
              Inl e \<Rightarrow> raise e
            | Inr soup \<Rightarrow> kml_loop float_of (find_all ''Placemark'' soup) []) of
        Inl e \<Rightarrow> raise (HTTPException 400 (''KML parsing failed: '' @ py_str_error e))
      | Inr ps \<Rightarrow> return \<lparr>imported_places = ps\<rparr>)"

section \<open>GPX\<close>

definition waypoint_place :: "(string \<Rightarrow> real result) \<Rightarrow> xml \<Rightarrow> ImportedPlace option result" where
  "waypoint_place float_of waypoint =
     (let name_elem = find_elem ''name'' waypoint;
          desc_elem = find_elem ''desc'' waypoint
      in case (name_elem, get_attr waypoint ''lat'', get_attr waypoint ''lon'') of
           (Some ne, Some la_str, Some lo_str) \<Rightarrow>
             if truthy (Some la_str) \<and> truthy (Some lo_str)
             then case float_of la_str of
                    Inl e \<Rightarrow> raise e
                  | Inr la \<Rightarrow>
                      (case float_of lo_str of
                         Inl e \<Rightarrow> raise e
                       | Inr lo \<Rightarrow>
                           return (Some \<lparr>imp_name = py_strip (get_text ne), imp_lat = la,
                                          imp_lng = lo,
                                          imp_description =
                                            map_option (\<lambda>d. py_strip (get_text d)) desc_elem\<rparr>))
             else return None
         | _ \<Rightarrow> return None)"

fun gpx_loop ::
  "(string \<Rightarrow> real result) \<Rightarrow> xml list \<Rightarrow> ImportedPlace list \<Rightarrow> ImportedPlace list result" where
  "gpx_loop float_of [] ps = return ps"
| "gpx_loop float_of (waypoint # rest) ps =
     (case waypoint_place float_of waypoint of
        Inl e \<Rightarrow> raise e
      | Inr None \<Rightarrow> gpx_loop float_of rest ps
      | Inr (Some p) \<Rightarrow> gpx_loop float_of rest (ps @ [p]))"

definition import_gpx ::
  "(string \<Rightarrow> xml result) \<Rightarrow> (string \<Rightarrow> real result) \<Rightarrow> ImportRequest \<Rightarrow> ImportResponse result" where
  "import_gpx soup_of float_of request =
     (case (case soup_of (file_content request) of
              Inl e \<Rightarrow> raise e
            | Inr soup \<Rightarrow> gpx_loop float_of (find_all ''wpt'' soup) []) of
        Inl e \<Rightarrow> raise (HTTPException 400 (''GPX parsing failed: '' @ py_str_error e))
      | Inr ps \<Rightarrow> return \<lparr>imported_places = ps\<rparr>)"

section \<open>The tree operations\<close>

lemma is_tag_simps [simp]:
  "is_tag n (Tag m as cs) \<longleftrightarrow> m = n" "\<not> is_tag n (NavigableString s)"
  by (simp_all add: is_tag_def)

lemma find_all_is_tag: "x \<in> set (find_all n t) \<Longrightarrow> is_tag n x \<and> x \<in> set (descendants t)"
  by (simp add: find_all_def)

text \<open>\<open>find\<close> returns the first element of \<open>find_all\<close>.\<close>

lemma find_elem_find_all:
  "find_elem n t = (case find_all n t of [] \<Rightarrow> None | x # xs \<Rightarrow> Some x)"
  unfolding find_elem_def find_all_def by (rule find_filter_hd)

lemma find_elem_Some: "find_elem n t = Some x \<Longrightarrow> is_tag n x \<and> x \<in> set (descendants t)"
  by (auto simp: find_elem_def dest: find_Some_set)

lemma find_elem_None: "find_elem n t = None \<longleftrightarrow> find_all n t = []"
  by (simp add: find_elem_find_all split: list.splits)

lemma descendants_Tag_Cons:
  "descendants (Tag n as (c # cs)) = c # descendants c @ descendants (Tag n as cs)"
  by simp

lemma get_attr_Tag [simp]: "get_attr (Tag n as cs) k = map_of as k"
  by (simp add: get_attr_def)

lemma truthy_simps [simp]: "\<not> truthy None" "truthy (Some s) \<longleftrightarrow> s \<noteq> []"
  by (simp_all add: truthy_def)

section \<open>The loops as a collection of the results of their bodies\<close>

text \<open>
  Both loops run a body over the elements found and stop at the first exception. The
  reference \<open>collect\<close> says what they return: the first error of the list of
  results, and if there is none the places of the elements that were not skipped, in
  order.
\<close>

fun collect :: "'a option result list \<Rightarrow> 'a list result" where
  "collect [] = return []"
| "collect (Inl e # rs) = raise e"
| "collect (Inr v # rs) =
     (case collect rs of
        Inl e \<Rightarrow> raise e
      | Inr vs \<Rightarrow> return (case v of None \<Rightarrow> vs | Some p \<Rightarrow> p # vs))"

lemma collect_raise_iff: "collect rs = raise e \<longleftrightarrow> find isl rs = Some (Inl e)"
proof (induction rs rule: collect.induct)
  case (3 v rs)
  then show ?case by (auto split: sum.splits)
qed simp_all

lemma collect_return:
  "\<forall>r \<in> set rs. \<not> isl r \<Longrightarrow> collect rs = return (concat (map (\<lambda>r. case r of Inr (Some p) \<Rightarrow> [p] | _ \<Rightarrow> []) rs))"
proof (induction rs rule: collect.induct)
  case (3 v rs)
  then show ?case by (auto split: option.splits)
qed simp_all

lemma collect_length: "collect rs = return vs \<Longrightarrow> length vs \<le> length rs"
proof (induction rs arbitrary: vs rule: collect.induct)
  case (3 v rs)
  then show ?case by (fastforce split: sum.splits option.splits)
qed simp_all

lemma collect_map_Some [simp]: "collect (map (\<lambda>x. return (Some (f x))) xs) = return (map f xs)"
  by (induction xs) simp_all

lemma kml_loop_collect:
  "kml_loop float_of pms ps =
     (case collect (map (placemark_place float_of) pms) of
        Inl e \<Rightarrow> raise e
      | Inr vs \<Rightarrow> return (ps @ vs))"
  by (induction pms arbitrary: ps) (auto split: sum.splits option.splits)

lemma gpx_loop_collect:
  "gpx_loop float_of wpts ps =
     (case collect (map (waypoint_place float_of) wpts) of
        Inl e \<Rightarrow> raise e
      | Inr vs \<Rightarrow> return (ps @ vs))"
  by (induction wpts arbitrary: ps) (auto split: sum.splits option.splits)

section \<open>Documents written from a list of places\<close>

text \<open>
  A KML document and a GPX document that list given places, with the numbers written
  by \<open>str_of\<close>: what an export of the places looks like. They state the round trips
  below.
\<close>

definition description_of :: "string \<Rightarrow> ImportedPlace \<Rightarrow> xml list" where
  "description_of n p =
     (case imp_description p of None \<Rightarrow> [] | Some d \<Rightarrow> [Tag n [] [NavigableString d]])"

definition placemark_of :: "(real \<Rightarrow> string) \<Rightarrow> ImportedPlace \<Rightarrow> xml" where
  "placemark_of str_of p =
     Tag ''Placemark'' []
       (Tag ''name'' [] [NavigableString (imp_name p)] # description_of ''description'' p @
        [Tag ''Point'' []
           [Tag ''coordinates'' []
              [NavigableString (str_of (imp_lng p) @ '','' @ str_of (imp_lat p) @ '',0'')]]])"

definition kml_of :: "(real \<Rightarrow> string) \<Rightarrow> ImportedPlace list \<Rightarrow> xml" where
  "kml_of str_of ps =
     Tag ''[document]'' [] [Tag ''kml'' [] [Tag ''Document'' [] (map (placemark_of str_of) ps)]]"

definition wpt_of :: "(real \<Rightarrow> string) \<Rightarrow> ImportedPlace \<Rightarrow> xml" where
  "wpt_of str_of p =
     Tag ''wpt'' [(''lat'', str_of (imp_lat p)), (''lon'', str_of (imp_lng p))]
       (Tag ''name'' [] [NavigableString (imp_name p)] # description_of ''desc'' p)"

definition gpx_of :: "(real \<Rightarrow> string) \<Rightarrow> ImportedPlace list \<Rightarrow> xml" where
  "gpx_of str_of ps = Tag ''[document]'' [] [Tag ''gpx'' [] (map (wpt_of str_of) ps)]"

text \<open>
  A place can be written and read back when its name and description are stripped
  and \<open>float\<close> reads what \<open>str_of\<close> writes for its coordinates.
\<close>

definition stripped :: "string \<Rightarrow> bool" where
  "stripped s \<longleftrightarrow> py_strip s = s"

definition readable :: "(real \<Rightarrow> string) \<Rightarrow> (string \<Rightarrow> real result) \<Rightarrow> real \<Rightarrow> bool" where
  "readable str_of float_of x \<longleftrightarrow>
     float_of (str_of x) = return x \<and> str_of x \<noteq> [] \<and> CHR '','' \<notin> set (str_of x) \<and>
     \<not> py_isspace (hd (str_of x))"

definition writable :: "(real \<Rightarrow> string) \<Rightarrow> (string \<Rightarrow> real result) \<Rightarrow> ImportedPlace \<Rightarrow> bool" where
  "writable str_of float_of p \<longleftrightarrow>
     stripped (imp_name p) \<and> (case imp_description p of None \<Rightarrow> True | Some d \<Rightarrow> stripped d) \<and>
     readable str_of float_of (imp_lat p) \<and> readable str_of float_of (imp_lng p)"

lemma find_all_placemark_of [simp]:
  "filter (is_tag ''Placemark'') (descendants (placemark_of str_of p)) = []"
  by (simp add: placemark_of_def description_of_def split: option.splits)

lemma is_tag_placemark_of [simp]: "is_tag ''Placemark'' (placemark_of str_of p)"
  by (simp add: placemark_of_def)

lemma find_all_kml_of: "find_all ''Placemark'' (kml_of str_of ps) = map (placemark_of str_of) ps"
proof -
  have "filter (is_tag ''Placemark'') (concat (map (\<lambda>c. c # descendants c) (map (placemark_of str_of) ps)))
      = map (placemark_of str_of) ps"
    by (induction ps) simp_all
  then show ?thesis by (simp add: find_all_def kml_of_def)
qed

lemma coordinates_text:
  assumes "a \<noteq> []" "\<not> py_isspace (hd a)" "CHR '','' \<notin> set a" "CHR '','' \<notin> set b"
  shows "py_split CHR '','' (py_strip (a @ CHR '','' # b @ '',0'')) = [a, b, ''0'']"
proof -
  have "py_strip (a @ CHR '','' # b @ '',0'') = a @ CHR '','' # b @ '',0''"
    using assms(1,2) by (intro py_strip_no_space) (simp add: py_isspace_def)
  moreover have "py_split CHR '','' (a @ CHR '','' # b @ CHR '','' # ''0'') = [a, b, ''0'']"
    using assms(3,4) by (simp add: py_split_append)
  ultimately show ?thesis by simp
qed

lemma placemark_place_placemark_of:
  assumes "writable str_of float_of p"
  shows "placemark_place float_of (placemark_of str_of p) = return (Some p)"
proof -
  let ?pm = "placemark_of str_of p"
  have name: "find_elem ''name'' ?pm = Some (Tag ''name'' [] [NavigableString (imp_name p)])"
    by (simp add: find_elem_def placemark_of_def)
  have desc: "find_elem ''description'' ?pm =
      map_option (\<lambda>d. Tag ''description'' [] [NavigableString d]) (imp_description p)"
    by (simp add: find_elem_def placemark_of_def description_of_def split: option.splits)
  have coords: "find_elem ''coordinates'' ?pm =
      Some (Tag ''coordinates'' [] [NavigableString (str_of (imp_lng p) @ '','' @ str_of (imp_lat p) @ '',0'')])"
    by (simp add: find_elem_def placemark_of_def description_of_def split: option.splits)
  have split: "py_split CHR '','' (py_strip (str_of (imp_lng p) @ CHR '','' # str_of (imp_lat p) @ '',0''))
      = [str_of (imp_lng p), str_of (imp_lat p), ''0'']"
    using assms by (intro coordinates_text) (simp_all add: writable_def readable_def)
  have "\<lparr>imp_name = py_strip (imp_name p), imp_lat = imp_lat p, imp_lng = imp_lng p,
         imp_description = map_option py_strip (imp_description p)\<rparr> = p"
    using assms by (cases "imp_description p") (simp_all add: writable_def stripped_def)
  then show ?thesis
    using assms
    by (simp add: placemark_place_def name desc coords split writable_def readable_def
        option.map_comp comp_def Let_def)
qed

lemma is_tag_wpt_of [simp]: "is_tag ''wpt'' (wpt_of str_of p)"
  by (simp add: wpt_of_def)

lemma find_all_wpt_of [simp]: "filter (is_tag ''wpt'') (descendants (wpt_of str_of p)) = []"
  by (simp add: wpt_of_def description_of_def split: option.splits)

lemma find_all_gpx_of: "find_all ''wpt'' (gpx_of str_of ps) = map (wpt_of str_of) ps"
proof -
  have "filter (is_tag ''wpt'') (concat (map (\<lambda>c. c # descendants c) (map (wpt_of str_of) ps)))
      = map (wpt_of str_of) ps"
    by (induction ps) simp_all
  then show ?thesis by (simp add: find_all_def gpx_of_def)
qed

lemma waypoint_place_wpt_of:
  assumes "writable str_of float_of p"
  shows "waypoint_place float_of (wpt_of str_of p) = return (Some p)"
proof -
  let ?w = "wpt_of str_of p"
  have name: "find_elem ''name'' ?w = Some (Tag ''name'' [] [NavigableString (imp_name p)])"
    by (simp add: find_elem_def wpt_of_def)
  have desc: "find_elem ''desc'' ?w =
      map_option (\<lambda>d. Tag ''desc'' [] [NavigableString d]) (imp_description p)"
    by (simp add: find_elem_def wpt_of_def description_of_def split: option.splits)
  have attrs: "get_attr ?w ''lat'' = Some (str_of (imp_lat p))" "get_attr ?w ''lon'' = Some (str_of (imp_lng p))"
    by (simp_all add: wpt_of_def)
  have "\<lparr>imp_name = py_strip (imp_name p), imp_lat = imp_lat p, imp_lng = imp_lng p,
         imp_description = map_option py_strip (imp_description p)\<rparr> = p"
    using assms by (cases "imp_description p") (simp_all add: writable_def stripped_def)
  then show ?thesis
    using assms
    by (simp add: waypoint_place_def name desc attrs writable_def readable_def
        option.map_comp comp_def Let_def)
qed

lemma collect_written:
  assumes "\<forall>p \<in> set ps. body (written p) = return (Some p)"
  shows "collect (map body (map written ps)) = return ps"
proof -
  have "map body (map written ps) = map (\<lambda>p. return (Some (id p))) ps"
    using assms by simp
  then show ?thesis by (simp only: collect_map_Some list.map_id)
qed

section \<open>Properties of the import routes\<close>

text \<open>
  C17: \<open>import_kml\<close> in full. A parser error and the first error of a conversion
  both become the status 400 with the message of the exception; otherwise the
  response lists the places of the placemarks that were not skipped, in document
  order.
\<close>

theorem import_kml_behaviour:
  "import_kml soup_of float_of request =
     (case soup_of (file_content request) of
        Inl e \<Rightarrow> raise (HTTPException 400 (''KML parsing failed: '' @ py_str_error e))
      | Inr soup \<Rightarrow>
          (case collect (map (placemark_place float_of) (find_all ''Placemark'' soup)) of
             Inl e \<Rightarrow> raise (HTTPException 400 (''KML parsing failed: '' @ py_str_error e))
           | Inr ps \<Rightarrow> return \<lparr>imported_places = ps\<rparr>))"
  by (simp add: import_kml_def kml_loop_collect split: sum.splits)

text \<open>
  C18: \<open>import_gpx\<close> in full, as \<open>import_kml\<close> with the waypoints \<open>wpt\<close> and
  the message of GPX.
\<close>

theorem import_gpx_behaviour:
  "import_gpx soup_of float_of request =
     (case soup_of (file_content request) of
        Inl e \<Rightarrow> raise (HTTPException 400 (''GPX parsing failed: '' @ py_str_error e))
      | Inr soup \<Rightarrow>
          (case collect (map (waypoint_place float_of) (find_all ''wpt'' soup)) of
             Inl e \<Rightarrow> raise (HTTPException 400 (''GPX parsing failed: '' @ py_str_error e))
           | Inr ps \<Rightarrow> return \<lparr>imported_places = ps\<rparr>))"
  by (simp add: import_gpx_def gpx_loop_collect split: sum.splits)

text \<open>
  C19: round trip through KML. Places whose names and descriptions are stripped and
  whose coordinates \<open>float\<close> reads back are imported from the document that lists
  them exactly as they are, in the same order; the coordinates are read in the order
  of KML, longitude first.
\<close>

theorem import_kml_roundtrip:
  assumes "\<forall>p \<in> set ps. writable str_of float_of p"
    and "soup_of (file_content request) = return (kml_of str_of ps)"
  shows "import_kml soup_of float_of request = return \<lparr>imported_places = ps\<rparr>"
proof -
  have "collect (map (placemark_place float_of) (map (placemark_of str_of) ps)) = return ps"
    using assms(1) by (intro collect_written) (simp add: placemark_place_placemark_of)
  then show ?thesis
    by (simp add: import_kml_def kml_loop_collect assms(2) find_all_kml_of)
qed

theorem import_kml_roundtrip_witness:
  "import_kml
     (\<lambda>c. return (kml_of (\<lambda>x. if x = 41 then ''41'' else ''12'')
        [\<lparr>imp_name = ''Colosseum'', imp_lat = 41, imp_lng = 12, imp_description = Some ''Arena''\<rparr>]))
     (\<lambda>s. if s = ''41'' then return 41 else if s = ''12'' then return 12 else raise (ValueError s))
     \<lparr>file_content = ''<kml/>'', file_type = ''kml''\<rparr> =
   return \<lparr>imported_places =
     [\<lparr>imp_name = ''Colosseum'', imp_lat = 41, imp_lng = 12, imp_description = Some ''Arena''\<rparr>]\<rparr>"
  by (rule import_kml_roundtrip [where str_of = "\<lambda>x. if x = 41 then ''41'' else ''12''"])
    (simp_all add: writable_def readable_def stripped_def py_strip_def py_isspace_def)

text \<open>
  C20: round trip through GPX, with the coordinates in the attributes \<open>lat\<close> and
  \<open>lon\<close> of each waypoint.
\<close>

theorem import_gpx_roundtrip:
  assumes "\<forall>p \<in> set ps. writable str_of float_of p"
    and "soup_of (file_content request) = return (gpx_of str_of ps)"
  shows "import_gpx soup_of float_of request = return \<lparr>imported_places = ps\<rparr>"
proof -
  have "collect (map (waypoint_place float_of) (map (wpt_of str_of) ps)) = return ps"
    using assms(1) by (intro collect_written) (simp add: waypoint_place_wpt_of)
  then show ?thesis
    by (simp add: import_gpx_def gpx_loop_collect assms(2) find_all_gpx_of)
qed

theorem import_gpx_roundtrip_witness:
  "import_gpx
     (\<lambda>c. return (gpx_of (\<lambda>x. if x = 41 then ''41'' else ''12'')
        [\<lparr>imp_name = ''Colosseum'', imp_lat = 41, imp_lng = 12, imp_description = None\<rparr>]))
     (\<lambda>s. if s = ''41'' then return 41 else if s = ''12'' then return 12 else raise (ValueError s))
     \<lparr>file_content = ''<gpx/>'', file_type = ''gpx''\<rparr> =
   return \<lparr>imported_places =
     [\<lparr>imp_name = ''Colosseum'', imp_lat = 41, imp_lng = 12, imp_description = None\<rparr>]\<rparr>"
  by (rule import_gpx_roundtrip [where str_of = "\<lambda>x. if x = 41 then ''41'' else ''12''"])
    (simp_all add: writable_def readable_def stripped_def py_strip_def py_isspace_def)

text \<open>
  C34: the only exception of the import routes is the status 400. Whatever the
  parser or \<open>float\<close> raise, each route raises \<open>HTTPException\<close> with status 400 and
  a detail that begins with its own message.
\<close>

theorem import_errors:
  "(import_kml soup_of float_of request = raise e \<longrightarrow>
      (\<exists>m. e = HTTPException 400 (''KML parsing failed: '' @ m))) \<and>
   (import_gpx soup_of float_of request = raise e \<longrightarrow>
      (\<exists>m. e = HTTPException 400 (''GPX parsing failed: '' @ m)))"
  by (auto simp: import_kml_def import_gpx_def split: sum.splits)

theorem import_errors_witness:
  "import_kml (\<lambda>c. raise (Exception ''no parser'')) (\<lambda>s. raise (ValueError s))
     \<lparr>file_content = ''<kml/>'', file_type = ''kml''\<rparr> =
   raise (HTTPException 400 ''KML parsing failed: no parser'')"
  using import_errors [of "\<lambda>c. raise (Exception ''no parser'')" "\<lambda>s. raise (ValueError s)"
      "\<lparr>file_content = ''<kml/>'', file_type = ''kml''\<rparr>"
      "HTTPException 400 ''KML parsing failed: no parser''"]
  by (simp add: import_kml_def)

text \<open>
  C35: which placemarks are skipped. A placemark yields no place and no error
  exactly when it has no \<open>name\<close> element, or no \<open>coordinates\<close> element, or the
  stripped text of its first \<open>coordinates\<close> element has no comma.
\<close>

theorem placemark_skipped_iff:
  "placemark_place float_of placemark = return None \<longleftrightarrow>
     find_elem ''name'' placemark = None \<or>
     (case find_elem ''coordinates'' placemark of
        None \<Rightarrow> True
      | Some ce \<Rightarrow> CHR '','' \<notin> set (py_strip (get_text ce)))"
  by (auto simp: placemark_place_def Let_def py_split_two_iff split: option.splits sum.splits)

text \<open>
  C36: which waypoints are skipped. A waypoint yields no place and no error exactly
  when it has no \<open>name\<close> element or one of the attributes \<open>lat\<close> and \<open>lon\<close> is
  missing or empty.
\<close>

theorem waypoint_skipped_iff:
  "waypoint_place float_of waypoint = return None \<longleftrightarrow>
     find_elem ''name'' waypoint = None \<or> \<not> truthy (get_attr waypoint ''lat'') \<or>
     \<not> truthy (get_attr waypoint ''lon'')"
  by (auto simp: waypoint_place_def Let_def split: option.splits sum.splits)

theorem waypoint_skipped_iff_witness:
  "waypoint_place (\<lambda>s. raise (ValueError s))
     (Tag ''wpt'' [(''lat'', []), (''lon'', ''12'')] [Tag ''name'' [] [NavigableString ''A'']])
   = return None"
  using waypoint_skipped_iff [of "\<lambda>s. raise (ValueError s)"
      "Tag ''wpt'' [(''lat'', []), (''lon'', ''12'')] [Tag ''name'' [] [NavigableString ''A'']]"]
  by simp

text \<open>
  An import returns at most one place for each element found: no more places
  than \<open>Placemark\<close> elements for KML, and than \<open>wpt\<close> elements for GPX.
\<close>

theorem import_count:
  assumes "soup_of (file_content request) = return soup"
  shows "(import_kml soup_of float_of request = return r \<longrightarrow>
            length (imported_places r) \<le> length (find_all ''Placemark'' soup)) \<and>
         (import_gpx soup_of float_of request = return r \<longrightarrow>
            length (imported_places r) \<le> length (find_all ''wpt'' soup))"
  using assms collect_length [of "map (placemark_place float_of) (find_all ''Placemark'' soup)"]
    collect_length [of "map (waypoint_place float_of) (find_all ''wpt'' soup)"]
  by (auto simp: import_kml_def import_gpx_def kml_loop_collect gpx_loop_collect split: sum.splits)

theorem import_count_witness:
  "import_kml (\<lambda>c. return (Tag ''[document]'' [] [Tag ''Placemark'' [] []])) (\<lambda>s. raise (ValueError s))
     \<lparr>file_content = ''<Placemark/>'', file_type = ''kml''\<rparr> = return \<lparr>imported_places = []\<rparr> \<and>
   length (imported_places \<lparr>imported_places = []\<rparr>)
     \<le> length (find_all ''Placemark'' (Tag ''[document]'' [] [Tag ''Placemark'' [] []]))"
  using import_count [of "\<lambda>c. return (Tag ''[document]'' [] [Tag ''Placemark'' [] []])"
      "\<lparr>file_content = ''<Placemark/>'', file_type = ''kml''\<rparr>"
      "Tag ''[document]'' [] [Tag ''Placemark'' [] []]" "\<lambda>s. raise (ValueError s)"
      "\<lparr>imported_places = []\<rparr>"]
  by (simp add: import_kml_def find_all_def placemark_place_def find_elem_def)

end
