(* ===== verification/TW_Day_Plan.thy ===== *)
theory TW_Day_Plan
  imports TW_Strings
begin

text \<open>
  The AI route \<open>generate_day_plan\<close> of \<open>src/apps/api/main.py\<close> and its helper
  \<open>get_ai_response\<close>. What the route reaches outside the program is the record
  \<open>env\<close>: the environment variables, the HTTP call to the provider with the
  decoding of its answer, \<open>json.loads\<close>, \<open>uuid4\<close>, the database insert and the
  validation of the response model. Decoded JSON is a type variable. The table
  \<open>ai_suggestions\<close> is a list of rows that the route returns with its result.
\<close>

section \<open>The request and response models\<close>

record GenerateDayPlanRequest =
  city :: string
  interests :: "string list"
  hours :: int
  plan_travel_mode :: string
  trip_id :: string
  day_id :: "string option"

record POISuggestion =
  poi_name :: string
  poi_description :: string
  category :: string
  estimated_duration :: int
  poi_lat :: "real option"
  poi_lng :: "real option"
  google_place_id :: "string option"

record GenerateDayPlanResponse =
  suggestions :: "POISuggestion list"
  reasoning :: string

text \<open>The bounds \<open>ge=1, le=24\<close> and the default of the field \<open>hours\<close>.\<close>

definition valid_hours :: "int \<Rightarrow> bool" where
  "valid_hours h \<longleftrightarrow> 1 \<le> h \<and> h \<le> 24"

definition default_hours :: int where
  "default_hours = 8"

section \<open>The environment\<close>

text \<open>The arguments of \<open>client.post\<close>: the address, the headers and the JSON body.\<close>

record ai_call =
  call_url :: string
  call_headers :: "(string \<times> string) list"
  call_model :: string
  call_max_tokens :: nat
  call_prompt :: string

text \<open>The answer of the provider: the status and what \<open>response.json()\<close> gives.\<close>

record 'j http_response =
  status_code :: int
  json_body :: "'j result"

text \<open>The dictionary that the route inserts into \<open>ai_suggestions\<close>.\<close>

record 'j suggestion_row =
  row_id :: string
  row_trip_id :: string
  row_day_id :: "string option"
  row_prompt :: string
  row_result :: 'j
  row_created_by :: string

text \<open>
  \<open>anthropic_text\<close> is \<open>result["content"][0]["text"]\<close> and \<open>openai_text\<close> is
  \<open>result["choices"][0]["message"]["content"]\<close>, each with the exception it raises
  on an answer of another shape; \<open>insert_error\<close> is the exception of the insert, if
  it fails; \<open>validate\<close> is \<open>GenerateDayPlanResponse(**parsed)\<close>.
\<close>

record 'j env =
  getenv :: "string \<Rightarrow> string option"
  post :: "ai_call \<Rightarrow> 'j http_response result"
  anthropic_text :: "'j \<Rightarrow> string result"
  openai_text :: "'j \<Rightarrow> string result"
  loads :: "string \<Rightarrow> 'j result"
  uuid4 :: string
  insert_error :: "'j suggestion_row \<Rightarrow> error option"
  validate :: "'j \<Rightarrow> GenerateDayPlanResponse result"

text \<open>\<open>os.getenv(key, default)\<close>.\<close>

definition py_getenv :: "'j env \<Rightarrow> string \<Rightarrow> string \<Rightarrow> string" where
  "py_getenv e key dflt = (case getenv e key of None \<Rightarrow> dflt | Some v \<Rightarrow> v)"

section \<open>\<open>get_ai_response\<close>\<close>

text \<open>The request sent to a provider, and the answer read with the provider's accessor.\<close>

definition read_answer :: "'j http_response \<Rightarrow> ('j \<Rightarrow> string result) \<Rightarrow> string result" where
  "read_answer response text_of =
     (if status_code response \<noteq> 200 then raise (HTTPException 500 ''AI service error'')
      else case json_body response of
             Inl e \<Rightarrow> raise e
           | Inr result \<Rightarrow> text_of result)"

definition anthropic_call :: "string \<Rightarrow> string \<Rightarrow> ai_call" where
  "anthropic_call api_key prompt =
     \<lparr>call_url = ''https://api.anthropic.com/v1/messages'',
      call_headers = [(''x-api-key'', api_key), (''content-type'', ''application/json''),
                      (''anthropic-version'', ''2023-06-01'')],
      call_model = ''claude-3-sonnet-20240229'', call_max_tokens = 1000, call_prompt = prompt\<rparr>"

definition openai_call :: "string \<Rightarrow> string \<Rightarrow> ai_call" where
  "openai_call api_key prompt =
     \<lparr>call_url = ''https://api.openai.com/v1/chat/completions'',
      call_headers = [(''Authorization'', ''Bearer '' @ api_key),
                      (''Content-Type'', ''application/json'')],
      call_model = ''gpt-3.5-turbo'', call_max_tokens = 1000, call_prompt = prompt\<rparr>"

definition get_ai_response :: "'j env \<Rightarrow> string \<Rightarrow> string result" where
  "get_ai_response e prompt =
     (let ai_provider = py_lower (py_getenv e ''AI_PROVIDER'' ''anthropic'')
      in if ai_provider = ''anthropic''
         then case getenv e ''ANTHROPIC_API_KEY'' of
                None \<Rightarrow> raise (HTTPException 500 ''Anthropic API key not configured'')
              | Some api_key \<Rightarrow>
                  if api_key = []
                  then raise (HTTPException 500 ''Anthropic API key not configured'')
                  else (case post e (anthropic_call api_key prompt) of
                          Inl err \<Rightarrow> raise err
                        | Inr response \<Rightarrow> read_answer response (anthropic_text e))
         else if ai_provider = ''openai''
         then case getenv e ''OPENAI_API_KEY'' of
                None \<Rightarrow> raise (HTTPException 500 ''OpenAI API key not configured'')
              | Some api_key \<Rightarrow>
                  if api_key = []
                  then raise (HTTPException 500 ''OpenAI API key not configured'')
                  else (case post e (openai_call api_key prompt) of
                          Inl err \<Rightarrow> raise err
                        | Inr response \<Rightarrow> read_answer response (openai_text e))
         else raise (HTTPException 500 ''Unsupported AI provider''))"

section \<open>\<open>generate_day_plan\<close>\<close>

text \<open>The f-string \<open>prompt\<close>, line by line.\<close>

definition day_plan_prompt :: \<open>GenerateDayPlanRequest \<Rightarrow> string\<close> where
  \<open>day_plan_prompt request =
     (let interests_str = py_join '', '' (interests request)
      in py_join [CHR 0x0A]
         [''Create a '' @ py_str_int (hours request) @ ''-hour itinerary for '' @ city request @ '' focusing on '' @ interests_str @ ''.'',
          ''    '',
          ''    Travel mode: '' @ plan_travel_mode request,
          ''    '',
          ''    Provide 6-8 points of interest with:'',
          ''    - Name and brief description'',
          ''    - Category (food, sights, nature, culture, adventure, etc.)'',
          ''    - Estimated time to spend (in minutes)'',
          ''    - Logical order considering travel time'',
          ''    '',
          ''    Format as JSON:'',
          ''    {'',
          ''        "suggestions": ['',
          ''            {'',
          ''                "name": "Place Name",'',
          ''                "description": "Brief description",'',
          ''                "category": "category",'',
          ''                "estimated_duration": 120'',
          ''            }'',
          ''        ],'',
          ''        "reasoning": "Brief explanation of the itinerary flow"'',
          ''    }''])\<close>

text \<open>
  The JSON block of the answer: from the first opening brace to the last closing
  brace. \<open>ValueError\<close> when one of them is missing.
\<close>

definition json_block :: "string \<Rightarrow> string result" where
  "json_block ai_response =
     (let start = py_find ai_response CHR ''{'';
          end' = py_rfind ai_response CHR ''}'' + 1
      in if start = - 1 \<or> end' = 0
         then raise (ValueError ''No JSON found in AI response'')
         else return (py_slice ai_response start end'))"

text \<open>The row that the route stores.\<close>

definition suggestion_of :: "'j env \<Rightarrow> GenerateDayPlanRequest \<Rightarrow> string \<Rightarrow> 'j \<Rightarrow> 'j suggestion_row" where
  "suggestion_of e request prompt parsed =
     \<lparr>row_id = uuid4 e, row_trip_id = trip_id request, row_day_id = day_id request,
      row_prompt = prompt, row_result = parsed, row_created_by = ''system''\<rparr>"

text \<open>
  The body of \<open>try\<close>, with the table \<open>ai_suggestions\<close> before and after: the row
  is inserted before the response is validated.
\<close>

definition day_plan_try ::
  "'j env \<Rightarrow> 'j suggestion_row list \<Rightarrow> GenerateDayPlanRequest \<Rightarrow>
     GenerateDayPlanResponse result \<times> 'j suggestion_row list" where
  "day_plan_try e table request =
     (let prompt = day_plan_prompt request
      in case get_ai_response e prompt of
           Inl err \<Rightarrow> (raise err, table)
         | Inr ai_response \<Rightarrow>
             (case json_block ai_response of
                Inl err \<Rightarrow> (raise err, table)
              | Inr json_str \<Rightarrow>
                  (case loads e json_str of
                     Inl err \<Rightarrow> (raise err, table)
                   | Inr parsed \<Rightarrow>
                       (case insert_error e (suggestion_of e request prompt parsed) of
                          Some err \<Rightarrow> (raise err, table)
                        | None \<Rightarrow>
                            (validate e parsed,
                             table @ [suggestion_of e request prompt parsed])))))"

text \<open>The two \<open>except\<close> clauses.\<close>

fun day_plan_except :: "error \<Rightarrow> error" where
  "day_plan_except (JSONDecodeError msg) = HTTPException 500 ''Failed to parse AI response''"
| "day_plan_except err = HTTPException 500 (''AI generation failed: '' @ py_str_error err)"

definition generate_day_plan ::
  "'j env \<Rightarrow> 'j suggestion_row list \<Rightarrow> GenerateDayPlanRequest \<Rightarrow>
     GenerateDayPlanResponse result \<times> 'j suggestion_row list" where
  "generate_day_plan e table request =
     (case day_plan_try e table request of
        (Inl err, table') \<Rightarrow> (raise (day_plan_except err), table')
      | (Inr response, table') \<Rightarrow> (return response, table'))"

section \<open>The JSON block\<close>

lemma json_block_raise_iff:
  "json_block s = raise err \<longleftrightarrow>
     err = ValueError ''No JSON found in AI response'' \<and> (CHR ''{'' \<notin> set s \<or> CHR ''}'' \<notin> set s)"
  using py_rfind_none [of s "CHR ''}''"] py_find_none [of s "CHR ''{''"]
  by (auto simp: json_block_def Let_def)

lemma json_block_framed:
  assumes "CHR ''{'' \<notin> set p" "CHR ''}'' \<notin> set q"
  shows "json_block (p @ CHR ''{'' # b @ CHR ''}'' # q) = return (CHR ''{'' # b @ [CHR ''}''])"
proof -
  let ?s = "p @ CHR ''{'' # b @ CHR ''}'' # q"
  have start: "py_find ?s CHR ''{'' = int (length p)"
    using assms(1) by (rule py_find_append)
  have "py_rfind ((p @ CHR ''{'' # b) @ CHR ''}'' # q) CHR ''}'' = int (length (p @ CHR ''{'' # b))"
    using assms(2) by (rule py_rfind_append)
  then have end': "py_rfind ?s CHR ''}'' + 1 = int (length p + length (CHR ''{'' # b @ [CHR ''}'']))"
    by simp
  have "py_slice (p @ (CHR ''{'' # b @ [CHR ''}'']) @ q) (int (length p))
      (int (length p + length (CHR ''{'' # b @ [CHR ''}'']))) = CHR ''{'' # b @ [CHR ''}'']"
    by (rule py_slice_append)
  then show ?thesis
    unfolding json_block_def Let_def start end' by simp
qed

section \<open>What the route returns and stores\<close>

lemma day_plan_except_500: "\<exists>detail. day_plan_except err = HTTPException 500 detail"
  by (cases err) simp_all

lemma read_answer_return:
  "read_answer response text_of = return text \<longleftrightarrow>
     status_code response = 200 \<and> (\<exists>result. json_body response = return result \<and> text_of result = return text)"
  by (auto simp: read_answer_def split: sum.splits)

lemma day_plan_try_table:
  "snd (day_plan_try e table request) = table \<or>
   (\<exists>parsed. snd (day_plan_try e table request) =
      table @ [suggestion_of e request (day_plan_prompt request) parsed])"
  by (auto simp: day_plan_try_def Let_def split: sum.splits option.splits)

lemma generate_day_plan_snd [simp]:
  "snd (generate_day_plan e table request) = snd (day_plan_try e table request)"
  by (simp add: generate_day_plan_def split: prod.splits sum.splits)

lemma generate_day_plan_fst:
  "fst (generate_day_plan e table request) =
     (case fst (day_plan_try e table request) of
        Inl err \<Rightarrow> raise (day_plan_except err)
      | Inr response \<Rightarrow> return response)"
  by (simp add: generate_day_plan_def split: prod.splits sum.splits)

text \<open>
  C21: the only exception of \<open>generate_day_plan\<close> is the status 500. Whatever the
  provider, the decoder, the database or the validation raise, the route raises
  \<open>HTTPException\<close> with status 500; an exception that \<open>get_ai_response\<close> raised
  with its own detail is caught as well and its detail replaced.
\<close>

theorem generate_day_plan_errors:
  assumes "fst (generate_day_plan e table request) = raise err"
  shows "\<exists>detail. err = HTTPException 500 detail"
  using assms day_plan_except_500
  by (auto simp: generate_day_plan_fst split: sum.splits)

theorem generate_day_plan_errors_witness:
  "fst (generate_day_plan
     \<lparr>getenv = (\<lambda>k. None), post = (\<lambda>c. raise (Exception ''offline'')),
      anthropic_text = (\<lambda>j :: unit. return []), openai_text = (\<lambda>j. return []),
      loads = (\<lambda>s. return ()), uuid4 = ''id'', insert_error = (\<lambda>r. None),
      validate = (\<lambda>j. raise (ValueError ''invalid''))\<rparr>
     []
     \<lparr>city = ''Rome'', interests = [''food''], hours = 8, plan_travel_mode = ''WALKING'',
      trip_id = ''t1'', day_id = None\<rparr>) =
   raise (HTTPException 500 ''AI generation failed: 500: Anthropic API key not configured'')"
proof -
  let ?e = "\<lparr>getenv = (\<lambda>k. None), post = (\<lambda>c. raise (Exception ''offline'')),
      anthropic_text = (\<lambda>j :: unit. return []), openai_text = (\<lambda>j. return []),
      loads = (\<lambda>s. return ()), uuid4 = ''id'', insert_error = (\<lambda>r. None),
      validate = (\<lambda>j. raise (ValueError ''invalid''))\<rparr>"
  let ?r = "\<lparr>city = ''Rome'', interests = [''food''], hours = 8, plan_travel_mode = ''WALKING'',
      trip_id = ''t1'', day_id = None\<rparr>"
  have "fst (generate_day_plan ?e [] ?r) =
      raise (HTTPException 500 ''AI generation failed: 500: Anthropic API key not configured'')"
    by (simp add: generate_day_plan_fst day_plan_try_def get_ai_response_def py_getenv_def
        py_str_nat_500 Let_def)
  with generate_day_plan_errors [OF this] show ?thesis by simp
qed

text \<open>
  C23: the JSON block. When the answer has an opening brace and, after it, a closing
  brace, the block runs from the first opening brace to the last closing brace:
  text before it without an opening brace and text after it without a closing brace
  are cut off. \<open>ValueError\<close> is raised exactly when the answer lacks one of the
  two braces.
\<close>

theorem json_block_extracts:
  "(CHR ''{'' \<notin> set p \<and> CHR ''}'' \<notin> set q \<longrightarrow>
      json_block (p @ CHR ''{'' # b @ CHR ''}'' # q) = return (CHR ''{'' # b @ [CHR ''}''])) \<and>
   (json_block s = raise err \<longleftrightarrow>
      err = ValueError ''No JSON found in AI response'' \<and>
      (CHR ''{'' \<notin> set s \<or> CHR ''}'' \<notin> set s))"
  by (simp add: json_block_framed json_block_raise_iff)

theorem json_block_extracts_witness:
  "json_block ''Plan: {x} end'' = return ''{x}''"
  using json_block_extracts [of "''Plan: ''" "'' end''" "''x''"] by simp

text \<open>
  C24: the suggestion is stored before it is validated. When the provider answers,
  the block decodes and the insert succeeds, but the decoded value does not validate
  as \<open>GenerateDayPlanResponse\<close>, the route raises status 500 and the table has the
  new row all the same.
\<close>

theorem generate_day_plan_stores_invalid:
  assumes "get_ai_response e (day_plan_prompt request) = return text"
    and "json_block text = return json_str"
    and "loads e json_str = return parsed"
    and "insert_error e (suggestion_of e request (day_plan_prompt request) parsed) = None"
    and "validate e parsed = raise err"
  shows "generate_day_plan e table request =
    (raise (day_plan_except err),
     table @ [suggestion_of e request (day_plan_prompt request) parsed])"
  using assms by (simp add: generate_day_plan_def day_plan_try_def Let_def)

text \<open>
  An environment for the examples: the provider is OpenAI (written with capitals), it
  answers with a block in prose, the block decodes, and the insert succeeds.
\<close>

definition example_env :: "GenerateDayPlanResponse result \<Rightarrow> unit env" where
  "example_env validated =
     \<lparr>getenv = [''AI_PROVIDER'' \<mapsto> ''OpenAI'', ''OPENAI_API_KEY'' \<mapsto> ''key''],
      post = (\<lambda>c. return \<lparr>status_code = 200, json_body = return ()\<rparr>),
      anthropic_text = (\<lambda>j. raise (KeyError ''content'')),
      openai_text = (\<lambda>j. return ''Here you are: {} Enjoy.''),
      loads = (\<lambda>s. if s = ''{}'' then return () else raise (JSONDecodeError s)),
      uuid4 = ''id-1'', insert_error = (\<lambda>r. None), validate = (\<lambda>j. validated)\<rparr>"

definition example_request :: GenerateDayPlanRequest where
  "example_request =
     \<lparr>city = ''Rome'', interests = [''food'', ''sights''], hours = 8,
      plan_travel_mode = ''WALKING'', trip_id = ''trip-1'', day_id = None\<rparr>"

lemma example_env_sel [simp]:
  "getenv (example_env v) = [''AI_PROVIDER'' \<mapsto> ''OpenAI'', ''OPENAI_API_KEY'' \<mapsto> ''key'']"
  "post (example_env v) = (\<lambda>c. return \<lparr>status_code = 200, json_body = return ()\<rparr>)"
  "openai_text (example_env v) = (\<lambda>j. return ''Here you are: {} Enjoy.'')"
  "loads (example_env v) = (\<lambda>s. if s = ''{}'' then return () else raise (JSONDecodeError s))"
  "uuid4 (example_env v) = ''id-1''" "insert_error (example_env v) = (\<lambda>r. None)"
  "validate (example_env v) = (\<lambda>j. v)"
  by (simp_all add: example_env_def)

lemma example_answer [simp]:
  "get_ai_response (example_env v) prompt = return ''Here you are: {} Enjoy.''"
  by (simp add: get_ai_response_def py_getenv_def py_lower_eval read_answer_def)

lemma example_block [simp]: "json_block ''Here you are: {} Enjoy.'' = return ''{}''"
  using json_block_framed [of "''Here you are: ''" "'' Enjoy.''" "[]"] by simp

theorem generate_day_plan_stores_invalid_witness:
  "generate_day_plan (example_env (raise (ValueError ''reasoning: field required''))) [] example_request =
     (raise (HTTPException 500 ''AI generation failed: reasoning: field required''),
      [\<lparr>row_id = ''id-1'', row_trip_id = ''trip-1'', row_day_id = None,
        row_prompt = day_plan_prompt example_request, row_result = (),
        row_created_by = ''system''\<rparr>])"
  using generate_day_plan_stores_invalid [of "example_env (raise (ValueError ''reasoning: field required''))"
      example_request "''Here you are: {} Enjoy.''" "''{}''" "()" "ValueError ''reasoning: field required''" "[]"]
  by (simp add: suggestion_of_def example_request_def)

text \<open>
  C22: a response is returned only after every step succeeded. When the route
  returns a response, the provider answered, the answer had a JSON block that decoded,
  the decoded value validated to the response, and the table has exactly one new row,
  with the identifiers of the request, the prompt and the decoded value.
\<close>

theorem generate_day_plan_success:
  assumes "generate_day_plan e table request = (return response, table')"
  shows "\<exists>text json_str parsed.
    get_ai_response e (day_plan_prompt request) = return text \<and>
    json_block text = return json_str \<and> loads e json_str = return parsed \<and>
    validate e parsed = return response \<and>
    table' = table @ [suggestion_of e request (day_plan_prompt request) parsed]"
  using assms
  by (auto simp: generate_day_plan_def day_plan_try_def Let_def
      split: sum.splits option.splits prod.splits)

theorem generate_day_plan_success_witness:
  "\<exists>text json_str parsed.
    get_ai_response (example_env (return \<lparr>suggestions = [], reasoning = ''none''\<rparr>))
      (day_plan_prompt example_request) = return text \<and>
    json_block text = return json_str \<and>
    loads (example_env (return \<lparr>suggestions = [], reasoning = ''none''\<rparr>)) json_str = return parsed \<and>
    validate (example_env (return \<lparr>suggestions = [], reasoning = ''none''\<rparr>)) parsed =
      return \<lparr>suggestions = [], reasoning = ''none''\<rparr>"
proof -
  let ?e = "example_env (return \<lparr>suggestions = [], reasoning = ''none''\<rparr>)"
  have "generate_day_plan ?e [] example_request =
      (return \<lparr>suggestions = [], reasoning = ''none''\<rparr>,
       [] @ [suggestion_of ?e example_request (day_plan_prompt example_request) ()])"
    by (simp add: generate_day_plan_def day_plan_try_def Let_def)
  from generate_day_plan_success [OF this] show ?thesis by blast
qed

text \<open>
  C25: \<open>get_ai_response\<close> returns a text only from a provider it knows. The
  provider named by \<open>AI_PROVIDER\<close> in lower case (Anthropic when the variable is not
  set) is \<open>anthropic\<close> or \<open>openai\<close>, its key is set and not empty, the call
  went to the address of that provider with that key and the prompt, the status was
  200, and the text is what the accessor of that provider reads in the answer.
\<close>

theorem get_ai_response_success:
  assumes "get_ai_response e prompt = return text"
  shows "\<exists>api_key response result.
    api_key \<noteq> [] \<and> status_code response = 200 \<and> json_body response = return result \<and>
    (py_lower (py_getenv e ''AI_PROVIDER'' ''anthropic'') = ''anthropic'' \<and>
       getenv e ''ANTHROPIC_API_KEY'' = Some api_key \<and>
       post e (anthropic_call api_key prompt) = return response \<and>
       anthropic_text e result = return text \<or>
     py_lower (py_getenv e ''AI_PROVIDER'' ''anthropic'') = ''openai'' \<and>
       getenv e ''OPENAI_API_KEY'' = Some api_key \<and>
       post e (openai_call api_key prompt) = return response \<and>
       openai_text e result = return text)"
  using assms
  by (auto simp: get_ai_response_def Let_def read_answer_return
      split: if_splits option.splits sum.splits)

theorem get_ai_response_success_witness:
  "\<exists>api_key response result.
    api_key \<noteq> [] \<and> status_code response = 200 \<and> json_body response = return result \<and>
    py_lower (py_getenv (example_env (raise (ValueError []))) ''AI_PROVIDER'' ''anthropic'') = ''openai'' \<and>
    getenv (example_env (raise (ValueError []))) ''OPENAI_API_KEY'' = Some api_key \<and>
    post (example_env (raise (ValueError []))) (openai_call api_key ''Hello'') = return response \<and>
    openai_text (example_env (raise (ValueError []))) result = return ''Here you are: {} Enjoy.''"
  using get_ai_response_success [of "example_env (raise (ValueError []))" "''Hello''"
      "''Here you are: {} Enjoy.''"]
  by (simp add: py_getenv_def py_lower_eval)

end
