(* ===== verification/Spec2Isabelle.thy ===== *)
theory Spec2Isabelle
  imports TW_Optimize_Day TW_Routes TW_Import TW_Day_Plan
begin

text \<open>
  \<^bold>\<open>Trailwright API: the route optimiser of \<open>src/apps/api/main.py\<close>.\<close>

  The service is one Python module. Its algorithmic part orders the places of a day:
  \<open>tsp_nearest_neighbor\<close> builds a tour greedily from the first place,
  \<open>two_opt_improve\<close> shortens it by reversing segments until no reversal it tries
  helps, and the handler \<open>optimize_day\<close> walks the closed tour and reports the length
  and the duration of each leg. All three measure with \<open>calculate_distance\<close>, the
  haversine distance. The remaining routes call external services (an AI provider, a
  database, an XML parser) or are stubs.

  \<^bold>\<open>Theories, in the order of the code.\<close>
  \<^item> \<open>TW_Prelude\<close>: the exceptions as values (\<open>error\<close>, results \<open>error + 'a\<close>
    with \<open>raise\<close> and \<open>return\<close>), the Python built-ins the code uses
    (\<open>py_lookup\<close>, \<open>py_get\<close>, \<open>py_dict_by\<close>, \<open>py_pop\<close>, \<open>py_int\<close>), the
    legs of a closed tour (\<open>cyclic_legs\<close>), and the list, multiset and finiteness
    lemmas the components share.
  \<^item> \<open>TW_Models\<close>: the pydantic models \<open>Place\<close>, \<open>OptimizeDayRequest\<close> and
    \<open>OptimizeDayResponse\<close> as records (the field \<open>id\<close> is \<open>id_of\<close>), and the
    pattern and default of \<open>travel_mode\<close>.
  \<^item> \<open>TW_Distance\<close>: \<open>calculate_distance\<close> with its local \<open>a\<close>
    (\<open>haversine_a\<close>) and the numpy functions it calls. Lemmas: \<open>a\<close> is in
    \<open>[0, 1]\<close> for all inputs, the distance is \<open>2 * 6371 * arcsin (sqrt a)\<close>, lies in
    \<open>[0, 6371 * pi]\<close>, is symmetric, grows with \<open>a\<close>, and has a closed form along
    a meridian and along the equator.
  \<^item> \<open>TW_Nearest_Neighbor\<close>: \<open>tsp_nearest_neighbor\<close>. The \<open>for\<close> loop is
    \<open>nearest_scan\<close> (state \<open>(nearest_idx, nearest_dist)\<close>), the \<open>while\<close> loop
    is \<open>nn_loop\<close>, which terminates because the index found is in range and
    \<open>pop\<close> shortens the list. Lemmas: the index found is the first position of the
    least distance (\<open>first_nearest\<close>); the loop equals the reference \<open>nn_order\<close>
    written with \<open>arg_min_list\<close> and \<open>remove1\<close>; the tour is a greedy permutation.
  \<^item> \<open>TW_Two_Opt\<close>: \<open>two_opt_improve\<close> and its local function
    \<open>tour_distance\<close>. The variables of the search are the record
    \<open>two_opt_state\<close>; \<open>inner_loop\<close>, \<open>outer_loop\<close>, \<open>two_opt_pass\<close> and
    \<open>two_opt_while\<close> are the two \<open>for\<close> loops, one turn of \<open>while improved\<close>
    and the loop. Lemmas: \<open>tour_distance\<close> returns the sum over the legs or raises
    \<open>KeyError\<close> for the first unknown identifier; the \<open>while\<close> loop terminates
    (measure \<open>turns_left\<close>); the loops implement the reference search
    \<open>two_opt_ref\<close>, which applies the first improving move of \<open>two_opt_moves\<close>
    until none is left; every turn of the loop decreases the measure; the result is a
    permutation with the same first element, not longer than the input and locally
    optimal for the reversals the loops try. Those leave out the exchange of two
    neighbours (\<open>j - i = 1\<close>): with up to three places no reversal is tried, with
    four the only one tried turns the cycle around, and an example shows a tour of
    four places that an exchange of neighbours would shorten.
  \<^item> \<open>TW_Optimize_Day\<close>: the handler \<open>optimize_day\<close> with its loop
    \<open>metrics_loop\<close> over the state \<open>(distances, durations, total_distance,
    total_duration)\<close>. Lemmas: the loop computes the leg lengths and their durations;
    the handler returns \<open>tour_response\<close> of the refined tour; leg counts, totals,
    bounds of the durations, the fallback of an unknown travel mode. With distinct
    identifiers the response describes a round trip through the places of the request;
    an example shows what is reported when two places share an identifier
    (\<open>place_dict\<close> keeps the last).
  \<^item> \<open>TW_Routes\<close>: \<open>health_check\<close> and \<open>export_pdf\<close>.
  \<^item> \<open>TW_Strings\<close>: the string methods the other routes call (\<open>strip\<close>,
    \<open>split\<close>, \<open>join\<close>, \<open>find\<close>, \<open>rfind\<close>, slices, \<open>str\<close> of an integer
    and of an exception) with their round trips and ranges.
  \<^item> \<open>TW_Import\<close>: \<open>import_kml\<close> and \<open>import_gpx\<close>. The document is the
    datatype \<open>xml\<close> with the BeautifulSoup operations the routes call; the bodies
    of the two loops are \<open>placemark_place\<close> and \<open>waypoint_place\<close>, the loops
    \<open>kml_loop\<close> and \<open>gpx_loop\<close>. The parser and \<open>float\<close> are parameters of
    the routes. Lemmas: a route returns the first error as status 400 and otherwise
    the places of the elements not skipped (reference \<open>collect\<close>); which elements
    are skipped; places written to a document (\<open>kml_of\<close>, \<open>gpx_of\<close>) are read
    back unchanged.
  \<^item> \<open>TW_Day_Plan\<close>: \<open>get_ai_response\<close> and \<open>generate_day_plan\<close>. What the
    route reaches outside the program is the record \<open>env\<close> (environment variables,
    the HTTP call and the decoding of its answer, \<open>json.loads\<close>, \<open>uuid4\<close>, the
    insert, the validation of the response model); decoded JSON is a type variable and
    the table \<open>ai_suggestions\<close> a list of rows passed in and out. The body of
    \<open>try\<close> is \<open>day_plan_try\<close>, the \<open>except\<close> clauses \<open>day_plan_except\<close>, the
    extraction of the JSON block \<open>json_block\<close>, the f-string \<open>day_plan_prompt\<close>.
    Lemmas: the route raises nothing but status 500; the block runs from the first
    opening to the last closing brace; a response is returned only after every step
    succeeded and exactly one row was stored; a row is stored even when validation
    then fails.
  \<^item> This theory: the properties of the handler that span construction, refinement
    and the walk.

  \<^bold>\<open>How the model corresponds to the code.\<close> Every function of the code is a
  definition of the same name with the same parameters; a parameter or local variable
  whose name is a constant of HOL or a field of a record is abbreviated (\<open>ps\<close> for
  \<open>places\<close>, \<open>t\<close> for \<open>tour\<close>, \<open>total'\<close> for \<open>total\<close>). A \<open>for\<close> loop
  is a recursive function over the list of the values still to visit and the variables
  it assigns; \<open>break\<close> is returning without the recursive call, \<open>continue\<close> the
  recursive call alone. A dictionary lookup \<open>d[k]\<close> is \<open>py_lookup\<close>, which raises
  \<open>KeyError k\<close>; an expression that can raise has a result type and every caller
  passes the error on.

  \<^bold>\<open>Numbers.\<close> Python floats are modelled as reals: the theorems are about the
  exact arithmetic the code approximates, and say nothing of rounding, infinities or
  NaN. What this leaves out of the program: (1) the haversine term \<open>a\<close>, which is at
  most 1 here, can round to a double just above 1 for antipodal points, and then
  \<open>np.sqrt(1 - a)\<close> is NaN; (2) \<open>tour_distance\<close> adds doubles in tour order, so two
  tours with the same legs (a tour and the same cycle turned around) have equal length
  here and may differ in the last bits there, where the comparison
  \<open>new_distance < best_distance\<close> can then accept the turned tour; (3) a NaN distance,
  for which every comparison is false, has no counterpart. The theorems on the control
  flow (which reversals are tried and in which order, what is accepted, permutation,
  start, leg counts, errors) do not depend on this; an equality of two tours or of two
  lengths that rests on a tie of exact sums does, and \<open>two_opt_improve_small_tours\<close>
  is therefore stated and proved without one. \<open>float('inf')\<close> is the value
  \<open>None\<close> of an optional real. Indices and lengths
  are natural numbers; where the code subtracts (\<open>len(tour) - 2\<close>, \<open>j - i\<close>) the
  truncated difference gives the same range and the same test, since \<open>range\<close> with a
  negative end is empty and \<open>j > i\<close> in the loop. \<open>int\<close> applied to a float rounds
  towards zero (\<open>py_int\<close>).

  \<^bold>\<open>Exceptions.\<close> The type \<open>error\<close> has the exception classes that the code raises
  or tells apart: \<open>KeyError\<close>, \<open>ValueError\<close>, \<open>JSONDecodeError\<close> (a subclass of
  \<open>ValueError\<close> in Python; the code has no \<open>except ValueError\<close> that would see the
  difference), \<open>HTTPException\<close>, and \<open>Exception\<close> for any other with its message.
  Exceptions outside the class \<open>Exception\<close>, which \<open>except Exception\<close> does not catch
  (cancellation of the task, keyboard interrupt), are not modelled. \<open>list.pop\<close> and
  \<open>places[0]\<close> are total functions here: \<open>find_nearest_less\<close> and the guard
  \<open>len(places) <= 1\<close> show that the index is in range wherever the code calls them, so
  their \<open>IndexError\<close> is no branch of the model.

  \<^bold>\<open>Termination.\<close> No fuel is used. \<open>nn_loop\<close> and \<open>two_opt_while\<close> are total
  functions with termination proofs; for the latter the measure is the number of
  permutations of the tour whose length is below \<open>best_distance\<close>, which is finite
  and shrinks with every accepted move, for every state (also one that no run reaches).

  \<^bold>\<open>Library calls.\<close> What the code calls and does not define is either a
  definition written from the library's documentation (the \<open>py_\<close> functions, the
  numpy functions, the tree operations of BeautifulSoup) or a parameter of the route
  that calls it (\<open>soup_of\<close> for the XML parser, \<open>float_of\<close> for \<open>float\<close>, the
  record \<open>env\<close> of the AI route): a theorem about such a route holds for every value
  of the parameter. An accessor of \<open>env\<close> returns a string or an exception; an answer
  whose text is not a string counts as an exception of the accessor. Strings are lists
  of 8-bit characters.

  \<^bold>\<open>Not modelled.\<close> The HTTP layer (FastAPI routing, JSON encoding, the
  validation of requests by pydantic, CORS, the bearer token of \<open>export_pdf\<close>), the
  models of the response of the AI route beyond their fields, and the application
  setup.
\<close>

section \<open>The handler from end to end\<close>

text \<open>
  C2: the handler never raises, and its response is the one of the reference
  definition: for two places or more, the response of the tour that the reference
  search reaches from the greedy order of visit.
\<close>

theorem optimize_day_refines: "optimize_day request = return (optimize_day_ref request)"
proof (cases "length (places request) \<le> 1")
  case True
  then show ?thesis
    by (simp add: optimize_day_small optimize_day_ref_def)
next
  case False
  then have "optimize_day request =
      return (tour_response (place_dict (places request)) (travel_mode request)
        (two_opt_ref (place_dict (places request)) (tsp_nearest_neighbor (places request))))"
    by (simp add: optimize_day_tour)
  with False show ?thesis
    by (simp add: optimize_day_ref_def nn_tour_visit Let_def)
qed

text \<open>
  C1: the permutation invariant. For every request the handler returns a response
  whose \<open>order\<close> is a permutation of the identifiers of the places of the request.
\<close>

theorem optimize_day_permutation:
  "\<exists>r. optimize_day request = return r \<and> mset (order r) = mset (ids (places request))"
proof -
  have "mset (ids (nn_visit (places request))) = image_mset id_of (mset (nn_visit (places request)))"
    by simp
  then have "mset (order (optimize_day_ref request)) = mset (ids (places request))"
    by (simp add: optimize_day_ref_def Let_def)
  then show ?thesis by (simp add: optimize_day_returns)
qed

text \<open>
  C12: start anchoring. The tour of the response begins with the first place of the
  request: construction starts there and no reversal of the refinement moves position 0.
\<close>

theorem optimize_day_start:
  "\<exists>r. optimize_day request = return r \<and> take 1 (order r) = take 1 (ids (places request))"
proof -
  have "take 1 (ids (nn_visit (places request))) = ids (take 1 (nn_visit (places request)))"
    by (simp add: take_map)
  also have "\<dots> = take 1 (ids (places request))"
    by (simp only: nn_visit_first take_map)
  finally have "take 1 (order (optimize_day_ref request)) = take 1 (ids (places request))"
    by (simp add: optimize_day_ref_def Let_def)
  then show ?thesis by (simp add: optimize_day_returns)
qed

text \<open>
  C40: the response is at least as good as the greedy tour and cannot be improved by a
  move of the search. Its \<open>total_distance\<close> is at most the closed length of the tour
  that \<open>tsp_nearest_neighbor\<close> constructs, and its \<open>order\<close> is locally optimal.
\<close>

theorem optimize_day_refined:
  "\<exists>r. optimize_day request = return r \<and>
     total_distance r \<le> cycle_length (place_dict (places request)) (tsp_nearest_neighbor (places request)) \<and>
     locally_optimal (place_dict (places request)) (order r)"
proof (cases "length (places request) \<le> 1")
  case True
  then show ?thesis
    by (simp add: optimize_day_small locally_optimal_def)
next
  case False
  then show ?thesis
    by (simp add: optimize_day_tour two_opt_ref_not_longer two_opt_ref_optimal)
qed

end
